theory Spec2Isabelle
  imports Complex_Main "HOL-Library.Word"
begin

unbundle bit_operations_syntax

section \<open>Machine integers of the decoder\<close>

text \<open>
  The decoder is C++ on a platform with 8-bit \<open>unsigned char\<close>, 16-bit
  \<open>unsigned short\<close> and 32-bit \<open>int\<close> and \<open>unsigned int\<close>. Integer promotion is
  written out: an operand narrower than \<open>int\<close> is widened to 32 bits before an
  operator is applied, and an assignment to a narrower variable truncates.
\<close>

type_synonym u8 = "8 word"
type_synonym u16 = "16 word"
type_synonym u32 = "32 word"

section \<open>CRC-16 of NFC-B frames (\<open>NfcB::Impl::checkCrc\<close>)\<close>

text \<open>
  The body of the \<open>for\<close> loop of \<open>checkCrc\<close>, for the frame byte \<open>b = frame[i]\<close>:
  \<^verbatim>\<open>
  auto d = (unsigned char) frame[i];
  d = (d ^ (unsigned int) (crc & 0xff));
  d = (d ^ (d << 4));
  crc = (crc >> 8) ^ ((unsigned short) (d << 8)) ^ ((unsigned short) (d << 3)) ^ ((unsigned short) (d >> 4));
  \<close>
\<close>

definition crcByte :: "u16 \<Rightarrow> u8 \<Rightarrow> u16" where
  "crcByte crc b =
    (let d0 = b;
         d1 = (ucast ((ucast d0 :: u32) XOR ((ucast crc :: u32) AND 0xff)) :: u8);
         d2 = (ucast ((ucast d1 :: u32) XOR push_bit 4 (ucast d1 :: u32)) :: u8)
     in (ucast (drop_bit 8 (ucast crc :: u32)
           XOR (ucast (ucast (push_bit 8 (ucast d2 :: u32)) :: u16) :: u32)
           XOR (ucast (ucast (push_bit 3 (ucast d2 :: u32)) :: u16) :: u32)
           XOR (ucast (ucast (drop_bit 4 (ucast d2 :: u32)) :: u16) :: u32)) :: u16))"

text \<open>The loop \<^verbatim>\<open>for (int i = 0; i < length - 2; i++)\<close>, from index \<open>i\<close> up to \<open>n\<close>.\<close>

function crcLoop :: "u8 list \<Rightarrow> nat \<Rightarrow> nat \<Rightarrow> u16 \<Rightarrow> u16" where
  "crcLoop frame n i crc =
    (if i < n then crcLoop frame n (i + 1) (crcByte crc (frame ! i)) else crc)"
  by pat_completeness auto
termination
  by (relation "measure (\<lambda>(frame, n, i, crc). n - i)") auto

declare crcLoop.simps [simp del]

text \<open>
  \<open>checkCrc\<close>. A frame is its bytes, \<open>frame.limit()\<close> their number. The early
  return for a length of at most 2 comes first, so both trailer reads are in range.
\<close>

definition checkCrc :: "u8 list \<Rightarrow> bool" where
  "checkCrc frame =
    (let crc0 = (0xFFFF :: u16);
         res0 = (0 :: u16);
         len = length frame
     in if len \<le> 2 then False
        else
          let crc1 = crcLoop frame (len - 2) 0 crc0;
              crc2 = NOT crc1;
              res1 = (ucast ((ucast res0 :: u32) OR ((ucast (frame ! (len - 2)) :: u32) AND 0xff)) :: u16);
              res2 = (ucast ((ucast res1 :: u32)
                       OR push_bit 8 ((ucast (frame ! (len - 1)) :: u32) AND 0xff)) :: u16)
          in res2 = crc2)"

subsection \<open>The CRC as the specification words it\<close>

text \<open>
  The specification's byte-wise update on natural numbers, truncation written as
  \<open>mod\<close>: \<open>d \<leftarrow> byte XOR (crc AND 0xFF)\<close>; \<open>d \<leftarrow> d XOR (d << 4)\<close> truncated to
  8 bits; \<open>crc \<leftarrow> (crc >> 8) XOR (d << 8) XOR (d << 3) XOR (d >> 4)\<close> truncated to 16
  bits.
\<close>

definition specCrcStep :: "nat \<Rightarrow> nat \<Rightarrow> nat" where
  "specCrcStep crc byte =
    (let d = byte XOR (crc AND 0xFF);
         d' = (d XOR push_bit 4 d) mod 2 ^ 8
     in (drop_bit 8 crc XOR push_bit 8 d' XOR push_bit 3 d' XOR drop_bit 4 d') mod 2 ^ 16)"

text \<open>Register \<open>0xFFFF\<close> at the start, the 16-bit complement at the end.\<close>

definition specCrc16 :: "nat list \<Rightarrow> nat" where
  "specCrc16 bytes = 2 ^ 16 - 1 - foldl specCrcStep 0xFFFF bytes"

text \<open>The trailer read as little-endian: \<open>frame[len-2] | (frame[len-1] << 8)\<close>.\<close>

definition specTrailer :: "nat list \<Rightarrow> nat" where
  "specTrailer bytes =
    (bytes ! (length bytes - 2)) OR push_bit 8 (bytes ! (length bytes - 1))"

text \<open>The two bytes of a 16-bit CRC in little-endian order.\<close>

definition crcBytesLE :: "nat \<Rightarrow> u8 list" where
  "crcBytesLE c = [of_nat (c mod 2 ^ 8), of_nat (c div 2 ^ 8)]"

section \<open>Constants (\<open>Nfc.h\<close>, \<open>NfcB.cpp\<close>)\<close>

text \<open>
  The enumerations are used as plain integers by the decoder (\<open>frameStatus.frameType = 0\<close>,
  \<open>pattern > PatternType::NoPattern\<close>, \<open>rate <= r424k\<close>), so each enumerator is the
  number \<open>Nfc.h\<close> gives it. A rate indexes the arrays \<open>bitrateParams\<close> and
  \<open>modulationStatus\<close>.
\<close>

abbreviation r106k :: nat where "r106k \<equiv> 0"
abbreviation r212k :: nat where "r212k \<equiv> 1"
abbreviation r424k :: nat where "r424k \<equiv> 2"
abbreviation r848k :: nat where "r848k \<equiv> 3"

abbreviation TechType_NfcB :: u32 where "TechType_NfcB \<equiv> 2"

abbreviation PollFrame :: u32 where "PollFrame \<equiv> 2"
abbreviation ListenFrame :: u32 where "ListenFrame \<equiv> 3"

abbreviation Truncated :: u32 where "Truncated \<equiv> 0x08"
abbreviation CrcError :: u32 where "CrcError \<equiv> 0x20"

abbreviation SelectionFrame :: u32 where "SelectionFrame \<equiv> 1"
abbreviation ApplicationFrame :: u32 where "ApplicationFrame \<equiv> 2"

abbreviation SOF_BEGIN :: u32 where "SOF_BEGIN \<equiv> 0"
abbreviation SOF_IDLE :: u32 where "SOF_IDLE \<equiv> 1"
abbreviation SOF_END :: u32 where "SOF_END \<equiv> 2"

abbreviation Invalid :: u32 where "Invalid \<equiv> 0"
abbreviation NoPattern :: u32 where "NoPattern \<equiv> 1"
abbreviation PatternL :: u32 where "PatternL \<equiv> 2"
abbreviation PatternH :: u32 where "PatternH \<equiv> 3"

text \<open>
  Modelled from the spec: \<open>CommandType::NFCA_REQB\<close>, whose declaration is not among the
  sources; the specification gives the REQB command byte as \<open>0x05\<close>.
\<close>

abbreviation NFCA_REQB :: u32 where "NFCA_REQB \<equiv> 0x05"

section \<open>Floating point and the constants of the missing header\<close>

text \<open>
  The decoder computes on \<open>float\<close> values. The type of floats is a parameter \<open>'f\<close> of
  the model, with \<open>+\<close>, \<open>-\<close>, \<open>*\<close>, \<open>/\<close>, \<open><\<close> and \<open>abs\<close> as operations of
  which nothing is assumed, so that every theorem below holds whatever floating-point
  arithmetic computes, and none rests on a law of the real numbers. What passes between
  floats and integers, the decimal literals and the two constants that the header of
  the decoder declares (the header is not among the sources) are the fields of an
  environment:
  \<^item> \<open>ofInt\<close>: an integer converted to floating point;
  \<^item> \<open>toInt\<close>: the conversion \<open>int(x)\<close> of a float;
  \<^item> \<open>roundF\<close>: the library function \<open>round\<close>;
  \<^item> \<open>lit\<close>: the value of a decimal literal such as \<open>0.001\<close>;
  \<^item> \<open>NAN\<close>: the macro \<open>NAN\<close>;
  \<^item> \<open>SignalBufferLength\<close>: the length of the ring buffer of samples;
  \<^item> \<open>BaseFrequency\<close>: the carrier frequency.
\<close>

record 'f Env =
  ofInt :: "int \<Rightarrow> 'f"
  toInt :: "'f \<Rightarrow> int"
  roundF :: "'f \<Rightarrow> 'f"
  lit :: "rat \<Rightarrow> 'f"
  NAN :: "'f"
  SignalBufferLength :: u32
  BaseFrequency :: "'f"

text \<open>An unsigned integer converted to floating point, and a float stored in an unsigned field.\<close>

definition ofU32 :: "'f Env \<Rightarrow> u32 \<Rightarrow> 'f" where
  "ofU32 env w = ofInt env (uint w)"

definition toU32 :: "'f Env \<Rightarrow> 'f \<Rightarrow> u32" where
  "toU32 env x = word_of_int (toInt env x)"

section \<open>The state of the decoder\<close>

text \<open>
  The structures are declared in the header of the decoder, which is not among the
  sources; their fields are the ones \<open>NfcB.cpp\<close> reads and writes. Sample clocks,
  sample counts and counters are 32-bit unsigned integers, as \<open>lastFrameEnd\<close> and
  \<open>chainedFlags\<close>, which \<open>NfcB::Impl\<close> declares itself and which receive them.
\<close>

record 'f BitrateParams =
  rateType :: u32
  techType :: u32
  symbolAverageW0 :: 'f
  symbolAverageW1 :: 'f
  symbolsPerSecond :: u32
  period1SymbolSamples :: u32
  period2SymbolSamples :: u32
  period4SymbolSamples :: u32
  period8SymbolSamples :: u32
  symbolDelayDetect :: u32
  offsetSignalIndex :: u32
  offsetSymbolIndex :: u32
  offsetFilterIndex :: u32
  offsetDetectIndex :: u32

record 'f ModulationStatus =
  searchStage :: u32
  searchStartTime :: u32
  searchEndTime :: u32
  searchPeakTime :: u32
  searchPulseWidth :: u32
  searchDeepValue :: 'f
  symbolStartTime :: u32
  symbolEndTime :: u32
  symbolSyncTime :: u32
  symbolAverage :: 'f
  symbolPhase :: 'f
  signalIndex :: u32
  filterIndex :: u32
  detectIndex :: u32
  filterIntegrate :: 'f
  detectIntegrate :: 'f
  phaseIntegrate :: 'f
  detectorPeek :: 'f
  correlationPeek :: 'f

text \<open>
  \<open>SymbolStatus\<close>: the fields \<open>value\<close>, \<open>start\<close>, \<open>end\<close> and \<open>length\<close> of the
  source are \<open>symValue\<close>, \<open>symStart\<close>, \<open>symEnd\<close> and \<open>symLength\<close> here.
\<close>

record SymbolStatus =
  symValue :: u32
  symStart :: u32
  symEnd :: u32
  symLength :: u32
  pattern :: u32

text \<open>
  \<open>StreamStatus\<close>: \<open>buffer\<close> is an array of bytes of fixed capacity, here a list
  whose length is the capacity.
\<close>

record StreamStatus =
  bits :: u32
  data :: u32
  bytes :: u32
  buffer :: "u8 list"

record FrameStatus =
  lastCommand :: u32
  frameType :: u32
  symbolRate :: u32
  frameStart :: u32
  frameEnd :: u32
  guardEnd :: u32
  waitingEnd :: u32
  frameGuardTime :: u32
  frameWaitingTime :: u32
  startUpGuardTime :: u32
  requestGuardTime :: u32

record ProtocolStatus =
  maxFrameSize :: u32
  frameGuardTime :: u32
  frameWaitingTime :: u32
  startUpGuardTime :: u32
  requestGuardTime :: u32

record 'f SignalParams =
  sampleTimeUnit :: 'f
  powerAverageW0 :: 'f
  powerAverageW1 :: 'f
  signalAverageW0 :: 'f
  signalAverageW1 :: 'f
  signalVarianceW0 :: 'f
  signalVarianceW1 :: 'f

text \<open>\<open>signalData\<close> is the ring buffer, read at an index below \<open>SignalBufferLength\<close>.\<close>

record 'f SignalStatus =
  powerAverage :: 'f
  signalData :: "nat \<Rightarrow> 'f"

text \<open>
  \<open>DecoderStatus\<close>. The pointers \<open>bitrate\<close> and \<open>modulation\<close> point into the arrays
  \<open>bitrateParams\<close> and \<open>modulationStatus\<close> of \<open>NfcB::Impl\<close> or are null: each is the
  index of the entry, or \<open>None\<close>.
\<close>

record 'f DecoderStatus =
  sampleRate :: u32
  powerLevelThreshold :: 'f
  signalParams :: "'f SignalParams"
  signalStatus :: "'f SignalStatus"
  signalClock :: u32
  bitrate :: "nat option"
  modulation :: "nat option"

text \<open>
  \<open>NfcB::Impl\<close>. The decoder status it points to is the field \<open>decoder\<close>; the arrays
  of four entries are functions of the rate.
\<close>

record 'f Impl =
  decoder :: "'f DecoderStatus"
  bitrateParams :: "nat \<Rightarrow> 'f BitrateParams"
  symbolStatus :: SymbolStatus
  streamStatus :: StreamStatus
  frameStatus :: FrameStatus
  protocolStatus :: ProtocolStatus
  modulationStatus :: "nat \<Rightarrow> 'f ModulationStatus"
  minimumModulationThreshold :: 'f
  maximumModulationThreshold :: 'f
  lastFrameEnd :: u32
  chainedFlags :: u32

text \<open>
  Modelled from the spec: \<open>NfcFrame\<close>, whose class is not among the sources. The
  specification describes it as the output artifact: technology, type, sample start and
  end, wall-time start and end, the byte payload, a bitmask of flags and a phase.
  \<open>NfcFrame(tech, type)\<close> makes a frame with no payload, no flag and phase 0;
  \<open>setFrameFlags\<close> sets the given bits of the mask and \<open>setFramePhase\<close> assigns the
  phase; \<open>put(buffer, n)\<close> followed by \<open>flip()\<close> appends \<open>n\<close> bytes of the buffer,
  after which \<open>limit()\<close> is the number of bytes and \<open>frame[i]\<close> the byte at \<open>i\<close>.
\<close>

record 'f NfcFrame =
  nfTechType :: u32
  nfFrameType :: u32
  nfFramePhase :: u32
  nfFrameFlags :: u32
  nfFrameRate :: u32
  nfSampleStart :: u32
  nfSampleEnd :: u32
  nfTimeStart :: 'f
  nfTimeEnd :: 'f
  nfData :: "u8 list"

definition newNfcFrame :: "u32 \<Rightarrow> u32 \<Rightarrow> ('f::zero) NfcFrame" where
  "newNfcFrame tech ftype =
    \<lparr>nfTechType = tech, nfFrameType = ftype, nfFramePhase = 0, nfFrameFlags = 0,
     nfFrameRate = 0, nfSampleStart = 0, nfSampleEnd = 0, nfTimeStart = 0, nfTimeEnd = 0,
     nfData = []\<rparr>"

definition setFrameFlags :: "u32 \<Rightarrow> 'f NfcFrame \<Rightarrow> 'f NfcFrame" where
  "setFrameFlags fl frame = frame\<lparr>nfFrameFlags := nfFrameFlags frame OR fl\<rparr>"

definition setFramePhase :: "u32 \<Rightarrow> 'f NfcFrame \<Rightarrow> 'f NfcFrame" where
  "setFramePhase ph frame = frame\<lparr>nfFramePhase := ph\<rparr>"

definition isPollFrame :: "'f NfcFrame \<Rightarrow> bool" where
  "isPollFrame frame = (nfFrameType frame = PollFrame)"

definition isListenFrame :: "'f NfcFrame \<Rightarrow> bool" where
  "isListenFrame frame = (nfFrameType frame = ListenFrame)"

definition limit :: "'f NfcFrame \<Rightarrow> nat" where
  "limit frame = length (nfData frame)"

text \<open>
  What goes wrong without an error value in C++: a null pointer dereferenced, an array
  read or written outside its bounds.
\<close>

datatype fault = NullPointer | OutOfBounds

text \<open>The zero initialisers \<open>{0,}\<close>.\<close>

definition zeroBitrateParams :: "('f::zero) BitrateParams" where
  "zeroBitrateParams =
    \<lparr>rateType = 0, techType = 0, symbolAverageW0 = 0, symbolAverageW1 = 0,
     symbolsPerSecond = 0, period1SymbolSamples = 0, period2SymbolSamples = 0,
     period4SymbolSamples = 0, period8SymbolSamples = 0, symbolDelayDetect = 0,
     offsetSignalIndex = 0, offsetSymbolIndex = 0, offsetFilterIndex = 0,
     offsetDetectIndex = 0\<rparr>"

definition zeroModulationStatus :: "('f::zero) ModulationStatus" where
  "zeroModulationStatus =
    \<lparr>searchStage = 0, searchStartTime = 0, searchEndTime = 0, searchPeakTime = 0,
     searchPulseWidth = 0, searchDeepValue = 0, symbolStartTime = 0, symbolEndTime = 0,
     symbolSyncTime = 0, symbolAverage = 0, symbolPhase = 0, signalIndex = 0,
     filterIndex = 0, detectIndex = 0, filterIntegrate = 0, detectIntegrate = 0,
     phaseIntegrate = 0, detectorPeek = 0, correlationPeek = 0\<rparr>"

definition zeroSymbolStatus :: SymbolStatus where
  "zeroSymbolStatus = \<lparr>symValue = 0, symStart = 0, symEnd = 0, symLength = 0, pattern = 0\<rparr>"

text \<open>Zeroing the stream status zeroes every byte of the buffer and keeps its capacity.\<close>

definition zeroStreamStatus :: "nat \<Rightarrow> StreamStatus" where
  "zeroStreamStatus capacity = \<lparr>bits = 0, data = 0, bytes = 0, buffer = replicate capacity 0\<rparr>"

definition zeroFrameStatus :: FrameStatus where
  "zeroFrameStatus =
    \<lparr>lastCommand = 0, frameType = 0, symbolRate = 0, frameStart = 0, frameEnd = 0,
     guardEnd = 0, waitingEnd = 0, frameGuardTime = 0, frameWaitingTime = 0,
     startUpGuardTime = 0, requestGuardTime = 0\<rparr>"

section \<open>Reset of the modulation status (\<open>NfcB::Impl::resetModulation\<close>)\<close>

text \<open>
  One pass of the loop \<^verbatim>\<open>for (int rate = r106k; rate <= r424k; rate++)\<close>: the nine
  assignments (\<open>resetEntry\<close>) to \<open>modulationStatus[rate]\<close>.
\<close>

definition resetEntry ::
  "'f Env \<Rightarrow> ('f::{zero,plus,minus,uminus,times,inverse,abs,ord}) ModulationStatus \<Rightarrow> 'f ModulationStatus" where
  "resetEntry env m =
    m\<lparr>searchStage := 0,
      searchStartTime := 0,
      searchEndTime := 0,
      searchPulseWidth := 0,
      searchDeepValue := 0,
      symbolAverage := 0,
      symbolPhase := NAN env,
      detectorPeek := 0,
      correlationPeek := 0\<rparr>"

definition resetRate :: "'f Env \<Rightarrow> nat \<Rightarrow> ('f::{zero,plus,minus,uminus,times,inverse,abs,ord}) Impl \<Rightarrow> 'f Impl" where
  "resetRate env rate s =
    s\<lparr>modulationStatus := (modulationStatus s)(rate := resetEntry env (modulationStatus s rate))\<rparr>"

function resetLoop :: "'f Env \<Rightarrow> nat \<Rightarrow> ('f::{zero,plus,minus,uminus,times,inverse,abs,ord}) Impl \<Rightarrow> 'f Impl" where
  "resetLoop env rate s =
    (if rate \<le> r424k then resetLoop env (rate + 1) (resetRate env rate s) else s)"
  by pat_completeness auto
termination
  by (relation "measure (\<lambda>(env, rate, s). 3 - rate)") auto

declare resetLoop.simps [simp del]

definition resetModulation :: "'f Env \<Rightarrow> ('f::{zero,plus,minus,uminus,times,inverse,abs,ord}) Impl \<Rightarrow> 'f Impl" where
  "resetModulation env s =
    (let s1 = resetLoop env r106k s;
         s2 = s1\<lparr>streamStatus := zeroStreamStatus (length (buffer (streamStatus s1)))\<rparr>;
         s3 = s2\<lparr>symbolStatus := zeroSymbolStatus\<rparr>;
         s4 = s3\<lparr>frameStatus := (frameStatus s3)\<lparr>frameType := 0, frameStart := 0, frameEnd := 0\<rparr>\<rparr>;
         s5 = s4\<lparr>decoder := (decoder s4)\<lparr>bitrate := None\<rparr>\<rparr>;
         s6 = s5\<lparr>decoder := (decoder s5)\<lparr>modulation := None\<rparr>\<rparr>
     in s6)"

section \<open>Classification of a frame (\<open>process\<close>, \<open>processREQB\<close>, \<open>processOther\<close>)\<close>

text \<open>
  \<open>processREQB\<close> returns whether it recognised the frame, with the frame and the state
  as it leaves them. \<open>frame[0]\<close> is read before the length is compared, which a frame
  without bytes does not allow.
\<close>

definition processREQB ::
  "'f Env \<Rightarrow> 'f NfcFrame \<Rightarrow> ('f::{zero,plus,minus,uminus,times,inverse,abs,ord}) Impl \<Rightarrow> fault + (bool \<times> 'f NfcFrame \<times> 'f Impl)" where
  "processREQB env frame s =
    (if isPollFrame frame \<and> nfData frame = [] then Inl OutOfBounds
     else if isPollFrame frame \<and> (ucast (nfData frame ! 0) :: u32) = NFCA_REQB \<and> limit frame = 5 then
       let stu = sampleTimeUnit (signalParams (decoder s));
           s1 = s\<lparr>frameStatus := (frameStatus s)\<lparr>lastCommand := ucast (nfData frame ! 0)\<rparr>\<rparr>;
           s2 = s1\<lparr>protocolStatus := (protocolStatus s1)
                  \<lparr>maxFrameSize := 256,
                   ProtocolStatus.frameGuardTime := toU32 env (stu * ofInt env 128 * ofInt env 7),
                   ProtocolStatus.frameWaitingTime :=
                     toU32 env (stu * ofInt env 256 * ofInt env 16 * ofInt env (push_bit 4 1))\<rparr>\<rparr>;
           s3 = s2\<lparr>frameStatus := (frameStatus s2)
                  \<lparr>FrameStatus.frameGuardTime := toU32 env (stu * ofInt env 128 * ofInt env 7),
                   FrameStatus.frameWaitingTime := toU32 env (stu * ofInt env 128 * ofInt env 18)\<rparr>\<rparr>;
           s4 = s3\<lparr>chainedFlags := 0\<rparr>;
           frame1 = setFramePhase SelectionFrame frame;
           frame2 = setFrameFlags (if \<not> checkCrc (nfData frame1) then CrcError else 0) frame1
       in Inr (True, frame2, s4)
     else if isListenFrame frame \<and> lastCommand (frameStatus s) = NFCA_REQB then
       Inr (True, setFramePhase SelectionFrame frame, s)
     else Inr (False, frame, s))"

definition processOther :: "'f NfcFrame \<Rightarrow> 'f NfcFrame" where
  "processOther frame =
    (let frame1 = setFramePhase ApplicationFrame frame
     in setFrameFlags (if \<not> checkCrc (nfData frame1) then CrcError else 0) frame1)"

text \<open>
  \<open>process\<close>. The loop \<^verbatim>\<open>while (true)\<close> runs once: it is left by \<open>break\<close> after
  \<open>processREQB\<close> has recognised the frame, or else after \<open>processOther\<close>.
\<close>

definition process ::
  "'f Env \<Rightarrow> 'f NfcFrame \<Rightarrow> ('f::{zero,plus,minus,uminus,times,inverse,abs,ord}) Impl \<Rightarrow> fault + ('f NfcFrame \<times> 'f Impl)" where
  "process env frame s =
    (let s1 = (if isPollFrame frame
               then s\<lparr>frameStatus := (frameStatus s)
                      \<lparr>FrameStatus.frameWaitingTime := ProtocolStatus.frameWaitingTime (protocolStatus s)\<rparr>\<rparr>
               else s)
     in case processREQB env frame s1 of
          Inl e \<Rightarrow> Inl e
        | Inr (recognised, frame1, s2) \<Rightarrow>
            let frame2 = (if recognised then frame1 else processOther frame1);
                frame3 = setFrameFlags (chainedFlags s2) frame2;
                fs = frameStatus s2;
                s3 = (if isPollFrame frame3 then
                        (case bitrate (decoder s2) of
                           Some r \<Rightarrow>
                             s2\<lparr>frameStatus := fs
                               \<lparr>guardEnd := frameEnd fs + FrameStatus.frameGuardTime fs
                                             + symbolDelayDetect (bitrateParams s2 r),
                                waitingEnd := frameEnd fs + FrameStatus.frameWaitingTime fs
                                             + symbolDelayDetect (bitrateParams s2 r),
                                frameType := ListenFrame\<rparr>\<rparr>
                         | None \<Rightarrow> s2)
                      else s2\<lparr>frameStatus := fs\<lparr>frameType := 0, lastCommand := 0\<rparr>\<rparr>);
                s4 = s3\<lparr>lastFrameEnd := frameEnd (frameStatus s3)\<rparr>;
                s5 = s4\<lparr>frameStatus := (frameStatus s4)\<lparr>frameStart := 0, frameEnd := 0\<rparr>\<rparr>
            in Inr (frame3, s5))"

section \<open>The symbol tracker (\<open>NfcB::Impl::decodePollFrameSymbolAsk\<close>)\<close>

text \<open>
  Modelled from the spec: \<open>DecoderStatus::nextSample\<close> and the sample buffer, which
  are not among the sources. The buffer is the list of the samples not yet consumed.
  \<open>nextSample\<close> returns false at the end of the stream; otherwise it advances the
  signal clock by one, makes the sample valid in the ring buffer at the new clock, and
  maintains the slow exponential average of the power with the weights that
  \<open>configure\<close> initialises for it.
\<close>

definition nextSample ::
  "'f Env \<Rightarrow> ('f::{zero,plus,minus,uminus,times,inverse,abs,ord}) DecoderStatus \<Rightarrow> 'f list \<Rightarrow> ('f DecoderStatus \<times> 'f list) option" where
  "nextSample env d buf =
    (case buf of
       [] \<Rightarrow> None
     | x # rest \<Rightarrow>
         let clock = signalClock d + 1;
             ss = signalStatus d;
             p = powerAverage ss * powerAverageW0 (signalParams d) + x * powerAverageW1 (signalParams d)
         in Some (d\<lparr>signalClock := clock,
                    signalStatus := ss\<lparr>powerAverage := p,
                      signalData := (signalData ss)(unat (clock AND (SignalBufferLength env - 1)) := x)\<rparr>\<rparr>,
                  rest))"

text \<open>
  Both \<open>detectModulation\<close> and \<open>decodePollFrameSymbolAsk\<close> start the processing of a
  sample with the same statements, for a bitrate entry \<open>b\<close> and a modulation entry
  \<open>m\<close>: the three indices into the ring buffer are computed, the three samples read,
  and the two integrators updated. \<open>integrate\<close> is the modulation entry after that,
  \<open>edgeOf\<close> the signed difference of the two averages, \<open>deepOf\<close> the modulation depth.
\<close>

definition integrate ::
  "'f Env \<Rightarrow> nat \<Rightarrow> nat \<Rightarrow> ('f::{zero,plus,minus,uminus,times,inverse,abs,ord}) Impl \<Rightarrow> 'f ModulationStatus" where
  "integrate env b m s =
    (let bp = bitrateParams s b;
         clock = signalClock (decoder s);
         sd = signalData (signalStatus (decoder s));
         mask = SignalBufferLength env - 1;
         m0 = modulationStatus s m;
         m1 = m0\<lparr>signalIndex := offsetSignalIndex bp + clock,
                 filterIndex := offsetFilterIndex bp + clock,
                 detectIndex := offsetDetectIndex bp + clock\<rparr>;
         signalData = sd (unat (signalIndex m1 AND mask));
         filterData = sd (unat (filterIndex m1 AND mask));
         detectData = sd (unat (detectIndex m1 AND mask));
         m2 = m1\<lparr>filterIntegrate := filterIntegrate m1 + signalData\<rparr>;
         m3 = m2\<lparr>filterIntegrate := filterIntegrate m2 - filterData\<rparr>;
         m4 = m3\<lparr>detectIntegrate := detectIntegrate m3 + signalData\<rparr>
     in m4\<lparr>detectIntegrate := detectIntegrate m4 - detectData\<rparr>)"

definition edgeOf ::
  "'f Env \<Rightarrow> nat \<Rightarrow> nat \<Rightarrow> ('f::{zero,plus,minus,uminus,times,inverse,abs,ord}) Impl \<Rightarrow> 'f" where
  "edgeOf env b m s =
    (let bp = bitrateParams s b; m5 = integrate env b m s
     in filterIntegrate m5 / ofU32 env (period4SymbolSamples bp)
        - detectIntegrate m5 / ofU32 env (period8SymbolSamples bp))"

definition deepOf ::
  "'f Env \<Rightarrow> nat \<Rightarrow> ('f::{zero,plus,minus,uminus,times,inverse,abs,ord}) Impl \<Rightarrow> 'f" where
  "deepOf env b s =
    (let signalData = signalData (signalStatus (decoder s))
           (unat ((offsetSignalIndex (bitrateParams s b) + signalClock (decoder s))
                  AND (SignalBufferLength env - 1)))
     in (powerAverage (signalStatus (decoder s)) - signalData)
        / powerAverage (signalStatus (decoder s)))"

text \<open>
  The rest of the body of the loop \<^verbatim>\<open>while (decoder->nextSample(buffer))\<close>, in
  four steps on the modulation entry: inside the edge re-synchronisation window a
  stronger edge moves the end of the symbol (\<open>symbolResync\<close>); without a
  synchronisation time the next symbol is estimated (\<open>symbolPredict\<close>); at the
  synchronisation point the symbol is decided (\<open>symbolDecide\<close>) and the next window
  armed (\<open>symbolArm\<close>).
\<close>

definition symbolResync ::
  "'f Env \<Rightarrow> 'f BitrateParams \<Rightarrow> u32 \<Rightarrow> 'f \<Rightarrow> 'f \<Rightarrow> 'f
    \<Rightarrow> ('f::{zero,plus,minus,uminus,times,inverse,abs,ord}) ModulationStatus \<Rightarrow> 'f ModulationStatus" where
  "symbolResync env bp clock edgeDetector modulationDeep minThreshold m =
    (if searchStartTime m < clock \<and> clock < searchEndTime m
        \<and> lit env (1 / 1000) < edgeDetector \<and> detectorPeek m < edgeDetector
        \<and> minThreshold < modulationDeep
     then m\<lparr>detectorPeek := edgeDetector,
            symbolEndTime := clock - period8SymbolSamples bp,
            symbolSyncTime := 0\<rparr>
     else m)"

definition symbolPredict :: "'f BitrateParams \<Rightarrow> 'f ModulationStatus \<Rightarrow> 'f ModulationStatus" where
  "symbolPredict bp m =
    (if symbolSyncTime m = 0
     then let m1 = m\<lparr>symbolStartTime := symbolEndTime m\<rparr>;
              m2 = m1\<lparr>symbolEndTime := symbolStartTime m1 + period1SymbolSamples bp\<rparr>
          in m2\<lparr>symbolSyncTime := symbolStartTime m2 + period2SymbolSamples bp\<rparr>
     else m)"

definition symbolDecide ::
  "'f BitrateParams \<Rightarrow> 'f \<Rightarrow> ('f::{zero,plus,minus,uminus,times,inverse,abs,ord})
    \<Rightarrow> 'f ModulationStatus \<Rightarrow> SymbolStatus" where
  "symbolDecide bp modulationDeep minThreshold m =
    (let st = symbolStartTime m - symbolDelayDetect bp;
         en = symbolEndTime m - symbolDelayDetect bp
     in if minThreshold < modulationDeep
        then \<lparr>symValue = 0, symStart = st, symEnd = en, symLength = en - st, pattern = PatternL\<rparr>
        else \<lparr>symValue = 1, symStart = st, symEnd = en, symLength = en - st, pattern = PatternH\<rparr>)"

definition symbolArm ::
  "'f BitrateParams \<Rightarrow> ('f::{zero,plus,minus,uminus,times,inverse,abs,ord}) ModulationStatus
    \<Rightarrow> 'f ModulationStatus" where
  "symbolArm bp m =
    m\<lparr>searchStartTime := symbolEndTime m - period4SymbolSamples bp,
      searchEndTime := symbolEndTime m + period4SymbolSamples bp,
      symbolSyncTime := 0,
      detectorPeek := 0\<rparr>"

text \<open>
  The body of the loop for the bitrate entry \<open>b\<close> and the modulation entry \<open>m\<close> that
  the two local pointers hold: the state it leaves, and whether it left the loop by
  \<open>break\<close>. The edge detector is rectified here.
\<close>

definition symbolSample ::
  "'f Env \<Rightarrow> nat \<Rightarrow> nat \<Rightarrow> ('f::{zero,plus,minus,uminus,times,inverse,abs,ord}) Impl \<Rightarrow> 'f Impl \<times> bool" where
  "symbolSample env b m s =
    (let bp = bitrateParams s b;
         clock = signalClock (decoder s);
         m5 = integrate env b m s;
         edgeDetector = abs (edgeOf env b m s);
         modulationDeep = deepOf env b s;
         m6 = symbolResync env bp clock edgeDetector modulationDeep (minimumModulationThreshold s) m5;
         m7 = symbolPredict bp m6
     in if clock = symbolSyncTime m7 then
          (s\<lparr>symbolStatus := symbolDecide bp modulationDeep (minimumModulationThreshold s) m7,
             modulationStatus := (modulationStatus s)(m := symbolArm bp m7)\<rparr>, True)
        else (s\<lparr>modulationStatus := (modulationStatus s)(m := m7)\<rparr>, False))"

text \<open>
  The loop. The two pointers are copied before it and dereferenced only in its body, so
  a null pointer is harmless when the buffer is empty.
\<close>

function symbolLoop ::
  "'f Env \<Rightarrow> nat option \<Rightarrow> nat option \<Rightarrow> ('f::{zero,plus,minus,uminus,times,inverse,abs,ord}) Impl \<Rightarrow> 'f list
    \<Rightarrow> fault + ('f Impl \<times> 'f list)" where
  "symbolLoop env bp mp s buf =
    (case nextSample env (decoder s) buf of
       None \<Rightarrow> Inr (s, buf)
     | Some (d1, buf1) \<Rightarrow>
         (case (bp, mp) of
            (Some b, Some m) \<Rightarrow>
              (case symbolSample env b m (s\<lparr>decoder := d1\<rparr>) of
                 (s2, True) \<Rightarrow> Inr (s2, buf1)
               | (s2, False) \<Rightarrow> symbolLoop env bp mp s2 buf1)
          | _ \<Rightarrow> Inl NullPointer))"
  by pat_completeness auto
termination
  by (relation "measure (\<lambda>(env, bp, mp, s, buf). length buf)")
     (auto simp: nextSample_def Let_def split: list.splits)

declare symbolLoop.simps [simp del]

definition decodePollFrameSymbolAsk ::
  "'f Env \<Rightarrow> ('f::{zero,plus,minus,uminus,times,inverse,abs,ord}) Impl \<Rightarrow> 'f list
    \<Rightarrow> fault + (u32 \<times> 'f Impl \<times> 'f list)" where
  "decodePollFrameSymbolAsk env s buf =
    (let s0 = s\<lparr>symbolStatus := (symbolStatus s)\<lparr>pattern := Invalid\<rparr>\<rparr>
     in case symbolLoop env (bitrate (decoder s0)) (modulation (decoder s0)) s0 buf of
          Inl e \<Rightarrow> Inl e
        | Inr (s1, buf1) \<Rightarrow> Inr (pattern (symbolStatus s1), s1, buf1))"

section \<open>The bit and byte framer (\<open>NfcB::Impl::decodePollFrame\<close>)\<close>

text \<open>
  The three local flags \<open>frameEnd\<close> (here \<open>frameEndFlag\<close>, as \<open>frameEnd\<close> is a
  field of the frame status), \<open>streamError\<close> and \<open>truncateError\<close>, in this order, and
  the chain of tests that raises them for the symbol \<open>pat\<close>.
\<close>

type_synonym terminators = "bool \<times> bool \<times> bool"

definition terminatorTests :: "terminators \<Rightarrow> 'f Impl \<Rightarrow> u32 \<Rightarrow> terminators" where
  "terminatorTests flags s pat =
    (case flags of (frameEndFlag, streamError, truncateError) \<Rightarrow>
       if bits (streamStatus s) = 9 \<and> data (streamStatus s) = 0 \<and> pat = PatternL
         then (True, streamError, truncateError)
       else if (bits (streamStatus s) = 0 \<and> pat = PatternH)
               \<or> (bits (streamStatus s) = 9 \<and> pat = PatternL)
         then (frameEndFlag, True, truncateError)
       else if bytes (streamStatus s) = maxFrameSize (protocolStatus s)
         then (frameEndFlag, streamError, True)
       else (frameEndFlag, streamError, truncateError))"

text \<open>
  The frame is built, processed and appended: the branch \<open>streamStatus.bytes > 0\<close> of the
  end of a frame.
\<close>

definition emitFrame ::
  "'f Env \<Rightarrow> terminators \<Rightarrow> ('f::{zero,plus,minus,uminus,times,inverse,abs,ord}) Impl \<Rightarrow> 'f NfcFrame list
    \<Rightarrow> fault + ('f Impl \<times> 'f NfcFrame list)" where
  "emitFrame env flags s frames =
    (case flags of (frameEndFlag, streamError, truncateError) \<Rightarrow>
       let s1 = s\<lparr>frameStatus := (frameStatus s)\<lparr>frameEnd := symEnd (symbolStatus s)\<rparr>\<rparr>;
           fs = frameStatus s1;
           response0 = newNfcFrame TechType_NfcB PollFrame
       in case bitrate (decoder s1) of
            None \<Rightarrow> Inl NullPointer
          | Some b \<Rightarrow>
              let response1 = response0
                    \<lparr>nfFrameRate := symbolsPerSecond (bitrateParams s1 b),
                     nfSampleStart := frameStart fs,
                     nfSampleEnd := frameEnd fs,
                     nfTimeStart := ofU32 env (frameStart fs) / ofU32 env (sampleRate (decoder s1)),
                     nfTimeEnd := ofU32 env (frameEnd fs) / ofU32 env (sampleRate (decoder s1))\<rparr>;
                  response2 = (if truncateError \<or> streamError
                               then setFrameFlags Truncated response1 else response1)
              in if length (buffer (streamStatus s1)) < unat (bytes (streamStatus s1))
                 then Inl OutOfBounds
                 else
                   let response3 = response2
                         \<lparr>nfData := take (unat (bytes (streamStatus s1))) (buffer (streamStatus s1))\<rparr>
                   in case modulation (decoder s1) of
                        None \<Rightarrow> Inl NullPointer
                      | Some m \<Rightarrow>
                          let s2 = s1\<lparr>modulationStatus := (modulationStatus s1)
                                     (m := (modulationStatus s1 m)
                                        \<lparr>symbolStartTime := 0,
                                         symbolEndTime := 0,
                                         symbolSyncTime := 0,
                                         filterIntegrate := 0,
                                         detectIntegrate := 0,
                                         phaseIntegrate := 0\<rparr>)\<rparr>;
                              s3 = s2\<lparr>streamStatus :=
                                     zeroStreamStatus (length (buffer (streamStatus s2)))\<rparr>
                          in case process env response3 s3 of
                               Inl e \<Rightarrow> Inl e
                             | Inr (response4, s4) \<Rightarrow> Inr (s4, frames @ [response4]))"

text \<open>The next bit is decoded, or the full byte stored: the end of the body of the loop.\<close>

definition decodeBit :: "'f Impl \<Rightarrow> fault + 'f Impl" where
  "decodeBit s =
    (let ss = streamStatus s
     in if bits ss < 9 then
          let ss1 = (if 0 < bits ss
                     then ss\<lparr>data := data ss OR push_bit (unat (bits ss - 1)) (symValue (symbolStatus s))\<rparr>
                     else ss)
          in Inr (s\<lparr>streamStatus := ss1\<lparr>bits := bits ss1 + 1\<rparr>\<rparr>)
        else if length (buffer ss) \<le> unat (bytes ss) then Inl OutOfBounds
        else Inr (s\<lparr>streamStatus := ss
               \<lparr>buffer := (buffer ss)[unat (bytes ss) := ucast (data ss)],
                bytes := bytes ss + 1,
                data := 0,
                bits := 0\<rparr>\<rparr>))"

text \<open>
  The body of the loop for a decoded symbol \<open>pat\<close>. \<open>Some r\<close> is \<^verbatim>\<open>return r\<close>,
  \<open>None\<close> the end of the body.
\<close>

definition pollBody ::
  "'f Env \<Rightarrow> terminators \<Rightarrow> u32 \<Rightarrow> ('f::{zero,plus,minus,uminus,times,inverse,abs,ord}) Impl \<Rightarrow> 'f NfcFrame list
    \<Rightarrow> fault + (bool option \<times> terminators \<times> 'f Impl \<times> 'f NfcFrame list)" where
  "pollBody env flags pat s frames =
    (let flags1 = terminatorTests flags s pat
     in case flags1 of (frameEndFlag, streamError, truncateError) \<Rightarrow>
          if frameEndFlag \<or> streamError \<or> truncateError then
            (if 0 < bytes (streamStatus s) then
               (case emitFrame env flags1 s frames of
                  Inl e \<Rightarrow> Inl e
                | Inr (s1, frames1) \<Rightarrow> Inr (Some True, flags1, s1, frames1))
             else Inr (Some False, flags1, resetModulation env s, frames))
          else
            (case decodeBit s of
               Inl e \<Rightarrow> Inl e
             | Inr s1 \<Rightarrow> Inr (None, flags1, s1, frames)))"

text \<open>
  The loop \<^verbatim>\<open>while ((pattern = decodePollFrameSymbolAsk(buffer)) > PatternType::NoPattern)\<close>.
  The result is the value returned, the state, the samples left and the list of frames.
\<close>

function pollLoop ::
  "'f Env \<Rightarrow> terminators \<Rightarrow> ('f::{zero,plus,minus,uminus,times,inverse,abs,ord}) Impl \<Rightarrow> 'f list
    \<Rightarrow> 'f NfcFrame list \<Rightarrow> fault + (bool \<times> 'f Impl \<times> 'f list \<times> 'f NfcFrame list)" where
  "pollLoop env flags s buf frames =
    (case decodePollFrameSymbolAsk env s buf of
       Inl e \<Rightarrow> Inl e
     | Inr (pat, s1, buf1) \<Rightarrow>
         if NoPattern < pat then
           (case pollBody env flags pat s1 frames of
              Inl e \<Rightarrow> Inl e
            | Inr (Some r, flags1, s2, frames1) \<Rightarrow> Inr (r, s2, buf1, frames1)
            | Inr (None, flags1, s2, frames1) \<Rightarrow> pollLoop env flags1 s2 buf1 frames1)
         else Inr (False, s1, buf1, frames))"
  by pat_completeness auto
termination
proof (relation "measure (\<lambda>(env, flags, s, buf, frames). length buf)", goal_cases)
  case 1
  show ?case by simp
next
  case prems: 2
  have len: "length b' \<le> length b0"
    if "symbolLoop e p q t b0 = Inr (t', b')" for e p q t t' b0 b'
    using that
  proof (induction e p q t b0 rule: symbolLoop.induct)
    case (1 e p q t b0)
    show ?case
    proof (cases "nextSample e (decoder t) b0")
      case None
      with "1.prems" show ?thesis
        by (subst (asm) symbolLoop.simps) simp
    next
      case (Some r)
      then obtain d1 rest where r: "r = (d1, rest)" and b0: "length rest < length b0"
        by (cases r) (auto simp: nextSample_def Let_def split: list.splits)
      note ns = Some [unfolded r]
      show ?thesis
      proof (cases "\<exists>b m. p = Some b \<and> q = Some m")
        case False
        with "1.prems" ns show ?thesis
          by (subst (asm) symbolLoop.simps) (auto split: option.splits)
      next
        case True
        then obtain b m where p: "p = Some b" and q: "q = Some m" by blast
        obtain t2 fin where ss: "symbolSample e b m (t\<lparr>decoder := d1\<rparr>) = (t2, fin)"
          by (cases "symbolSample e b m (t\<lparr>decoder := d1\<rparr>)")
        show ?thesis
        proof (cases fin)
          case True
          with "1.prems" ns p q ss have "b' = rest"
            by (subst (asm) symbolLoop.simps) simp
          with b0 show ?thesis by simp
        next
          case False
          then have f: "fin = False" by simp
          from False "1.prems" ns p q ss have "symbolLoop e p q t2 rest = Inr (t', b')"
            by (subst (asm) symbolLoop.simps) simp
          from "1.IH" [OF ns refl refl p q ss [symmetric] f this]
          have "length b' \<le> length rest" .
          with b0 show ?thesis by simp
        qed
      qed
    qed
  qed
  have shrink: "length b' < length b0 \<or> t' = t"
    if sl: "symbolLoop e p q t b0 = Inr (t', b')" for e p q t t' b0 b'
  proof (cases "nextSample e (decoder t) b0")
    case None
    with sl show ?thesis
      by (subst (asm) symbolLoop.simps) simp
  next
    case (Some r)
    then obtain d1 rest where r: "r = (d1, rest)" and b0: "length rest < length b0"
      by (cases r) (auto simp: nextSample_def Let_def split: list.splits)
    note ns = Some [unfolded r]
    show ?thesis
    proof (cases "\<exists>b m. p = Some b \<and> q = Some m")
      case False
      with sl ns show ?thesis
        by (subst (asm) symbolLoop.simps) (auto split: option.splits)
    next
      case True
      then obtain b m where p: "p = Some b" and q: "q = Some m" by blast
      obtain t2 fin where ss: "symbolSample e b m (t\<lparr>decoder := d1\<rparr>) = (t2, fin)"
        by (cases "symbolSample e b m (t\<lparr>decoder := d1\<rparr>)")
      show ?thesis
      proof (cases fin)
        case True
        with sl ns p q ss have "b' = rest"
          by (subst (asm) symbolLoop.simps) simp
        with b0 show ?thesis by simp
      next
        case False
        with sl ns p q ss have "symbolLoop e p q t2 rest = Inr (t', b')"
          by (subst (asm) symbolLoop.simps) simp
        from len [OF this] b0 show ?thesis by simp
      qed
    qed
  qed
  have dec: "length b' < length b0"
    if "decodePollFrameSymbolAsk e t b0 = Inr (pat, t', b')" and "NoPattern < pat"
    for e t t' b0 b' pat
  proof -
    from that(1) have
      sl: "symbolLoop e (bitrate (decoder t)) (modulation (decoder t))
             (t\<lparr>symbolStatus := (symbolStatus t)\<lparr>pattern := Invalid\<rparr>\<rparr>) b0 = Inr (t', b')"
      and p: "pat = pattern (symbolStatus t')"
      by (auto simp: decodePollFrameSymbolAsk_def Let_def split: sum.splits)
    from shrink [OF sl] p that(2) show ?thesis by auto
  qed
  from prems show ?case
    by (auto dest: dec)
qed

declare pollLoop.simps [simp del]

definition decodePollFrame ::
  "'f Env \<Rightarrow> ('f::{zero,plus,minus,uminus,times,inverse,abs,ord}) Impl \<Rightarrow> 'f list \<Rightarrow> 'f NfcFrame list
    \<Rightarrow> fault + (bool \<times> 'f Impl \<times> 'f list \<times> 'f NfcFrame list)" where
  "decodePollFrame env s buf frames = pollLoop env (False, False, False) s buf frames"

text \<open>\<open>decodeListenFrame\<close> only detaches the two selections and returns false.\<close>

definition decodeListenFrame :: "'f Impl \<Rightarrow> bool \<times> 'f Impl" where
  "decodeListenFrame s =
    (let s1 = s\<lparr>decoder := (decoder s)\<lparr>bitrate := None\<rparr>\<rparr>;
         s2 = s1\<lparr>decoder := (decoder s1)\<lparr>modulation := None\<rparr>\<rparr>
     in (False, s2))"

definition decodeFrame ::
  "'f Env \<Rightarrow> ('f::{zero,plus,minus,uminus,times,inverse,abs,ord}) Impl \<Rightarrow> 'f list \<Rightarrow> 'f NfcFrame list
    \<Rightarrow> fault + ('f Impl \<times> 'f list \<times> 'f NfcFrame list)" where
  "decodeFrame env s buf frames =
    (case (if frameType (frameStatus s) = PollFrame
           then (case decodePollFrame env s buf frames of
                   Inl e \<Rightarrow> Inl e
                 | Inr (r, s1, buf1, frames1) \<Rightarrow> Inr (s1, buf1, frames1))
           else Inr (s, buf, frames)) of
       Inl e \<Rightarrow> Inl e
     | Inr (s1, buf1, frames1) \<Rightarrow>
         if frameType (frameStatus s1) = ListenFrame
         then Inr (snd (decodeListenFrame s1), buf1, frames1)
         else Inr (s1, buf1, frames1))"

section \<open>The start-of-frame detector (\<open>NfcB::Impl::detectModulation\<close>)\<close>

text \<open>
  The three cases of \<^verbatim>\<open>switch (modulation->searchStage)\<close>, each on the modulation
  entry \<open>m\<close> and the bitrate entry \<open>bp\<close> of the rate, with the signal clock, the
  edge detector and the modulation depth of the sample.

  In each case, the edge is first tracked at its maximum peak (\<open>sofBeginPeak\<close>,
  \<open>sofIdlePeak\<close>, \<open>sofEndPeak\<close>), then the end of the search window is tested.

  \<open>SOF_BEGIN\<close>: the search for the first falling edge. The case ends by \<open>break\<close>.
\<close>

definition sofBeginPeak ::
  "'f Env \<Rightarrow> 'f BitrateParams \<Rightarrow> u32 \<Rightarrow> 'f \<Rightarrow> 'f \<Rightarrow> 'f
    \<Rightarrow> ('f::{zero,plus,minus,uminus,times,inverse,abs,ord}) ModulationStatus \<Rightarrow> 'f ModulationStatus" where
  "sofBeginPeak env bp clock edgeDetector modulationDeep minThreshold m =
    (if detectorPeek m < edgeDetector \<and> lit env (1 / 1000) < edgeDetector
        \<and> minThreshold < modulationDeep
     then m\<lparr>detectorPeek := edgeDetector,
            searchPeakTime := clock,
            searchEndTime := clock + period4SymbolSamples bp\<rparr>
     else m)"

definition sofBegin ::
  "'f Env \<Rightarrow> 'f BitrateParams \<Rightarrow> u32 \<Rightarrow> 'f \<Rightarrow> 'f \<Rightarrow> 'f
    \<Rightarrow> ('f::{zero,plus,minus,uminus,times,inverse,abs,ord}) ModulationStatus \<Rightarrow> 'f ModulationStatus" where
  "sofBegin env bp clock edgeDetector modulationDeep minThreshold m =
    (let m1 = sofBeginPeak env bp clock edgeDetector modulationDeep minThreshold m
     in if clock = searchEndTime m1 then
          (if searchPeakTime m1 \<noteq> 0 then
             m1\<lparr>symbolStartTime := searchPeakTime m1 - period8SymbolSamples bp,
                searchStage := SOF_IDLE,
                searchStartTime := searchPeakTime m1 + 10 * period1SymbolSamples bp
                                   - period2SymbolSamples bp,
                searchEndTime := searchPeakTime m1 + 11 * period1SymbolSamples bp
                                 + period2SymbolSamples bp,
                searchPeakTime := 0,
                detectorPeek := 0\<rparr>
           else m1\<lparr>searchStartTime := 0, searchEndTime := 0\<rparr>)
        else m1)"

text \<open>The seven assignments that send a search back to \<open>SOF_BEGIN\<close>.\<close>

definition sofAbandon :: "('f::zero) ModulationStatus \<Rightarrow> 'f ModulationStatus" where
  "sofAbandon m =
    m\<lparr>searchStage := SOF_BEGIN,
      searchStartTime := 0,
      searchEndTime := 0,
      searchPeakTime := 0,
      detectorPeek := 0,
      symbolStartTime := 0,
      symbolEndTime := 0\<rparr>"

text \<open>
  \<open>SOF_IDLE\<close>: the rising edge between 10 and 11 symbols later. The first component
  tells whether the case ended by \<^verbatim>\<open>return false\<close> rather than by \<open>break\<close>.
\<close>

definition sofIdlePeak ::
  "'f Env \<Rightarrow> 'f BitrateParams \<Rightarrow> u32 \<Rightarrow> 'f
    \<Rightarrow> ('f::{zero,plus,minus,uminus,times,inverse,abs,ord}) ModulationStatus \<Rightarrow> 'f ModulationStatus" where
  "sofIdlePeak env bp clock edgeDetector m =
    (if edgeDetector < - lit env (1 / 1000) \<and> edgeDetector < detectorPeek m
     then m\<lparr>detectorPeek := edgeDetector,
            searchPeakTime := clock,
            searchEndTime := clock + period4SymbolSamples bp\<rparr>
     else m)"

definition sofIdle ::
  "'f Env \<Rightarrow> 'f BitrateParams \<Rightarrow> u32 \<Rightarrow> 'f
    \<Rightarrow> ('f::{zero,plus,minus,uminus,times,inverse,abs,ord}) ModulationStatus
    \<Rightarrow> bool \<times> 'f ModulationStatus" where
  "sofIdle env bp clock edgeDetector m =
    (if searchStartTime m < clock \<and> clock \<le> searchEndTime m then
       let m1 = sofIdlePeak env bp clock edgeDetector m
       in if clock = searchEndTime m1 then
            (if searchPeakTime m1 \<noteq> 0 then
               (False,
                m1\<lparr>searchStage := SOF_END,
                   searchStartTime := searchPeakTime m1 + 2 * period1SymbolSamples bp
                                      - period2SymbolSamples bp,
                   searchEndTime := searchPeakTime m1 + 3 * period1SymbolSamples bp
                                    + period2SymbolSamples bp,
                   searchPeakTime := 0,
                   detectorPeek := 0\<rparr>)
             else (False, sofAbandon m1))
          else (False, m1)
     else if lit env (1 / 1000) < abs edgeDetector then (True, sofAbandon m)
     else (False, m))"

text \<open>
  \<open>SOF_END\<close>: the closing falling edge between 2 and 3 symbols later. The first
  component tells whether the start of frame is confirmed; the assignments to the
  modulation entry of the confirming branch are made here, those to the frame status
  and to the decoder in \<open>detectRate\<close>.
\<close>

definition sofEndPeak ::
  "'f Env \<Rightarrow> 'f BitrateParams \<Rightarrow> u32 \<Rightarrow> 'f \<Rightarrow> 'f \<Rightarrow> 'f
    \<Rightarrow> ('f::{zero,plus,minus,uminus,times,inverse,abs,ord}) ModulationStatus \<Rightarrow> 'f ModulationStatus" where
  "sofEndPeak env bp clock edgeDetector modulationDeep minThreshold m =
    (if lit env (1 / 1000) < edgeDetector \<and> detectorPeek m < edgeDetector
        \<and> minThreshold < modulationDeep
     then m\<lparr>detectorPeek := edgeDetector,
            searchPeakTime := clock,
            searchEndTime := clock + period8SymbolSamples bp\<rparr>
     else m)"

definition sofEnd ::
  "'f Env \<Rightarrow> 'f BitrateParams \<Rightarrow> u32 \<Rightarrow> 'f \<Rightarrow> 'f \<Rightarrow> 'f
    \<Rightarrow> ('f::{zero,plus,minus,uminus,times,inverse,abs,ord}) ModulationStatus
    \<Rightarrow> bool \<times> 'f ModulationStatus" where
  "sofEnd env bp clock edgeDetector modulationDeep minThreshold m =
    (if searchStartTime m < clock \<and> clock \<le> searchEndTime m then
       let m1 = sofEndPeak env bp clock edgeDetector modulationDeep minThreshold m
       in if clock = searchEndTime m1 then
            (if searchPeakTime m1 \<noteq> 0 then
               (True,
                m1\<lparr>symbolEndTime := searchPeakTime m1 - period8SymbolSamples bp,
                   symbolSyncTime := 0,
                   searchStage := SOF_BEGIN,
                   searchStartTime := 0,
                   searchEndTime := 0,
                   searchDeepValue := 0,
                   detectorPeek := 0\<rparr>)
             else (False, sofAbandon m1))
          else (False, m1)
     else (False, m))"

text \<open>
  The body of the loop over the rates. \<open>Some r\<close> is \<^verbatim>\<open>return r\<close>, \<open>None\<close> the end of
  the body. The pointer \<open>modulation\<close> points into \<open>modulationStatus\<close>, so what is
  assigned through it is stored in the entry of the rate; \<open>bp\<close> is the entry of
  \<open>bitrateParams\<close> that the pointer \<open>bitrate\<close> points to.
\<close>

definition detectRate ::
  "'f Env \<Rightarrow> nat \<Rightarrow> ('f::{zero,plus,minus,uminus,times,inverse,abs,ord}) Impl \<Rightarrow> bool option \<times> 'f Impl" where
  "detectRate env rate s =
    (let bp = bitrateParams s rate;
         clock = signalClock (decoder s);
         m = integrate env rate rate s;
         edgeDetector = edgeOf env rate rate s;
         modulationDeep = deepOf env rate s;
         store = (\<lambda>m'. s\<lparr>modulationStatus := (modulationStatus s)(rate := m')\<rparr>)
     in if maximumModulationThreshold s < modulationDeep then
          (Some False,
           store (m\<lparr>searchStage := SOF_BEGIN,
                    searchStartTime := 0,
                    searchEndTime := 0,
                    detectorPeek := 0\<rparr>))
        else if searchStage m = SOF_BEGIN then
          (None, store (sofBegin env bp clock edgeDetector modulationDeep
                          (minimumModulationThreshold s) m))
        else if searchStage m = SOF_IDLE then
          (case sofIdle env bp clock edgeDetector m of
             (returned, m') \<Rightarrow> (if returned then Some False else None, store m'))
        else if searchStage m = SOF_END then
          (case sofEnd env bp clock edgeDetector modulationDeep
                  (minimumModulationThreshold s) m of
             (confirmed, m') \<Rightarrow>
               if confirmed then
                 (Some True,
                  (store m')
                    \<lparr>frameStatus := (frameStatus s)
                       \<lparr>frameType := PollFrame,
                        symbolRate := symbolsPerSecond bp,
                        frameStart := symbolStartTime m - symbolDelayDetect bp,
                        frameEnd := 0\<rparr>,
                     decoder := (decoder s)\<lparr>bitrate := Some rate, modulation := Some rate\<rparr>\<rparr>)
               else (None, store m'))
        else (None, store m))"

text \<open>The loop \<^verbatim>\<open>for (int rate = r106k; rate <= r106k; rate++)\<close>, then \<^verbatim>\<open>return false\<close>.\<close>

function detectLoop ::
  "'f Env \<Rightarrow> nat \<Rightarrow> ('f::{zero,plus,minus,uminus,times,inverse,abs,ord}) Impl \<Rightarrow> bool \<times> 'f Impl" where
  "detectLoop env rate s =
    (if rate \<le> r106k then
       (case detectRate env rate s of
          (Some r, s1) \<Rightarrow> (r, s1)
        | (None, s1) \<Rightarrow> detectLoop env (rate + 1) s1)
     else (False, s))"
  by pat_completeness auto
termination
  by (relation "measure (\<lambda>(env, rate, s). 1 - rate)") auto

declare detectLoop.simps [simp del]

definition detectModulation ::
  "'f Env \<Rightarrow> ('f::{zero,plus,minus,uminus,times,inverse,abs,ord}) Impl \<Rightarrow> bool \<times> 'f Impl" where
  "detectModulation env s =
    (if powerLevelThreshold (decoder s) < powerAverage (signalStatus (decoder s))
     then detectLoop env r106k s
     else (False, s))"

section \<open>Configuration (\<open>NfcB::Impl::configure\<close>)\<close>

text \<open>
  One pass of the loop \<^verbatim>\<open>for (int rate = r106k; rate <= r424k; rate++)\<close>: both
  entries of the rate are cleared and the bitrate entry is computed, the delay from
  the entry of the rate below.
\<close>

definition configureRate ::
  "'f Env \<Rightarrow> nat \<Rightarrow> ('f::{zero,plus,minus,uminus,times,inverse,abs,ord}) Impl \<Rightarrow> 'f Impl" where
  "configureRate env rate s =
    (let stu = sampleTimeUnit (signalParams (decoder s));
         b0 = (zeroBitrateParams :: 'f BitrateParams);
         b1 = b0\<lparr>techType := TechType_NfcB, rateType := of_nat rate\<rparr>;
         b2 = b1\<lparr>symbolsPerSecond := toU32 env (BaseFrequency env / ofInt env (drop_bit rate 128))\<rparr>;
         b3 = b2\<lparr>period1SymbolSamples := toU32 env (roundF env (stu * ofInt env (drop_bit rate 128))),
                 period2SymbolSamples := toU32 env (roundF env (stu * ofInt env (drop_bit rate 64))),
                 period4SymbolSamples := toU32 env (roundF env (stu * ofInt env (drop_bit rate 32))),
                 period8SymbolSamples := toU32 env (roundF env (stu * ofInt env (drop_bit rate 16)))\<rparr>;
         b4 = b3\<lparr>symbolDelayDetect :=
                   (if r106k < rate
                    then symbolDelayDetect (bitrateParams s (rate - 1))
                         + period1SymbolSamples (bitrateParams s (rate - 1))
                    else 0)\<rparr>;
         b5 = b4\<lparr>offsetSignalIndex := SignalBufferLength env - symbolDelayDetect b4,
                 offsetSymbolIndex := SignalBufferLength env - symbolDelayDetect b4
                                      - period1SymbolSamples b4,
                 offsetFilterIndex := SignalBufferLength env - symbolDelayDetect b4
                                      - period4SymbolSamples b4,
                 offsetDetectIndex := SignalBufferLength env - symbolDelayDetect b4
                                      - period8SymbolSamples b4\<rparr>;
         b6 = b5\<lparr>symbolAverageW0 := ofInt env 1 - lit env 5 / ofU32 env (period1SymbolSamples b5)\<rparr>;
         b7 = b6\<lparr>symbolAverageW1 := ofInt env 1 - symbolAverageW0 b6\<rparr>
     in s\<lparr>bitrateParams := (bitrateParams s)(rate := b7),
          modulationStatus := (modulationStatus s)(rate := zeroModulationStatus)\<rparr>)"

function configureLoop ::
  "'f Env \<Rightarrow> nat \<Rightarrow> ('f::{zero,plus,minus,uminus,times,inverse,abs,ord}) Impl \<Rightarrow> 'f Impl" where
  "configureLoop env rate s =
    (if rate \<le> r424k then configureLoop env (rate + 1) (configureRate env rate s) else s)"
  by pat_completeness auto
termination
  by (relation "measure (\<lambda>(env, rate, s). 3 - rate)") auto

declare configureLoop.simps [simp del]

text \<open>
  \<open>configure\<close>. The function returns nothing and has no \<open>throw\<close>; the result is a
  sum so that a failure could be told from a return. \<open>ConfigError\<close> is the failure that
  the specification names. The parameter \<open>sampleRate\<close> (here \<open>sampleRateArg\<close>, as
  \<open>sampleRate\<close> is a field of the decoder status) is not used by the body, which reads
  the sample rate and the sample time unit of the decoder status.
\<close>

datatype configFailure = ConfigError

definition configure ::
  "'f Env \<Rightarrow> int \<Rightarrow> ('f::{zero,plus,minus,uminus,times,inverse,abs,ord}) Impl \<Rightarrow> configFailure + 'f Impl" where
  "configure env sampleRateArg s =
    (let s1 = s\<lparr>symbolStatus := zeroSymbolStatus\<rparr>;
         s2 = s1\<lparr>streamStatus := zeroStreamStatus (length (buffer (streamStatus s1)))\<rparr>;
         s3 = s2\<lparr>frameStatus := zeroFrameStatus\<rparr>;
         s4 = s3\<lparr>lastFrameEnd := 0\<rparr>;
         s5 = s4\<lparr>chainedFlags := 0\<rparr>;
         s6 = configureLoop env r106k s5;
         stu = sampleTimeUnit (signalParams (decoder s6));
         s7 = s6\<lparr>protocolStatus := (protocolStatus s6)
                \<lparr>maxFrameSize := 256,
                 ProtocolStatus.startUpGuardTime :=
                   toU32 env (stu * ofInt env 256 * ofInt env 16 * ofInt env (push_bit 0 1)),
                 ProtocolStatus.frameWaitingTime :=
                   toU32 env (stu * ofInt env 256 * ofInt env 16 * ofInt env (push_bit 4 1)),
                 ProtocolStatus.frameGuardTime := toU32 env (stu * ofInt env 128 * ofInt env 7),
                 ProtocolStatus.requestGuardTime := toU32 env (stu * ofInt env 7000)\<rparr>\<rparr>;
         ps = protocolStatus s7;
         s8 = s7\<lparr>frameStatus := (frameStatus s7)
                \<lparr>FrameStatus.startUpGuardTime := ProtocolStatus.startUpGuardTime ps,
                 FrameStatus.frameWaitingTime := ProtocolStatus.frameWaitingTime ps,
                 FrameStatus.frameGuardTime := ProtocolStatus.frameGuardTime ps,
                 FrameStatus.requestGuardTime := ProtocolStatus.requestGuardTime ps\<rparr>\<rparr>;
         d = decoder s8;
         sp0 = signalParams d;
         sp1 = sp0\<lparr>powerAverageW0 := ofInt env 1 - lit env 1000 / ofU32 env (sampleRate d)\<rparr>;
         sp2 = sp1\<lparr>powerAverageW1 := ofInt env 1 - powerAverageW0 sp1\<rparr>;
         sp3 = sp2\<lparr>signalAverageW0 := ofInt env 1 - lit env 100000 / ofU32 env (sampleRate d)\<rparr>;
         sp4 = sp3\<lparr>signalAverageW1 := ofInt env 1 - signalAverageW0 sp3\<rparr>;
         sp5 = sp4\<lparr>signalVarianceW0 := ofInt env 1 - lit env 100000 / ofU32 env (sampleRate d)\<rparr>;
         sp6 = sp5\<lparr>signalVarianceW1 := ofInt env 1 - signalVarianceW0 sp5\<rparr>
     in Inr (s8\<lparr>decoder := d\<lparr>signalParams := sp6\<rparr>\<rparr>))"

section \<open>A concrete floating-point type for examples\<close>

text \<open>
  For the examples a float is an exact rational number or \<open>NaN\<close>. Arithmetic on \<open>NaN\<close>
  and division by zero give \<open>NaN\<close>, and every comparison with \<open>NaN\<close> is false. The
  examples use values that a \<open>float\<close> holds exactly or that stay away from a rounding
  boundary.
\<close>

datatype cfloat = Num rat | NaN

instantiation cfloat :: "{zero,plus,minus,uminus,times,inverse,abs,ord}"
begin

definition zero_cfloat :: cfloat where
  "zero_cfloat = Num 0"

fun plus_cfloat :: "cfloat \<Rightarrow> cfloat \<Rightarrow> cfloat" where
  "plus_cfloat (Num a) (Num b) = Num (a + b)"
| "plus_cfloat _ _ = NaN"

fun minus_cfloat :: "cfloat \<Rightarrow> cfloat \<Rightarrow> cfloat" where
  "minus_cfloat (Num a) (Num b) = Num (a - b)"
| "minus_cfloat _ _ = NaN"

fun uminus_cfloat :: "cfloat \<Rightarrow> cfloat" where
  "uminus_cfloat (Num a) = Num (- a)"
| "uminus_cfloat NaN = NaN"

fun times_cfloat :: "cfloat \<Rightarrow> cfloat \<Rightarrow> cfloat" where
  "times_cfloat (Num a) (Num b) = Num (a * b)"
| "times_cfloat _ _ = NaN"

fun inverse_cfloat :: "cfloat \<Rightarrow> cfloat" where
  "inverse_cfloat (Num a) = (if a = 0 then NaN else Num (inverse a))"
| "inverse_cfloat NaN = NaN"

fun divide_cfloat :: "cfloat \<Rightarrow> cfloat \<Rightarrow> cfloat" where
  "divide_cfloat (Num a) (Num b) = (if b = 0 then NaN else Num (a / b))"
| "divide_cfloat _ _ = NaN"

fun abs_cfloat :: "cfloat \<Rightarrow> cfloat" where
  "abs_cfloat (Num a) = Num (abs a)"
| "abs_cfloat NaN = NaN"

fun less_cfloat :: "cfloat \<Rightarrow> cfloat \<Rightarrow> bool" where
  "less_cfloat (Num a) (Num b) = (a < b)"
| "less_cfloat _ _ = False"

fun less_eq_cfloat :: "cfloat \<Rightarrow> cfloat \<Rightarrow> bool" where
  "less_eq_cfloat (Num a) (Num b) = (a \<le> b)"
| "less_eq_cfloat _ _ = False"

instance ..

end

text \<open>
  The environment of the examples: conversion to an integer truncates, \<open>round\<close> rounds
  half away from zero, the ring buffer holds 512 samples, the carrier is at 13.56 MHz.
\<close>

definition truncRat :: "rat \<Rightarrow> int" where
  "truncRat q = (if 0 \<le> q then \<lfloor>q\<rfloor> else \<lceil>q\<rceil>)"

definition roundRat :: "rat \<Rightarrow> int" where
  "roundRat q = (if 0 \<le> q then \<lfloor>q + 1 / 2\<rfloor> else \<lceil>q - 1 / 2\<rceil>)"

definition cEnv :: "cfloat Env" where
  "cEnv =
    \<lparr>ofInt = (\<lambda>i. Num (of_int i)),
     toInt = (\<lambda>x. case x of Num q \<Rightarrow> truncRat q | NaN \<Rightarrow> 0),
     roundF = (\<lambda>x. case x of Num q \<Rightarrow> Num (of_int (roundRat q)) | NaN \<Rightarrow> NaN),
     lit = Num,
     NAN = NaN,
     SignalBufferLength = 512,
     BaseFrequency = Num 13560000\<rparr>"

text \<open>
  A decoder status at a sample rate of 10 MHz, a full-scale carrier with the power
  average at 1, and an instance of the decoder with everything else zero and a stream
  buffer of 4 bytes.
\<close>

definition exDecoder :: "cfloat DecoderStatus" where
  "exDecoder =
    \<lparr>sampleRate = 10000000,
     powerLevelThreshold = Num (1 / 100),
     signalParams = \<lparr>sampleTimeUnit = Num (10000000 / 13560000),
                     powerAverageW0 = 0, powerAverageW1 = 0,
                     signalAverageW0 = 0, signalAverageW1 = 0,
                     signalVarianceW0 = 0, signalVarianceW1 = 0\<rparr>,
     signalStatus = \<lparr>powerAverage = Num 1, signalData = (\<lambda>i. Num 1)\<rparr>,
     signalClock = 1000,
     bitrate = None,
     modulation = None\<rparr>"

definition exImpl :: "cfloat Impl" where
  "exImpl =
    \<lparr>decoder = exDecoder,
     bitrateParams = (\<lambda>r. zeroBitrateParams),
     symbolStatus = zeroSymbolStatus,
     streamStatus = zeroStreamStatus 4,
     frameStatus = zeroFrameStatus,
     protocolStatus = \<lparr>maxFrameSize = 0, frameGuardTime = 0, frameWaitingTime = 0,
                       startUpGuardTime = 0, requestGuardTime = 0\<rparr>,
     modulationStatus = (\<lambda>r. zeroModulationStatus),
     minimumModulationThreshold = Num (1 / 10),
     maximumModulationThreshold = Num (1 / 2),
     lastFrameEnd = 0,
     chainedFlags = 0\<rparr>"

text \<open>The same instance with a decoder status at a sample rate of 500 kHz.\<close>

definition exLowRate :: "cfloat Impl" where
  "exLowRate =
    exImpl\<lparr>decoder := exDecoder
      \<lparr>sampleRate := 500000,
       signalParams := (signalParams exDecoder)\<lparr>sampleTimeUnit := Num (500000 / 13560000)\<rparr>\<rparr>\<rparr>"

text \<open>
  The instance in the middle of a search at 106 kbps: stage \<open>SOF_IDLE\<close>, a peak time
  and a symbol start recorded, both integrators loaded.
\<close>

definition exResetState :: "cfloat Impl" where
  "exResetState =
     exImpl\<lparr>modulationStatus := (\<lambda>r. zeroModulationStatus
        \<lparr>searchStage := SOF_IDLE, searchPeakTime := 7, symbolStartTime := 5,
         filterIntegrate := Num 3, detectIntegrate := Num 2\<rparr>),
       decoder := exDecoder\<lparr>bitrate := Some r106k, modulation := Some r106k\<rparr>\<rparr>"

text \<open>
  The instance while a poll frame is decoded at 106 kbps, with a symbol of 8 samples
  and the next synchronisation point at the next sample: the stream status is taken as
  a parameter, and the maximum frame size is 256.
\<close>

definition exBitrate :: "cfloat BitrateParams" where
  "exBitrate =
    zeroBitrateParams
      \<lparr>techType := TechType_NfcB, symbolsPerSecond := 105937,
       period1SymbolSamples := 8, period2SymbolSamples := 4,
       period4SymbolSamples := 2, period8SymbolSamples := 1,
       offsetSignalIndex := 512, offsetSymbolIndex := 504,
       offsetFilterIndex := 510, offsetDetectIndex := 511\<rparr>"

definition exFramer :: "StreamStatus \<Rightarrow> cfloat Impl" where
  "exFramer ss =
     exImpl
      \<lparr>decoder := exDecoder
         \<lparr>bitrate := Some r106k, modulation := Some r106k,
          signalParams := (signalParams exDecoder)\<lparr>powerAverageW0 := Num 1\<rparr>\<rparr>,
       bitrateParams := (\<lambda>r. exBitrate),
       modulationStatus := (\<lambda>r. zeroModulationStatus
          \<lparr>symbolStartTime := 997, symbolEndTime := 1005, symbolSyncTime := 1001\<rparr>),
       frameStatus := zeroFrameStatus\<lparr>frameType := PollFrame, frameStart := 900\<rparr>,
       protocolStatus := (protocolStatus exImpl)\<lparr>maxFrameSize := 256\<rparr>,
       streamStatus := ss\<rparr>"

text \<open>
  Three stream statuses: the byte \<open>0x05\<close> stored and the ten bits of a character of
  zeros counted, the same without a stored byte, and the middle of a character.
\<close>

definition exEof :: "cfloat Impl" where
  "exEof = exFramer \<lparr>bits = 9, data = 0, bytes = 1, buffer = [0x05, 0, 0, 0]\<rparr>"

definition exEofEmpty :: "cfloat Impl" where
  "exEofEmpty = exFramer \<lparr>bits = 9, data = 0, bytes = 0, buffer = [0, 0, 0, 0]\<rparr>"

definition exMid :: "cfloat Impl" where
  "exMid = exFramer \<lparr>bits = 3, data = 1, bytes = 0, buffer = [0, 0, 0, 0]\<rparr>"

text \<open>
  Two more: the start of a character with the byte \<open>0x05\<close> stored, and the middle of a
  character with 256 bytes stored, the maximum frame size.
\<close>

definition exStart :: "cfloat Impl" where
  "exStart = exFramer \<lparr>bits = 0, data = 0, bytes = 1, buffer = [0x05, 0, 0, 0]\<rparr>"

definition exFull :: "cfloat Impl" where
  "exFull = exFramer \<lparr>bits = 3, data = 0, bytes = 256, buffer = replicate 256 0\<rparr>"

text \<open>The REQB frame \<open>05 00 00 71 FF\<close> and a frame with the single byte \<open>0x50\<close>.\<close>

definition exReqb :: "cfloat NfcFrame" where
  "exReqb = (newNfcFrame TechType_NfcB PollFrame)\<lparr>nfData := [0x05, 0x00, 0x00, 0x71, 0xFF]\<rparr>"

definition exShort :: "cfloat NfcFrame" where
  "exShort = (newNfcFrame TechType_NfcB PollFrame)\<lparr>nfData := [0x50]\<rparr>"

text \<open>
  Samples for the detector. \<open>exSig c v f d\<close> is the signal status at the signal clock
  \<open>c\<close> with the power average at 1, in which the ring buffer holds \<open>v\<close> for the
  current sample, \<open>f\<close> two samples back and \<open>d\<close> one sample back (the delays of the
  two integrators of \<open>exBitrate\<close>), and 1 elsewhere.
\<close>

definition exSig :: "nat \<Rightarrow> rat \<Rightarrow> rat \<Rightarrow> rat \<Rightarrow> cfloat SignalStatus" where
  "exSig c v f d =
    \<lparr>powerAverage = Num 1,
     signalData = (\<lambda>i. if i = c mod 512 then Num v
                        else if i = (c + 510) mod 512 then Num f
                        else if i = (c + 511) mod 512 then Num d
                        else Num 1)\<rparr>"

text \<open>The instance at the start of a search, with the bitrate entries of \<open>exBitrate\<close>.\<close>

definition exSearch :: "cfloat Impl" where
  "exSearch = exImpl\<lparr>bitrateParams := (\<lambda>r. exBitrate)\<rparr>"

text \<open>
  A sample with the carrier off (depth 1), then the samples of a start of frame: the
  first falling edge at clock 1001 and the end of its window at 1003; the rising edge
  at 1080 and the end of its window at 1082; the closing falling edge at 1100; and the
  sample at 1101, on which the last window ends.
\<close>

definition exOff :: "u32 \<times> cfloat SignalStatus" where
  "exOff = (1000, exSig 1000 0 0 0)"

definition exSof :: "(u32 \<times> cfloat SignalStatus) list" where
  "exSof =
    [(1001, exSig 1001 (4 / 5) (4 / 5) 1),
     (1003, exSig 1003 1 1 1),
     (1080, exSig 1080 1 1 (1 / 2)),
     (1082, exSig 1082 1 1 1),
     (1100, exSig 1100 (4 / 5) (4 / 5) (3 / 2))]"

definition exLast :: "u32 \<times> cfloat SignalStatus" where
  "exLast = (1101, exSig 1101 1 1 1)"

text \<open>
  The instance late in a search, in the stage \<open>SOF_END\<close> with a peak recorded and the
  window ending at clock 1002; a sample at clock 1001 with no signal and the power
  average at the power level threshold; and the sample at clock 1002.
\<close>

definition exEndSearch :: "cfloat Impl" where
  "exEndSearch =
    exSearch\<lparr>modulationStatus := (\<lambda>r. zeroModulationStatus
       \<lparr>searchStage := SOF_END, searchStartTime := 990, searchEndTime := 1002,
        searchPeakTime := 995, symbolStartTime := 900\<rparr>)\<rparr>"

definition exLowPower :: "u32 \<times> cfloat SignalStatus" where
  "exLowPower = (1001, \<lparr>powerAverage = Num (1 / 100), signalData = (\<lambda>i. Num 0)\<rparr>)"

definition exAfterLow :: "u32 \<times> cfloat SignalStatus" where
  "exAfterLow = (1002, \<lparr>powerAverage = Num (101 / 10000),
                        signalData = (\<lambda>i. if i = 490 then Num (101 / 10000) else Num 0)\<rparr>)"

text \<open>A sample with the carrier off at clock 1050, between the two edges of \<open>exSof\<close>.\<close>

definition exOffMid :: "u32 \<times> cfloat SignalStatus" where
  "exOffMid = (1050, exSig 1050 0 0 0)"

section \<open>Notions for the statements about the framer\<close>

text \<open>
  The invariant of the framer: the bit position is at most 9 and the byte count at most
  the maximum frame size.
\<close>

definition framerInv :: "'f Impl \<Rightarrow> bool" where
  "framerInv s \<longleftrightarrow>
     bits (streamStatus s) \<le> 9 \<and> bytes (streamStatus s) \<le> maxFrameSize (protocolStatus s)"

text \<open>
  One pass of the loop of \<open>decodePollFrame\<close> that reaches the end of the body: a symbol
  is decoded from the state, the samples and the frames at the start of the pass, no
  terminator is raised, and the bit is decoded. The loop then starts its next pass from
  the new state, samples and frames.
\<close>

inductive pass ::
  "'f Env \<Rightarrow> ('f::{zero,plus,minus,uminus,times,inverse,abs,ord}) Impl \<times> 'f list \<times> 'f NfcFrame list
    \<Rightarrow> 'f Impl \<times> 'f list \<times> 'f NfcFrame list \<Rightarrow> bool" for env where
  passI:
    "decodePollFrameSymbolAsk env s buf = Inr (pat, s1, buf1) \<Longrightarrow> NoPattern < pat
     \<Longrightarrow> pollBody env (False, False, False) pat s1 frames = Inr (None, flags1, s2, frames1)
     \<Longrightarrow> pass env (s, buf, frames) (s2, buf1, frames1)"

section \<open>Notions for the statements about the detector\<close>

text \<open>
  Between two calls of \<open>detectModulation\<close> the signal source takes the next sample: it
  sets the signal clock and the signal status of the decoder, and nothing else that the
  detector reads. \<open>detectAll\<close> is the state after the detector has been called on each
  of a list of such samples in turn.
\<close>

definition feedSample :: "u32 \<times> 'f SignalStatus \<Rightarrow> 'f Impl \<Rightarrow> 'f Impl" where
  "feedSample x s = s\<lparr>decoder := (decoder s)\<lparr>signalClock := fst x, signalStatus := snd x\<rparr>\<rparr>"

fun detectAll ::
  "'f Env \<Rightarrow> ('f::{zero,plus,minus,uminus,times,inverse,abs,ord}) Impl
    \<Rightarrow> (u32 \<times> 'f SignalStatus) list \<Rightarrow> 'f Impl" where
  "detectAll env s [] = s"
| "detectAll env s (x # xs) = detectAll env (snd (detectModulation env (feedSample x s))) xs"

text \<open>The sample is examined: the power average exceeds the power level threshold.\<close>

definition examined :: "('f::{zero,plus,minus,uminus,times,inverse,abs,ord}) Impl \<Rightarrow> bool" where
  "examined s \<longleftrightarrow> powerLevelThreshold (decoder s) < powerAverage (signalStatus (decoder s))"

text \<open>The modulation depth of the sample exceeds the maximum modulation threshold.\<close>

definition overshoot :: "'f Env \<Rightarrow> ('f::{zero,plus,minus,uminus,times,inverse,abs,ord}) Impl \<Rightarrow> bool" where
  "overshoot env s \<longleftrightarrow> maximumModulationThreshold s < deepOf env r106k s"

section \<open>Concrete runs of the detector\<close>

text \<open>
  The instance on the sample at 1003, after the carrier-off sample and the first sample
  of \<open>exSof\<close>; on the sample \<open>exLast\<close>, after all of \<open>exSof\<close>; and on the sample
  \<open>exOffMid\<close>, after the first two samples of \<open>exSof\<close>.
\<close>

definition exBeginClose :: "cfloat Impl" where
  "exBeginClose = feedSample (exSof ! 1) (detectAll cEnv exSearch (exOff # take 1 exSof))"

definition exEndClose :: "cfloat Impl" where
  "exEndClose = feedSample exLast (detectAll cEnv exSearch (exOff # exSof))"

definition exIdleOff :: "cfloat Impl" where
  "exIdleOff = feedSample exOffMid (detectAll cEnv exSearch (exOff # take 2 exSof))"

text \<open>
  The instance on a sample at clock 0 with the carrier steady, at the start of a search
  (no peak recorded, no window open); and on a sample at clock 1108 with the carrier
  steady, after the first four samples of \<open>exSof\<close>: the end of the last window, no
  closing edge seen.
\<close>

definition exBeginNoPeak :: "cfloat Impl" where
  "exBeginNoPeak = feedSample (0, exSig 0 1 1 1) exSearch"

definition exEndNoPeak :: "cfloat Impl" where
  "exEndNoPeak = feedSample (1108, exSig 1108 1 1 1) (detectAll cEnv exSearch (exOff # take 4 exSof))"

section \<open>Properties of the CRC\<close>

lemma nat255: "(255::nat) = mask 8" by (simp add: mask_eq_exp_minus_1)

lemma w255: "(255::'a::len word) = mask 8" by (simp add: mask_eq_exp_minus_1)

lemma d1_nat:
  "unat (ucast ((ucast (b::u8) :: u32) XOR ((ucast (crc::u16) :: u32) AND 0xff)) :: u8) = unat b XOR (unat crc AND 0xFF)"
  unfolding nat255 w255
  apply (rule bit_eqI)
  apply (auto simp: bit_simps dest: bit_imp_le_length)
  done

lemma d2_nat:
  "unat (ucast ((ucast (d::u8) :: u32) XOR push_bit 4 (ucast d :: u32)) :: u8) = (unat d XOR push_bit 4 (unat d)) mod 2 ^ 8"
  unfolding take_bit_eq_mod [symmetric]
  apply (rule bit_eqI)
  apply (auto simp: bit_simps)
  done

lemma crc_t1: "unat (ucast (drop_bit 8 (ucast (crc::u16) :: u32)) :: u16) = drop_bit 8 (unat crc)"
  by (rule bit_eqI) (auto simp: bit_simps dest: bit_imp_le_length)

lemma crc_t2: "unat (ucast (ucast (ucast (push_bit 8 (ucast (d::u8) :: u32)) :: u16) :: u32) :: u16) = push_bit 8 (unat d)"
  by (rule bit_eqI) (auto simp: bit_simps dest: bit_imp_le_length)

lemma crc_t3: "unat (ucast (ucast (ucast (push_bit 3 (ucast (d::u8) :: u32)) :: u16) :: u32) :: u16) = push_bit 3 (unat d)"
  by (rule bit_eqI) (auto simp: bit_simps dest: bit_imp_le_length)

lemma crc_t4: "unat (ucast (ucast (ucast (drop_bit 4 (ucast (d::u8) :: u32)) :: u16) :: u32) :: u16) = drop_bit 4 (unat d)"
  by (rule bit_eqI) (auto simp: bit_simps dest: bit_imp_le_length)

lemma crc_nat:
  "unat (ucast (drop_bit 8 (ucast (crc::u16) :: u32)
           XOR (ucast (ucast (push_bit 8 (ucast (d::u8) :: u32)) :: u16) :: u32)
           XOR (ucast (ucast (push_bit 3 (ucast d :: u32)) :: u16) :: u32)
           XOR (ucast (ucast (drop_bit 4 (ucast d :: u32)) :: u16) :: u32)) :: u16)
   = (drop_bit 8 (unat crc) XOR push_bit 8 (unat d) XOR push_bit 3 (unat d) XOR drop_bit 4 (unat d)) mod 2 ^ 16"
  (is "unat ?W = ?R mod 2 ^ 16")
proof -
  have e: "unat ?W = ?R"
    by (simp only: unsigned_xor_eq crc_t1 crc_t2 crc_t3 crc_t4)
  have "unat ?W < 2 ^ 16"
    using unsigned_less [of ?W] by simp
  with e show ?thesis by simp
qed

lemma crcByte_spec: "unat (crcByte crc b) = specCrcStep (unat crc) (unat b)"
  unfolding crcByte_def specCrcStep_def Let_def
  by (simp only: crc_nat d2_nat d1_nat)

lemma crcLoop_foldl:
  "n \<le> length frame \<Longrightarrow> crcLoop frame n i crc = foldl crcByte crc (take (n - i) (drop i frame))"
proof (induction frame n i crc rule: crcLoop.induct)
  case (1 frame n i crc)
  show ?case
  proof (cases "i < n")
    case True
    then have "take (n - i) (drop i frame) = frame ! i # take (n - (i + 1)) (drop (i + 1) frame)"
      using "1.prems" by (metis Cons_nth_drop_Suc Suc_diff_Suc Suc_eq_plus1 less_le_trans take_Suc_Cons)
    with True 1 show ?thesis by (simp add: crcLoop.simps [of frame n i])
  next
    case False
    then show ?thesis by (simp add: crcLoop.simps [of frame n i])
  qed
qed

lemma foldl_crcByte_spec:
  "unat (foldl crcByte crc bs) = foldl specCrcStep (unat crc) (map unat bs)"
  by (induction bs arbitrary: crc) (simp_all add: crcByte_spec)

lemma unat_not_u16: "unat (NOT (c::u16)) = 2 ^ 16 - 1 - unat c"
proof -
  have "unat c < 2 ^ 16"
    using unsigned_less [of c] by simp
  then have le: "c \<le> 0xFFFF"
    by (simp add: word_le_nat_alt)
  have "NOT c = 0xFFFF - c"
    by (simp add: not_eq_complement)
  then have "unat (NOT c) = unat (0xFFFF - c)" by simp
  also have "\<dots> = unat (0xFFFF :: u16) - unat c"
    using le by (rule unat_sub)
  finally show ?thesis by simp
qed

lemma trailer_nat:
  "unat (ucast ((ucast (ucast ((ucast (0::u16) :: u32) OR ((ucast (lo::u8) :: u32) AND 0xff)) :: u16) :: u32)
                       OR push_bit 8 ((ucast (hi::u8) :: u32) AND 0xff)) :: u16)
   = unat lo OR push_bit 8 (unat hi)"
  unfolding w255
  apply (rule bit_eqI)
  apply (auto simp: bit_simps dest: bit_imp_le_length)
  done

theorem checkCrc_spec:
  "3 \<le> length frame \<Longrightarrow>
     checkCrc frame = (specCrc16 (map unat (take (length frame - 2) frame)) = specTrailer (map unat frame))"
proof -
  assume len: "3 \<le> length frame"
  let ?n = "length frame"
  let ?c = "crcLoop frame (?n - 2) 0 0xFFFF"
  have loop: "unat ?c = foldl specCrcStep 0xFFFF (map unat (take (?n - 2) frame))"
    by (simp add: crcLoop_foldl foldl_crcByte_spec)
  have lt: "unat ?c < 2 ^ 16" using unsigned_less [of ?c] by simp
  have "checkCrc frame \<longleftrightarrow>
      unat (ucast ((ucast (ucast ((ucast (0::u16) :: u32) OR ((ucast (frame ! (?n - 2)) :: u32) AND 0xff)) :: u16) :: u32)
                       OR push_bit 8 ((ucast (frame ! (?n - 1)) :: u32) AND 0xff)) :: u16) = unat (NOT ?c)"
    using len by (simp add: checkCrc_def Let_def word_unat_eq_iff)
  also have "\<dots> \<longleftrightarrow> specTrailer (map unat frame) = specCrc16 (map unat (take (?n - 2) frame))"
    using len by (simp only: trailer_nat unat_not_u16 loop specTrailer_def specCrc16_def) simp
  finally show ?thesis by auto
qed

lemma crcBytes_join:
  assumes "c < 2 ^ 16"
  shows "unat (of_nat (c mod 2 ^ 8) :: u8) OR push_bit 8 (unat (of_nat (c div 2 ^ 8) :: u8)) = c"
proof -
  have hi: "c div 2 ^ 8 < 2 ^ 8" using assms by (simp add: less_mult_imp_div_less)
  have "unat (of_nat (c mod 2 ^ 8) :: u8) = take_bit 8 c"
    by (simp add: unat_of_nat take_bit_eq_mod)
  moreover have "unat (of_nat (c div 2 ^ 8) :: u8) = drop_bit 8 c"
    using hi by (simp add: unat_of_nat drop_bit_eq_div)
  moreover have "take_bit 8 c OR push_bit 8 (drop_bit 8 c) = c"
  proof (rule bit_eqI)
    fix n
    show "bit (take_bit 8 c OR push_bit 8 (drop_bit 8 c)) n = bit c n"
      by (cases "n < 8") (simp_all add: bit_simps)
  qed
  ultimately show ?thesis by simp
qed

lemma specCrc16_lt: "specCrc16 bs < 2 ^ 16"
  by (simp add: specCrc16_def)

lemma checkCrc_short: "length frame \<le> 2 \<Longrightarrow> \<not> checkCrc frame"
  by (simp add: checkCrc_def)

lemma crcBytesLE_pair: "\<exists>lo hi. crcBytesLE c = [lo, hi]"
  unfolding crcBytesLE_def by blast

lemma specTrailer_append:
  "specTrailer (map unat (payload @ [lo, hi])) = unat lo OR push_bit 8 (unat hi)"
  by (simp add: specTrailer_def nth_append)

lemma checkCrc_roundtrip:
  assumes ne: "payload \<noteq> []"
  shows "checkCrc (payload @ crcBytesLE (specCrc16 (map unat payload)))"
proof -
  define c where "c = specCrc16 (map unat payload)"
  define lo :: u8 where "lo = of_nat (c mod 2 ^ 8)"
  define hi :: u8 where "hi = of_nat (c div 2 ^ 8)"
  have cb: "crcBytesLE c = [lo, hi]"
    unfolding crcBytesLE_def lo_def hi_def by (rule refl)
  have clt: "c < 2 ^ 16" unfolding c_def by (rule specCrc16_lt)
  have join: "unat lo OR push_bit 8 (unat hi) = c"
    unfolding lo_def hi_def by (rule crcBytes_join [OF clt])
  let ?f = "payload @ [lo, hi]"
  have l3: "3 \<le> length ?f" using ne by (cases payload) simp_all
  have tk: "take (length ?f - 2) ?f = payload" by simp
  have tr: "specTrailer (map unat ?f) = c"
    by (simp only: specTrailer_append join)
  have "checkCrc ?f"
    using checkCrc_spec [OF l3] by (simp only: tk tr c_def)
  then show ?thesis by (simp only: cb [unfolded c_def])
qed

text \<open>
  Claim C1, amended. For every frame of at least 3 bytes \<open>checkCrc\<close> returns true
  exactly when the specification's CRC-16 of the first \<open>length - 2\<close> bytes (register
  \<open>0xFFFF\<close>, the byte-wise update, the final complement) equals the little-endian
  trailer; for every frame of at most 2 bytes it returns false; and for every payload
  that is not empty, the payload followed by its own CRC-16 in little-endian passes.
\<close>

theorem checkCrc_claim:
  "(3 \<le> length frame \<longrightarrow>
      checkCrc frame = (specCrc16 (map unat (take (length frame - 2) frame)) = specTrailer (map unat frame)))
   \<and> (length frame \<le> 2 \<longrightarrow> \<not> checkCrc frame)
   \<and> (payload \<noteq> [] \<longrightarrow> checkCrc (payload @ crcBytesLE (specCrc16 (map unat payload))))"
  using checkCrc_spec checkCrc_short checkCrc_roundtrip by blast

text \<open>
  The empty payload followed by its own CRC-16 (the bytes \<open>00 00\<close>) is a frame of
  length 2, which the length test rejects: the round trip of claim C1 does not hold for
  every payload.
\<close>

theorem checkCrc_empty_payload_cex:
  "\<not> checkCrc ([] @ crcBytesLE (specCrc16 (map unat ([] :: u8 list))))"
  by (simp add: checkCrc_def crcBytesLE_def)

text \<open>
  The REQB frame \<open>05 00 00 71 FF\<close> passes, a one-byte frame fails, and the payload
  \<open>05 00 00\<close> with its CRC appended passes.
\<close>

theorem checkCrc_claim_witness:
  "3 \<le> length [0x05, 0x00, 0x00, 0x71, 0xFF :: u8]
   \<and> checkCrc [0x05, 0x00, 0x00, 0x71, 0xFF]
   \<and> specCrc16 (map unat (take 3 [0x05, 0x00, 0x00, 0x71, 0xFF :: u8])) = specTrailer (map unat [0x05, 0x00, 0x00, 0x71, 0xFF :: u8])
   \<and> length [0x05 :: u8] \<le> 2 \<and> \<not> checkCrc [0x05]
   \<and> [0x05, 0x00, 0x00 :: u8] \<noteq> [] \<and> checkCrc ([0x05, 0x00, 0x00] @ crcBytesLE (specCrc16 (map unat [0x05, 0x00, 0x00 :: u8])))"
proof -
  have tr: "specTrailer (map unat [0x05, 0x00, 0x00, 0x71, 0xFF :: u8]) = 0xFF71"
    by (simp add: specTrailer_def)
  have a: "checkCrc [0x05, 0x00, 0x00, 0x71, 0xFF]"
   unfolding checkCrc_def by code_simp
  have b: "specCrc16 (map unat (take 3 [0x05, 0x00, 0x00, 0x71, 0xFF :: u8])) = 0xFF71"
    using checkCrc_claim [of "[0x05, 0x00, 0x00, 0x71, 0xFF]" "[0x05, 0x00, 0x00]"] a tr by simp
  show ?thesis
   using checkCrc_claim [of "[0x05]" "[0x05, 0x00, 0x00]"] a b tr by simp
qed

section \<open>Properties of \<open>resetModulation\<close>\<close>

lemma resetLoop_unroll:
  "resetLoop env r106k s = resetRate env r424k (resetRate env r212k (resetRate env r106k s))"
  by (simp add: resetLoop.simps eval_nat_numeral)

lemma resetRate_other [simp]:
  "decoder (resetRate env r s) = decoder s"
  "streamStatus (resetRate env r s) = streamStatus s"
  "symbolStatus (resetRate env r s) = symbolStatus s"
  "frameStatus (resetRate env r s) = frameStatus s"
  "protocolStatus (resetRate env r s) = protocolStatus s"
  "bitrateParams (resetRate env r s) = bitrateParams s"
  "chainedFlags (resetRate env r s) = chainedFlags s"
  "lastFrameEnd (resetRate env r s) = lastFrameEnd s"
  "minimumModulationThreshold (resetRate env r s) = minimumModulationThreshold s"
  "maximumModulationThreshold (resetRate env r s) = maximumModulationThreshold s"
  by (simp_all add: resetRate_def)

lemma resetLoop_modulation:
  "modulationStatus (resetLoop env r106k s) r =
     (if r \<le> r424k then resetEntry env (modulationStatus s r) else modulationStatus s r)"
proof -
  have "r = 0 \<or> r = 1 \<or> r = 2 \<or> 2 < r" by arith
  then show ?thesis
    by (auto simp: resetLoop_unroll resetRate_def resetEntry_def)
qed

lemma resetLoop_other [simp]:
  "decoder (resetLoop env r106k s) = decoder s"
  "streamStatus (resetLoop env r106k s) = streamStatus s"
  "symbolStatus (resetLoop env r106k s) = symbolStatus s"
  "frameStatus (resetLoop env r106k s) = frameStatus s"
  "protocolStatus (resetLoop env r106k s) = protocolStatus s"
  "bitrateParams (resetLoop env r106k s) = bitrateParams s"
  "chainedFlags (resetLoop env r106k s) = chainedFlags s"
  by (simp_all add: resetLoop_unroll)

lemma resetModulation_fields:
  "modulationStatus (resetModulation env s) = modulationStatus (resetLoop env r106k s)"
  "streamStatus (resetModulation env s) = zeroStreamStatus (length (buffer (streamStatus s)))"
  "symbolStatus (resetModulation env s) = zeroSymbolStatus"
  "frameStatus (resetModulation env s) = (frameStatus s)\<lparr>frameType := 0, frameStart := 0, frameEnd := 0\<rparr>"
  "decoder (resetModulation env s) = (decoder s)\<lparr>bitrate := None, modulation := None\<rparr>"
  "protocolStatus (resetModulation env s) = protocolStatus s"
  "bitrateParams (resetModulation env s) = bitrateParams s"
  "chainedFlags (resetModulation env s) = chainedFlags s"
  by (simp_all add: resetModulation_def Let_def)

text \<open>
  Claim C9, amended. After every call to \<open>resetModulation\<close>, for the rates 106k, 212k
  and 424k the search stage, the search start and end times, the pulse width, the
  search depth, the symbol average, the detector peak and the correlation peak are zero
  and the symbol phase is \<open>NAN\<close>, whereas the search peak time, the symbol start, end
  and sync times and the three integrators keep their values, and the entry of the rate
  848k is not touched; the stream status and the symbol status are zeroed; the frame
  type, the frame start and the frame end are zero; the bitrate and the modulation
  selections are null.
\<close>

theorem resetModulation_claim:
  fixes env :: "('f::{zero,plus,minus,uminus,times,inverse,abs,ord}) Env" and s :: "'f Impl"
  defines "s' \<equiv> resetModulation env s"
  shows "(\<forall>r. r \<le> r424k \<longrightarrow>
            searchStage (modulationStatus s' r) = 0
          \<and> searchStartTime (modulationStatus s' r) = 0
          \<and> searchEndTime (modulationStatus s' r) = 0
          \<and> searchPulseWidth (modulationStatus s' r) = 0
          \<and> searchDeepValue (modulationStatus s' r) = 0
          \<and> symbolAverage (modulationStatus s' r) = 0
          \<and> symbolPhase (modulationStatus s' r) = NAN env
          \<and> detectorPeek (modulationStatus s' r) = 0
          \<and> correlationPeek (modulationStatus s' r) = 0
          \<and> searchPeakTime (modulationStatus s' r) = searchPeakTime (modulationStatus s r)
          \<and> symbolStartTime (modulationStatus s' r) = symbolStartTime (modulationStatus s r)
          \<and> symbolEndTime (modulationStatus s' r) = symbolEndTime (modulationStatus s r)
          \<and> symbolSyncTime (modulationStatus s' r) = symbolSyncTime (modulationStatus s r)
          \<and> filterIntegrate (modulationStatus s' r) = filterIntegrate (modulationStatus s r)
          \<and> detectIntegrate (modulationStatus s' r) = detectIntegrate (modulationStatus s r)
          \<and> phaseIntegrate (modulationStatus s' r) = phaseIntegrate (modulationStatus s r))
       \<and> (\<forall>r. r424k < r \<longrightarrow> modulationStatus s' r = modulationStatus s r)
       \<and> bits (streamStatus s') = 0 \<and> data (streamStatus s') = 0 \<and> bytes (streamStatus s') = 0
       \<and> buffer (streamStatus s') = replicate (length (buffer (streamStatus s))) 0
       \<and> symbolStatus s' = zeroSymbolStatus
       \<and> frameType (frameStatus s') = 0 \<and> frameStart (frameStatus s') = 0
       \<and> frameEnd (frameStatus s') = 0
       \<and> bitrate (decoder s') = None \<and> modulation (decoder s') = None"
  unfolding s'_def
  by (simp add: resetModulation_fields resetLoop_modulation resetEntry_def zeroStreamStatus_def)

text \<open>
  Claim C9 as stated fails: for an instance in the middle of a search, the search peak
  time, the symbol start time and both integrators of the rate 106k are not zero after
  \<open>resetModulation\<close>, and the entry of the rate 848k keeps its search stage.
\<close>

theorem resetModulation_not_all_cleared:
  "searchPeakTime (modulationStatus (resetModulation cEnv exResetState) r106k) \<noteq> 0
   \<and> symbolStartTime (modulationStatus (resetModulation cEnv exResetState) r106k) \<noteq> 0
   \<and> filterIntegrate (modulationStatus (resetModulation cEnv exResetState) r106k) \<noteq> 0
   \<and> detectIntegrate (modulationStatus (resetModulation cEnv exResetState) r106k) \<noteq> 0
   \<and> searchStage (modulationStatus (resetModulation cEnv exResetState) r848k) \<noteq> 0"
  by (simp add: resetModulation_fields resetLoop_modulation resetEntry_def exResetState_def
        zeroModulationStatus_def zero_cfloat_def)

text \<open>The amended claim on the instance in the middle of a search.\<close>

theorem resetModulation_claim_witness:
  "r106k \<le> r424k
   \<and> searchStage (modulationStatus (resetModulation cEnv exResetState) r106k) = 0
   \<and> symbolPhase (modulationStatus (resetModulation cEnv exResetState) r106k) = NaN
   \<and> searchPeakTime (modulationStatus (resetModulation cEnv exResetState) r106k) = 7
   \<and> r424k < r848k
   \<and> modulationStatus (resetModulation cEnv exResetState) r848k = modulationStatus exResetState r848k
   \<and> bitrate (decoder (resetModulation cEnv exResetState)) = None"
  using resetModulation_claim [of cEnv exResetState]
  by (simp add: exResetState_def cEnv_def zeroModulationStatus_def)

section \<open>Properties of the classifier\<close>

lemma flag_or_test:
  fixes a b c m :: u32
  shows "(a OR b OR c) AND m = (a AND m) OR (b AND m) OR (c AND m)"
  by (simp add: bit.conj_disj_distrib2)

lemma process_reqb:
  assumes poll: "isPollFrame frame"
    and reqb: "(ucast (nfData frame ! 0) :: u32) = NFCA_REQB" "limit frame = 5"
  shows "\<exists>frame' s'. process env frame s = Inr (frame', s')
     \<and> lastCommand (frameStatus s') = NFCA_REQB
     \<and> maxFrameSize (protocolStatus s') = 256
     \<and> FrameStatus.frameGuardTime (frameStatus s') =
           toU32 env (sampleTimeUnit (signalParams (decoder s)) * ofInt env 128 * ofInt env 7)
     \<and> FrameStatus.frameWaitingTime (frameStatus s') =
           toU32 env (sampleTimeUnit (signalParams (decoder s)) * ofInt env 128 * ofInt env 18)
     \<and> chainedFlags s' = 0
     \<and> nfFramePhase frame' = SelectionFrame
     \<and> nfFrameFlags frame' = (nfFrameFlags frame OR (if \<not> checkCrc (nfData frame) then CrcError else 0))
     \<and> nfData frame' = nfData frame"
proof -
  from reqb(2) have ne: "nfData frame \<noteq> []" by (auto simp: limit_def)
  show ?thesis
    using poll reqb ne
    by (simp add: process_def processREQB_def Let_def setFrameFlags_def setFramePhase_def
        isPollFrame_def split: option.splits)
qed

lemma process_other:
  assumes poll: "isPollFrame frame"
    and ne: "nfData frame \<noteq> []"
    and other: "\<not> ((ucast (nfData frame ! 0) :: u32) = NFCA_REQB \<and> limit frame = 5)"
  shows "\<exists>frame' s'. process env frame s = Inr (frame', s')
     \<and> nfFramePhase frame' = ApplicationFrame
     \<and> nfFrameFlags frame' =
         (nfFrameFlags frame OR (if \<not> checkCrc (nfData frame) then CrcError else 0) OR chainedFlags s)
     \<and> nfData frame' = nfData frame
     \<and> chainedFlags s' = chainedFlags s
     \<and> protocolStatus s' = protocolStatus s"
  using poll ne other
  by (auto simp: process_def processREQB_def processOther_def Let_def setFrameFlags_def
      setFramePhase_def isPollFrame_def isListenFrame_def or.assoc split: option.splits)


text \<open>
  Claim C5. For every poll frame with at least one byte that carries no \<open>CrcError\<close>
  flag yet, as \<open>decodePollFrame\<close> emits it, in a state whose chained flags do not
  contain \<open>CrcError\<close> (the decoder only ever assigns them 0): if the first byte is
  \<open>0x05\<close> and the length is 5, \<open>process\<close> records \<open>lastCommand = 0x05\<close>, resets
  \<open>maxFrameSize\<close> to 256, sets the frame guard time to \<open>sampleTimeUnit * 128 * 7\<close> and
  the frame waiting time to \<open>sampleTimeUnit * 128 * 18\<close> (converted to unsigned
  integers), clears the chained flags, sets the phase \<open>SelectionFrame\<close> and sets the
  \<open>CrcError\<close> flag if and only if the CRC check fails; every other poll frame gets the
  phase \<open>ApplicationFrame\<close>, with the \<open>CrcError\<close> flag if and only if the CRC check
  fails.
\<close>

theorem process_claim:
  assumes poll: "isPollFrame frame"
    and ne: "nfData frame \<noteq> []"
    and noflag: "nfFrameFlags frame AND CrcError = 0"
    and chained: "chainedFlags s AND CrcError = 0"
  shows "\<exists>frame' s'. process env frame s = Inr (frame', s')
     \<and> (if (ucast (nfData frame ! 0) :: u32) = 0x05 \<and> limit frame = 5
         then lastCommand (frameStatus s') = 0x05
            \<and> maxFrameSize (protocolStatus s') = 256
            \<and> FrameStatus.frameGuardTime (frameStatus s') =
                 toU32 env (sampleTimeUnit (signalParams (decoder s)) * ofInt env 128 * ofInt env 7)
            \<and> FrameStatus.frameWaitingTime (frameStatus s') =
                 toU32 env (sampleTimeUnit (signalParams (decoder s)) * ofInt env 128 * ofInt env 18)
            \<and> chainedFlags s' = 0
            \<and> nfFramePhase frame' = SelectionFrame
            \<and> (nfFrameFlags frame' AND CrcError \<noteq> 0 \<longleftrightarrow> \<not> checkCrc (nfData frame))
         else nfFramePhase frame' = ApplicationFrame
            \<and> (nfFrameFlags frame' AND CrcError \<noteq> 0 \<longleftrightarrow> \<not> checkCrc (nfData frame)))"
proof (cases "(ucast (nfData frame ! 0) :: u32) = 0x05 \<and> limit frame = 5")
  case True
  then obtain frame' s' where p: "process env frame s = Inr (frame', s')"
    and r: "lastCommand (frameStatus s') = NFCA_REQB" "maxFrameSize (protocolStatus s') = 256"
      "FrameStatus.frameGuardTime (frameStatus s') =
           toU32 env (sampleTimeUnit (signalParams (decoder s)) * ofInt env 128 * ofInt env 7)"
      "FrameStatus.frameWaitingTime (frameStatus s') =
           toU32 env (sampleTimeUnit (signalParams (decoder s)) * ofInt env 128 * ofInt env 18)"
      "chainedFlags s' = 0" "nfFramePhase frame' = SelectionFrame"
    and fl: "nfFrameFlags frame' = (nfFrameFlags frame OR (if \<not> checkCrc (nfData frame) then CrcError else 0))"
    using process_reqb [OF poll, of env s] by blast
  have "nfFrameFlags frame' AND CrcError \<noteq> 0 \<longleftrightarrow> \<not> checkCrc (nfData frame)"
    using noflag by (simp add: fl bit.conj_disj_distrib2)
  with True p r show ?thesis by simp
next
  case False
  then obtain frame' s' where p: "process env frame s = Inr (frame', s')"
    and r: "nfFramePhase frame' = ApplicationFrame"
    and fl: "nfFrameFlags frame' =
         (nfFrameFlags frame OR (if \<not> checkCrc (nfData frame) then CrcError else 0) OR chainedFlags s)"
    using process_other [OF poll ne, of env s] by blast
  have "nfFrameFlags frame' AND CrcError \<noteq> 0 \<longleftrightarrow> \<not> checkCrc (nfData frame)"
    using noflag chained by (simp add: fl bit.conj_disj_distrib2)
  with False p r show ?thesis by simp
qed

text \<open>
  The REQB frame \<open>05 00 00 71 FF\<close> at a sample rate of 10 MHz: the guard time is 660
  samples and the waiting time 1699 samples.
\<close>

theorem process_claim_witness:
  "isPollFrame exReqb \<and> nfData exReqb \<noteq> [] \<and> nfFrameFlags exReqb AND CrcError = 0
   \<and> chainedFlags exImpl AND CrcError = 0
   \<and> (\<exists>frame' s'. process cEnv exReqb exImpl = Inr (frame', s')
         \<and> lastCommand (frameStatus s') = 0x05
         \<and> maxFrameSize (protocolStatus s') = 256
         \<and> FrameStatus.frameGuardTime (frameStatus s') = 660
         \<and> FrameStatus.frameWaitingTime (frameStatus s') = 1699
         \<and> nfFramePhase frame' = SelectionFrame
         \<and> nfFrameFlags frame' AND CrcError = 0)"
proof -
  have h: "isPollFrame exReqb" "nfData exReqb \<noteq> []" "nfFrameFlags exReqb AND CrcError = 0"
    "chainedFlags exImpl AND CrcError = 0"
    by (simp_all add: exReqb_def exImpl_def isPollFrame_def newNfcFrame_def)
  have c: "(ucast (nfData exReqb ! 0) :: u32) = 0x05 \<and> limit exReqb = 5"
    by (simp add: exReqb_def limit_def)
  have crc: "checkCrc (nfData exReqb)"
    unfolding exReqb_def by code_simp
  have t: "toU32 cEnv (sampleTimeUnit (signalParams (decoder exImpl)) * ofInt cEnv 128 * ofInt cEnv 7) = 660"
    "toU32 cEnv (sampleTimeUnit (signalParams (decoder exImpl)) * ofInt cEnv 128 * ofInt cEnv 18) = 1699"
    by code_simp+
  from process_claim [OF h, of cEnv] c crc t h show ?thesis
    by auto
qed


section \<open>Properties of the symbol tracker\<close>

lemma symbolDecide_pattern:
  "pattern (symbolDecide bp deep thr m) = PatternL \<or> pattern (symbolDecide bp deep thr m) = PatternH"
  by (simp add: symbolDecide_def Let_def)

lemma symbolSample_keeps:
  assumes "symbolSample env b m s = (s', fin)"
  shows "streamStatus s' = streamStatus s" "protocolStatus s' = protocolStatus s"
    "chainedFlags s' = chainedFlags s" "frameStatus s' = frameStatus s"
    "bitrateParams s' = bitrateParams s" "decoder s' = decoder s"
    "\<not> fin \<Longrightarrow> symbolStatus s' = symbolStatus s"
    "fin \<Longrightarrow> pattern (symbolStatus s') = PatternL \<or> pattern (symbolStatus s') = PatternH"
  using assms
  by (auto simp: symbolSample_def Let_def symbolDecide_def split: if_splits)

lemma nextSample_keeps:
  assumes "nextSample env d buf = Some (d1, buf1)"
  shows "bitrate d1 = bitrate d" "modulation d1 = modulation d" "sampleRate d1 = sampleRate d"
    "signalParams d1 = signalParams d" "powerLevelThreshold d1 = powerLevelThreshold d"
    "length buf1 < length buf"
  using assms
  by (auto simp: nextSample_def Let_def split: list.splits)

text \<open>What the symbol tracker leaves alone.\<close>

lemma symbolLoop_keeps:
  assumes "symbolLoop env bp mp s buf = Inr (s', buf')"
  shows "streamStatus s' = streamStatus s \<and> protocolStatus s' = protocolStatus s
       \<and> chainedFlags s' = chainedFlags s \<and> frameStatus s' = frameStatus s
       \<and> bitrateParams s' = bitrateParams s
       \<and> bitrate (decoder s') = bitrate (decoder s)
       \<and> modulation (decoder s') = modulation (decoder s)
       \<and> sampleRate (decoder s') = sampleRate (decoder s)
       \<and> signalParams (decoder s') = signalParams (decoder s)
       \<and> length buf' \<le> length buf
       \<and> (pattern (symbolStatus s') = pattern (symbolStatus s)
           \<or> (pattern (symbolStatus s') = PatternL \<or> pattern (symbolStatus s') = PatternH)
              \<and> bp \<noteq> None \<and> mp \<noteq> None \<and> length buf' < length buf)"
  using assms
proof (induction env bp mp s buf rule: symbolLoop.induct)
  case (1 env bp mp s buf)
  show ?case
  proof (cases "nextSample env (decoder s) buf")
    case None
    with "1.prems" show ?thesis
      by (subst (asm) symbolLoop.simps) simp
  next
    case (Some r)
    obtain d1 rest where r: "r = (d1, rest)" by (cases r)
    note ns = Some [unfolded r]
    note nk = nextSample_keeps [OF ns]
    show ?thesis
    proof (cases "\<exists>b m. bp = Some b \<and> mp = Some m")
      case False
      with "1.prems" ns show ?thesis
        by (subst (asm) symbolLoop.simps) (auto split: option.splits)
    next
      case True
      then obtain b m where bp: "bp = Some b" and mp: "mp = Some m" by blast
      obtain s2 fin where ss: "symbolSample env b m (s\<lparr>decoder := d1\<rparr>) = (s2, fin)"
        by (cases "symbolSample env b m (s\<lparr>decoder := d1\<rparr>)")
      note sk = symbolSample_keeps [OF ss]
      show ?thesis
      proof (cases fin)
        case True
        with "1.prems" ns bp mp ss have "s' = s2" "buf' = rest"
          by (subst (asm) symbolLoop.simps, simp)+
        with sk nk True bp mp show ?thesis by auto
      next
        case False
        then have f: "fin = False" by simp
        from False "1.prems" ns bp mp ss have l: "symbolLoop env bp mp s2 rest = Inr (s', buf')"
          by (subst (asm) symbolLoop.simps) simp
        from "1.IH" [OF ns refl refl bp mp ss [symmetric] f l] sk nk False
        show ?thesis by auto
      qed
    qed
  qed
qed

lemma decodeSymbol_keeps:
  assumes "decodePollFrameSymbolAsk env s buf = Inr (pat, s1, buf1)"
  shows "streamStatus s1 = streamStatus s" "protocolStatus s1 = protocolStatus s"
    "chainedFlags s1 = chainedFlags s" "frameStatus s1 = frameStatus s"
    "bitrateParams s1 = bitrateParams s"
    "bitrate (decoder s1) = bitrate (decoder s)"
    "modulation (decoder s1) = modulation (decoder s)"
    "sampleRate (decoder s1) = sampleRate (decoder s)"
    "pat = pattern (symbolStatus s1)"
    "NoPattern < pat \<Longrightarrow> (pat = PatternL \<or> pat = PatternH)
        \<and> (\<exists>b m. bitrate (decoder s1) = Some b \<and> modulation (decoder s1) = Some m)
        \<and> length buf1 < length buf"
proof -
  let ?s0 = "s\<lparr>symbolStatus := (symbolStatus s)\<lparr>pattern := Invalid\<rparr>\<rparr>"
  from assms have sl: "symbolLoop env (bitrate (decoder s)) (modulation (decoder s)) ?s0 buf = Inr (s1, buf1)"
    and p: "pat = pattern (symbolStatus s1)"
    by (auto simp: decodePollFrameSymbolAsk_def Let_def split: sum.splits)
  note k = symbolLoop_keeps [OF sl]
  from k show "streamStatus s1 = streamStatus s" "protocolStatus s1 = protocolStatus s"
    "chainedFlags s1 = chainedFlags s" "frameStatus s1 = frameStatus s"
    "bitrateParams s1 = bitrateParams s"
    "bitrate (decoder s1) = bitrate (decoder s)"
    "modulation (decoder s1) = modulation (decoder s)"
    "sampleRate (decoder s1) = sampleRate (decoder s)"
    by simp_all
  show "pat = pattern (symbolStatus s1)" by (rule p)
  assume "NoPattern < pat"
  with k p show "(pat = PatternL \<or> pat = PatternH)
        \<and> (\<exists>b m. bitrate (decoder s1) = Some b \<and> modulation (decoder s1) = Some m)
        \<and> length buf1 < length buf"
    by auto
qed

section \<open>Properties of the framer\<close>

lemma terminatorTests_fresh:
  "terminatorTests (False, False, False) s pat =
     (bits (streamStatus s) = 9 \<and> data (streamStatus s) = 0 \<and> pat = PatternL,
      (bits (streamStatus s) = 0 \<and> pat = PatternH)
        \<or> (bits (streamStatus s) = 9 \<and> pat = PatternL \<and> data (streamStatus s) \<noteq> 0),
      \<not> (bits (streamStatus s) = 9 \<and> data (streamStatus s) = 0 \<and> pat = PatternL)
        \<and> \<not> ((bits (streamStatus s) = 0 \<and> pat = PatternH)
               \<or> (bits (streamStatus s) = 9 \<and> pat = PatternL \<and> data (streamStatus s) \<noteq> 0))
        \<and> bytes (streamStatus s) = maxFrameSize (protocolStatus s))"
  by (auto simp: terminatorTests_def)

lemma pollBody_continue:
  assumes "pollBody env (False, False, False) pat s frames = Inr (None, flags1, s1, frames1)"
  shows "flags1 = (False, False, False) \<and> terminatorTests (False, False, False) s pat = (False, False, False)
         \<and> decodeBit s = Inr s1 \<and> frames1 = frames"
proof -
  obtain a b c where t: "terminatorTests (False, False, False) s pat = (a, b, c)"
    by (cases "terminatorTests (False, False, False) s pat") auto
  from assms t show ?thesis
    by (auto simp: pollBody_def Let_def split: if_splits sum.splits)
qed

lemma pollLoop_step:
  assumes "decodePollFrameSymbolAsk env s buf = Inr (pat, s1, buf1)" and "NoPattern < pat"
  shows "pollLoop env flags s buf frames =
     (case pollBody env flags pat s1 frames of
        Inl e \<Rightarrow> Inl e
      | Inr (Some r, flags1, s2, frames1) \<Rightarrow> Inr (r, s2, buf1, frames1)
      | Inr (None, flags1, s2, frames1) \<Rightarrow> pollLoop env flags1 s2 buf1 frames1)"
  using assms by (subst pollLoop.simps) simp

lemma pollLoop_stop:
  assumes "decodePollFrameSymbolAsk env s buf = Inr (pat, s1, buf1)" and "\<not> NoPattern < pat"
  shows "pollLoop env flags s buf frames = Inr (False, s1, buf1, frames)"
  using assms by (subst pollLoop.simps) simp

lemma pollLoop_fault:
  assumes "decodePollFrameSymbolAsk env s buf = Inl e"
  shows "pollLoop env flags s buf frames = Inl e"
  using assms by (subst pollLoop.simps) simp

text \<open>Passes that reach the end of the body do not change what the loop returns.\<close>

lemma pass_pollLoop:
  assumes "pass env c c'"
  shows "(case c of (s, buf, frames) \<Rightarrow> pollLoop env (False, False, False) s buf frames)
       = (case c' of (s, buf, frames) \<Rightarrow> pollLoop env (False, False, False) s buf frames)"
  using assms
proof cases
  case (passI s buf pat s1 buf1 frames flags1 s2 frames1)
  from pollBody_continue [OF passI(5)] have "flags1 = (False, False, False)" by simp
  with passI pollLoop_step [OF passI(3,4), of "(False, False, False)" frames]
  show ?thesis by simp
qed

lemma passes_pollLoop:
  assumes "(pass env)\<^sup>*\<^sup>* c c'"
  shows "(case c of (s, buf, frames) \<Rightarrow> pollLoop env (False, False, False) s buf frames)
       = (case c' of (s, buf, frames) \<Rightarrow> pollLoop env (False, False, False) s buf frames)"
  using assms
  by (induction rule: rtranclp_induct) (auto dest: pass_pollLoop)

lemma passes_decodePollFrame:
  assumes "(pass env)\<^sup>*\<^sup>* (s0, buf0, frames0) (s, buf, frames)"
  shows "decodePollFrame env s0 buf0 frames0 = pollLoop env (False, False, False) s buf frames"
  using passes_pollLoop [OF assms] by (simp add: decodePollFrame_def)

lemma pass_frames:
  assumes "(pass env)\<^sup>*\<^sup>* c c'"
  shows "snd (snd c') = snd (snd c)"
  using assms
proof (induction rule: rtranclp_induct)
  case base
  show ?case by simp
next
  case (step y z)
  from step.hyps(2) have "snd (snd z) = snd (snd y)"
    by cases (auto dest: pollBody_continue)
  with step.IH show ?case by simp
qed


lemma truncated_crc_disjoint: "(CrcError :: u32) AND Truncated = 0"
  by simp

lemma emitFrame_ok:
  assumes br: "bitrate (decoder s) = Some b" and md: "modulation (decoder s) = Some m"
    and pos: "0 < bytes (streamStatus s)"
    and cap: "unat (bytes (streamStatus s)) \<le> length (buffer (streamStatus s))"
  shows "\<exists>s' f. emitFrame env (fe, se, te) s frames = Inr (s', frames @ [f])
     \<and> nfData f = take (unat (bytes (streamStatus s))) (buffer (streamStatus s))
     \<and> nfFrameType f = PollFrame
     \<and> (nfFrameFlags f = ((if te \<or> se then Truncated else 0)
                            OR (if \<not> checkCrc (nfData f) then CrcError else 0))
         \<or> nfFrameFlags f = ((if te \<or> se then Truncated else 0)
                            OR (if \<not> checkCrc (nfData f) then CrcError else 0) OR chainedFlags s))
     \<and> bits (streamStatus s') = 0 \<and> bytes (streamStatus s') = 0"
proof -
  let ?s1 = "s\<lparr>frameStatus := (frameStatus s)\<lparr>frameEnd := symEnd (symbolStatus s)\<rparr>\<rparr>"
  let ?fs = "frameStatus ?s1"
  let ?r2 = "(if te \<or> se then setFrameFlags Truncated else (\<lambda>f. f))
     ((newNfcFrame TechType_NfcB PollFrame)
                    \<lparr>nfFrameRate := symbolsPerSecond (bitrateParams ?s1 b),
                     nfSampleStart := frameStart ?fs,
                     nfSampleEnd := frameEnd ?fs,
                     nfTimeStart := ofU32 env (frameStart ?fs) / ofU32 env (sampleRate (decoder ?s1)),
                     nfTimeEnd := ofU32 env (frameEnd ?fs) / ofU32 env (sampleRate (decoder ?s1))\<rparr>)"
  let ?r3 = "?r2\<lparr>nfData := take (unat (bytes (streamStatus s))) (buffer (streamStatus s))\<rparr>"
  let ?s2 = "?s1\<lparr>modulationStatus := (modulationStatus ?s1)
                                     (m := (modulationStatus ?s1 m)
                                        \<lparr>symbolStartTime := 0,
                                         symbolEndTime := 0,
                                         symbolSyncTime := 0,
                                         filterIntegrate := 0,
                                         detectIntegrate := 0,
                                         phaseIntegrate := 0\<rparr>)\<rparr>"
  let ?s3 = "?s2\<lparr>streamStatus := zeroStreamStatus (length (buffer (streamStatus ?s2)))\<rparr>"
  have e: "emitFrame env (fe, se, te) s frames =
      (case process env ?r3 ?s3 of Inl e \<Rightarrow> Inl e | Inr (r4, s4) \<Rightarrow> Inr (s4, frames @ [r4]))"
    using br md cap by (simp add: emitFrame_def Let_def)
  have poll: "isPollFrame ?r3"
    by (simp add: isPollFrame_def newNfcFrame_def setFrameFlags_def)
  from pos have "0 < unat (bytes (streamStatus s))" by (simp add: word_less_nat_alt)
  with cap have ne: "nfData ?r3 \<noteq> []" by auto
  have fl: "nfFrameFlags ?r3 = (if te \<or> se then Truncated else 0)"
    by (simp add: newNfcFrame_def setFrameFlags_def)
  have ch: "chainedFlags ?s3 = chainedFlags s" by simp
  have st: "streamStatus ?s3 = zeroStreamStatus (length (buffer (streamStatus s)))" by simp
  have keep_stream: "streamStatus s4 = streamStatus ?s3 \<and> nfFrameType r4 = nfFrameType ?r3"
    if "process env ?r3 ?s3 = Inr (r4, s4)" for r4 s4
    using that poll ne
    by (auto simp: process_def processREQB_def processOther_def Let_def setFrameFlags_def
        setFramePhase_def isPollFrame_def isListenFrame_def split: option.splits if_splits)
  show ?thesis
  proof (cases "(ucast (nfData ?r3 ! 0) :: u32) = NFCA_REQB \<and> limit ?r3 = 5")
    case True
    then obtain f s' where p: "process env ?r3 ?s3 = Inr (f, s')"
      and f: "nfFrameFlags f = (nfFrameFlags ?r3 OR (if \<not> checkCrc (nfData ?r3) then CrcError else 0))"
        "nfData f = nfData ?r3"
      using process_reqb [OF poll, of env ?s3] by blast
    from keep_stream [OF p] have "streamStatus s' = zeroStreamStatus (length (buffer (streamStatus s)))"
      and "nfFrameType f = PollFrame"
      using st by (simp_all add: newNfcFrame_def setFrameFlags_def)
    with e p f fl show ?thesis
      by (simp add: zeroStreamStatus_def)
  next
    case False
    then obtain f s' where p: "process env ?r3 ?s3 = Inr (f, s')"
      and f: "nfFrameFlags f =
         (nfFrameFlags ?r3 OR (if \<not> checkCrc (nfData ?r3) then CrcError else 0) OR chainedFlags ?s3)"
        "nfData f = nfData ?r3"
      using process_other [OF poll ne, of env ?s3] by blast
    from keep_stream [OF p] have "streamStatus s' = zeroStreamStatus (length (buffer (streamStatus s)))"
      and "nfFrameType f = PollFrame"
      using st by (simp_all add: newNfcFrame_def setFrameFlags_def)
    with e p f fl ch show ?thesis
      by (simp add: zeroStreamStatus_def)
  qed
qed


lemma process_keeps_stream:
  assumes "process env frame s = Inr (frame', s')"
  shows "streamStatus s' = streamStatus s"
  using assms
  by (auto simp: process_def processREQB_def Let_def split: option.splits if_splits)

lemma emitFrame_stream:
  assumes "emitFrame env flags s frames = Inr (s', frames')"
  shows "bits (streamStatus s') = 0 \<and> bytes (streamStatus s') = 0"
  using assms
  by (auto simp: emitFrame_def Let_def zeroStreamStatus_def
      split: option.splits if_splits sum.splits prod.splits dest!: process_keeps_stream)

lemma pollBody_return:
  assumes "pollBody env (False, False, False) pat s frames = Inr (Some r, flags1, s', frames')"
  shows "bits (streamStatus s') = 0 \<and> bytes (streamStatus s') = 0"
proof -
  obtain fe se te where t: "terminatorTests (False, False, False) s pat = (fe, se, te)"
    by (cases "terminatorTests (False, False, False) s pat") auto
  from assms t show ?thesis
    by (auto simp: pollBody_def Let_def resetModulation_fields zeroStreamStatus_def
        split: if_splits sum.splits dest: emitFrame_stream)
qed

lemma decodeBit_inv:
  assumes inv: "framerInv s"
    and t: "terminatorTests (False, False, False) s pat = (False, False, False)"
    and pat: "pat = PatternL \<or> pat = PatternH"
    and d: "decodeBit s = Inr s'"
  shows "framerInv s'"
proof (cases "bits (streamStatus s) < 9")
  case True
  then have "bits (streamStatus s) + 1 \<le> 9" by (rule inc_le)
  with True d inv show ?thesis
    by (auto simp: decodeBit_def Let_def framerInv_def split: if_splits)
next
  case False
  with inv have b9: "bits (streamStatus s) = 9" by (simp add: framerInv_def)
  from t have "bytes (streamStatus s) \<noteq> maxFrameSize (protocolStatus s)"
    by (auto simp: terminatorTests_def split: if_splits)
  with inv have "bytes (streamStatus s) < maxFrameSize (protocolStatus s)"
    by (simp add: framerInv_def less_le)
  then have "bytes (streamStatus s) + 1 \<le> maxFrameSize (protocolStatus s)" by (rule inc_le)
  with False d show ?thesis
    by (auto simp: decodeBit_def Let_def framerInv_def split: if_splits)
qed

lemma decodeSymbol_inv:
  assumes "framerInv s" and "decodePollFrameSymbolAsk env s buf = Inr (pat, s1, buf1)"
  shows "framerInv s1"
  using assms decodeSymbol_keeps(1,2) [OF assms(2)] by (simp add: framerInv_def)

lemma pass_inv:
  assumes "pass env c c'" and "framerInv (fst c)"
  shows "framerInv (fst c')"
  using assms
proof cases
  case (passI s buf pat s1 buf1 frames flags1 s2 frames1)
  from assms(2) passI have i1: "framerInv s1" by (auto intro: decodeSymbol_inv)
  from decodeSymbol_keeps(10) [OF passI(3,4)] have p: "pat = PatternL \<or> pat = PatternH" by simp
  from pollBody_continue [OF passI(5)] i1 p have "framerInv s2"
    by (auto intro: decodeBit_inv)
  with passI show ?thesis by simp
qed

lemma passes_inv:
  assumes "(pass env)\<^sup>*\<^sup>* c c'" and "framerInv (fst c)"
  shows "framerInv (fst c')"
  using assms by (induction rule: rtranclp_induct) (auto intro: pass_inv)

lemma pollLoop_inv:
  assumes "framerInv s"
    and "pollLoop env (False, False, False) s buf frames = Inr (r, s', buf', frames')"
  shows "framerInv s'"
  using assms
proof (induction "length buf" arbitrary: s buf frames rule: less_induct)
  case less
  show ?case
  proof (cases "decodePollFrameSymbolAsk env s buf")
    case (Inl e)
    from pollLoop_fault [OF Inl] less.prems(2) show ?thesis by simp
  next
    case (Inr x)
    obtain pat s1 buf1 where x: "x = (pat, s1, buf1)" by (cases x)
    note dec = Inr [unfolded x]
    from less.prems(1) dec have i1: "framerInv s1" by (rule decodeSymbol_inv)
    show ?thesis
    proof (cases "NoPattern < pat")
      case False
      from pollLoop_stop [OF dec False] less.prems(2) i1 show ?thesis by simp
    next
      case True
      note step = pollLoop_step [OF dec True, of "(False, False, False)" frames]
      show ?thesis
      proof (cases "pollBody env (False, False, False) pat s1 frames")
        case (Inl e)
        with step less.prems(2) show ?thesis by simp
      next
        case (Inr y)
        obtain ret flags1 s2 frames1 where y: "y = (ret, flags1, s2, frames1)" by (cases y)
        note body = Inr [unfolded y]
        show ?thesis
        proof (cases ret)
          case (Some r0)
          with step body less.prems(2) have "s' = s2" by simp
          with pollBody_return [OF body [unfolded Some]] show ?thesis
            by (simp add: framerInv_def)
        next
          case None
          from pollBody_continue [OF body [unfolded None]]
          have fl: "flags1 = (False, False, False)" by simp
          have "pass env (s, buf, frames) (s2, buf1, frames1)"
            using dec True body [unfolded None] by (rule passI)
          from pass_inv [OF this] less.prems(1) have i2: "framerInv s2" by simp
          from decodeSymbol_keeps(10) [OF dec True] have lt: "length buf1 < length buf" by simp
          from step body None fl less.prems(2)
          have "pollLoop env (False, False, False) s2 buf1 frames1 = Inr (r, s', buf', frames')"
            by simp
          from less.hyps [OF lt i2 this] show ?thesis .
        qed
      qed
    qed
  qed
qed


lemma truncated_test:
  fixes ch :: u32
  assumes "ch AND Truncated = 0"
  shows "((if t then Truncated else 0) OR (if c then CrcError else 0)) AND Truncated \<noteq> 0 \<longleftrightarrow> t"
    "((if t then Truncated else 0) OR (if c then CrcError else 0) OR ch) AND Truncated \<noteq> 0 \<longleftrightarrow> t"
  using assms by (simp_all add: bit.conj_disj_distrib2)

text \<open>
  Claim C4. In whichever pass of the loop of \<open>decodePollFrame\<close> a terminator is raised
  for the decoded symbol: if at least one byte has been accumulated (and the stream
  buffer holds the accumulated bytes, and the chained flags do not contain
  \<open>Truncated\<close>), the function returns true with exactly one frame appended to the list
  of frames, which carries the accumulated bytes and has the \<open>Truncated\<close> flag if and
  only if the terminator was the stream error or the truncation; if no byte has been
  accumulated, it returns false with no frame appended and the state that
  \<open>resetModulation\<close> leaves, in which the search for a start of frame starts again:
  for each of the rates 106k, 212k and 424k the search stage is \<open>SOF_BEGIN\<close> and the
  search window and the detector peak are cleared, the bitrate and the modulation
  selections are null (so that the decoder runs the detector on the next samples), the
  frame type, the frame start and the frame end are zero, and the stream status and the
  symbol status are zeroed.
\<close>

theorem emit_claim:
  assumes passes: "(pass env)\<^sup>*\<^sup>* (s0, buf0, frames0) (s, buf, frames)"
    and sym: "decodePollFrameSymbolAsk env s buf = Inr (pat, s1, buf1)"
    and gt: "NoPattern < pat"
    and tt: "terminatorTests (False, False, False) s1 pat = (fe, se, te)"
    and fired: "fe \<or> se \<or> te"
  shows "(0 < bytes (streamStatus s1)
          \<longrightarrow> unat (bytes (streamStatus s1)) \<le> length (buffer (streamStatus s1))
          \<longrightarrow> chainedFlags s1 AND Truncated = 0
          \<longrightarrow> (\<exists>s' f. decodePollFrame env s0 buf0 frames0 = Inr (True, s', buf1, frames0 @ [f])
                 \<and> nfData f = take (unat (bytes (streamStatus s1))) (buffer (streamStatus s1))
                 \<and> (nfFrameFlags f AND Truncated \<noteq> 0 \<longleftrightarrow> se \<or> te)))
       \<and> (bytes (streamStatus s1) = 0
          \<longrightarrow> (\<exists>s'. decodePollFrame env s0 buf0 frames0 = Inr (False, s', buf1, frames0)
                 \<and> s' = resetModulation env s1
                 \<and> (\<forall>r. r \<le> r424k \<longrightarrow>
                        searchStage (modulationStatus s' r) = SOF_BEGIN
                      \<and> searchStartTime (modulationStatus s' r) = 0
                      \<and> searchEndTime (modulationStatus s' r) = 0
                      \<and> detectorPeek (modulationStatus s' r) = 0)
                 \<and> bitrate (decoder s') = None
                 \<and> modulation (decoder s') = None
                 \<and> frameType (frameStatus s') = 0
                 \<and> frameStart (frameStatus s') = 0
                 \<and> frameEnd (frameStatus s') = 0
                 \<and> bits (streamStatus s') = 0
                 \<and> data (streamStatus s') = 0
                 \<and> bytes (streamStatus s') = 0
                 \<and> symbolStatus s' = zeroSymbolStatus))"
proof -
  from pass_frames [OF passes] have fr: "frames = frames0" by simp
  have start: "decodePollFrame env s0 buf0 frames0 = pollLoop env (False, False, False) s buf frames0"
    using passes_decodePollFrame [OF passes] fr by simp
  note step = pollLoop_step [OF sym gt, of "(False, False, False)" frames0]
  from decodeSymbol_keeps(10) [OF sym gt] obtain b m
    where br: "bitrate (decoder s1) = Some b" and md: "modulation (decoder s1) = Some m"
    by blast
  have emit: "\<exists>s' f. decodePollFrame env s0 buf0 frames0 = Inr (True, s', buf1, frames0 @ [f])
                 \<and> nfData f = take (unat (bytes (streamStatus s1))) (buffer (streamStatus s1))
                 \<and> (nfFrameFlags f AND Truncated \<noteq> 0 \<longleftrightarrow> se \<or> te)"
    if pos: "0 < bytes (streamStatus s1)"
      and cap: "unat (bytes (streamStatus s1)) \<le> length (buffer (streamStatus s1))"
      and ch: "chainedFlags s1 AND Truncated = 0"
  proof -
    from emitFrame_ok [OF br md pos cap, of env fe se te frames0]
    obtain s' f where e: "emitFrame env (fe, se, te) s1 frames0 = Inr (s', frames0 @ [f])"
      and d: "nfData f = take (unat (bytes (streamStatus s1))) (buffer (streamStatus s1))"
      and fl: "nfFrameFlags f = ((if te \<or> se then Truncated else 0)
                            OR (if \<not> checkCrc (nfData f) then CrcError else 0))
         \<or> nfFrameFlags f = ((if te \<or> se then Truncated else 0)
                            OR (if \<not> checkCrc (nfData f) then CrcError else 0) OR chainedFlags s1)"
      by blast
    from fl truncated_test [OF ch, of "te \<or> se" "\<not> checkCrc (nfData f)"]
    have "nfFrameFlags f AND Truncated \<noteq> 0 \<longleftrightarrow> se \<or> te"
      by (elim disjE) (simp only:, blast)+
    moreover have "pollBody env (False, False, False) pat s1 frames0
        = Inr (Some True, (fe, se, te), s', frames0 @ [f])"
      using tt fired pos e by (simp add: pollBody_def Let_def)
    ultimately show ?thesis
      using start step d by auto
  qed
  have reset: "decodePollFrame env s0 buf0 frames0 = Inr (False, resetModulation env s1, buf1, frames0)"
    if z: "bytes (streamStatus s1) = 0"
  proof -
    have "pollBody env (False, False, False) pat s1 frames0
        = Inr (Some False, (fe, se, te), resetModulation env s1, frames0)"
      using tt fired z by (simp add: pollBody_def Let_def)
    then show ?thesis using start step by simp
  qed
  have fields: "(\<forall>r. r \<le> r424k \<longrightarrow>
                        searchStage (modulationStatus (resetModulation env s1) r) = SOF_BEGIN
                      \<and> searchStartTime (modulationStatus (resetModulation env s1) r) = 0
                      \<and> searchEndTime (modulationStatus (resetModulation env s1) r) = 0
                      \<and> detectorPeek (modulationStatus (resetModulation env s1) r) = 0)
                 \<and> bitrate (decoder (resetModulation env s1)) = None
                 \<and> modulation (decoder (resetModulation env s1)) = None
                 \<and> frameType (frameStatus (resetModulation env s1)) = 0
                 \<and> frameStart (frameStatus (resetModulation env s1)) = 0
                 \<and> frameEnd (frameStatus (resetModulation env s1)) = 0
                 \<and> bits (streamStatus (resetModulation env s1)) = 0
                 \<and> data (streamStatus (resetModulation env s1)) = 0
                 \<and> bytes (streamStatus (resetModulation env s1)) = 0
                 \<and> symbolStatus (resetModulation env s1) = zeroSymbolStatus"
    by (simp add: resetModulation_fields resetLoop_modulation resetEntry_def zeroStreamStatus_def)
  from emit reset fields show ?thesis by blast
qed

text \<open>
  Claim C8. When the framer starts with \<open>bits \<le> 9\<close> and \<open>bytes \<le> maxFrameSize\<close>, both
  hold at the start of every pass of its loop, after the symbol of the pass has been
  decoded, and in the state that \<open>decodePollFrame\<close> returns.
\<close>

theorem framer_invariant_claim:
  assumes inv: "framerInv s0"
  shows "(\<forall>s buf frames. (pass env)\<^sup>*\<^sup>* (s0, buf0, frames0) (s, buf, frames)
            \<longrightarrow> bits (streamStatus s) \<le> 9
              \<and> bytes (streamStatus s) \<le> maxFrameSize (protocolStatus s)
              \<and> (\<forall>pat s1 buf1. decodePollFrameSymbolAsk env s buf = Inr (pat, s1, buf1)
                    \<longrightarrow> bits (streamStatus s1) \<le> 9
                      \<and> bytes (streamStatus s1) \<le> maxFrameSize (protocolStatus s1)))
       \<and> (\<forall>r s' buf' frames'. decodePollFrame env s0 buf0 frames0 = Inr (r, s', buf', frames')
            \<longrightarrow> bits (streamStatus s') \<le> 9
              \<and> bytes (streamStatus s') \<le> maxFrameSize (protocolStatus s'))"
proof (intro conjI allI impI)
  fix s buf frames
  assume p: "(pass env)\<^sup>*\<^sup>* (s0, buf0, frames0) (s, buf, frames)"
  from passes_inv [OF p] inv have i: "framerInv s" by simp
  then show "bits (streamStatus s) \<le> 9" "bytes (streamStatus s) \<le> maxFrameSize (protocolStatus s)"
    by (simp_all add: framerInv_def)
  fix pat s1 buf1
  assume "decodePollFrameSymbolAsk env s buf = Inr (pat, s1, buf1)"
  from decodeSymbol_inv [OF i this]
  show "bits (streamStatus s1) \<le> 9" "bytes (streamStatus s1) \<le> maxFrameSize (protocolStatus s1)"
    by (simp_all add: framerInv_def)
next
  fix r s' buf' frames'
  assume "decodePollFrame env s0 buf0 frames0 = Inr (r, s', buf', frames')"
  then have "pollLoop env (False, False, False) s0 buf0 frames0 = Inr (r, s', buf', frames')"
    by (simp add: decodePollFrame_def)
  from pollLoop_inv [OF inv this]
  show "bits (streamStatus s') \<le> 9" "bytes (streamStatus s') \<le> maxFrameSize (protocolStatus s')"
    by (simp_all add: framerInv_def)
qed

text \<open>
  Two runs of \<open>decodePollFrame\<close> on one low sample at the synchronisation point, after
  nine zero bits: with the byte \<open>0x05\<close> accumulated the frame is emitted, not truncated;
  with no byte accumulated the modulation is reset and nothing is emitted.
\<close>

theorem emit_claim_witness:
  "(pass cEnv)\<^sup>*\<^sup>* (exEof, [Num (1 / 2)], []) (exEof, [Num (1 / 2)], [])
   \<and> (\<exists>s1 s' f.
         decodePollFrameSymbolAsk cEnv exEof [Num (1 / 2)] = Inr (PatternL, s1, [])
       \<and> terminatorTests (False, False, False) s1 PatternL = (True, False, False)
       \<and> 0 < bytes (streamStatus s1)
       \<and> unat (bytes (streamStatus s1)) \<le> length (buffer (streamStatus s1))
       \<and> chainedFlags s1 AND Truncated = 0
       \<and> decodePollFrame cEnv exEof [Num (1 / 2)] [] = Inr (True, s', [], [f])
       \<and> nfData f = [0x05]
       \<and> nfFrameFlags f AND Truncated = 0)
   \<and> (\<exists>s1. decodePollFrameSymbolAsk cEnv exEofEmpty [Num (1 / 2)] = Inr (PatternL, s1, [])
       \<and> terminatorTests (False, False, False) s1 PatternL = (True, False, False)
       \<and> bytes (streamStatus s1) = 0
       \<and> frameType (frameStatus s1) = PollFrame
       \<and> bitrate (decoder s1) = Some r106k
       \<and> modulation (decoder s1) = Some r106k
       \<and> decodePollFrame cEnv exEofEmpty [Num (1 / 2)] [] = Inr (False, resetModulation cEnv s1, [], [])
       \<and> searchStage (modulationStatus (resetModulation cEnv s1) r106k) = SOF_BEGIN
       \<and> searchStartTime (modulationStatus (resetModulation cEnv s1) r106k) = 0
       \<and> searchEndTime (modulationStatus (resetModulation cEnv s1) r106k) = 0
       \<and> detectorPeek (modulationStatus (resetModulation cEnv s1) r106k) = 0
       \<and> bitrate (decoder (resetModulation cEnv s1)) = None
       \<and> modulation (decoder (resetModulation cEnv s1)) = None
       \<and> frameType (frameStatus (resetModulation cEnv s1)) = 0
       \<and> frameStart (frameStatus (resetModulation cEnv s1)) = 0
       \<and> frameEnd (frameStatus (resetModulation cEnv s1)) = 0
       \<and> bits (streamStatus (resetModulation cEnv s1)) = 0
       \<and> data (streamStatus (resetModulation cEnv s1)) = 0
       \<and> bytes (streamStatus (resetModulation cEnv s1)) = 0
       \<and> symbolStatus (resetModulation cEnv s1) = zeroSymbolStatus)"
proof -
  have "case decodePollFrameSymbolAsk cEnv exEof [Num (1 / 2)] of
          Inr (p, s, b) \<Rightarrow> p = PatternL \<and> b = [] | Inl _ \<Rightarrow> False"
    by code_simp
  then obtain s1 where d1: "decodePollFrameSymbolAsk cEnv exEof [Num (1 / 2)] = Inr (PatternL, s1, [])"
    by (auto split: sum.splits)
  note k1 = decodeSymbol_keeps(1-3) [OF d1]
  have st1: "streamStatus s1 = \<lparr>bits = 9, data = 0, bytes = 1, buffer = [0x05, 0, 0, 0]\<rparr>"
    "maxFrameSize (protocolStatus s1) = 256" "chainedFlags s1 = 0"
    by (simp_all add: k1 exEof_def exFramer_def exImpl_def)
  have t1: "terminatorTests (False, False, False) s1 PatternL = (True, False, False)"
    by (simp add: terminatorTests_def st1)
  have "case decodePollFrameSymbolAsk cEnv exEofEmpty [Num (1 / 2)] of
          Inr (p, s, b) \<Rightarrow> p = PatternL \<and> b = [] | Inl _ \<Rightarrow> False"
    by code_simp
  then obtain s2 where d2: "decodePollFrameSymbolAsk cEnv exEofEmpty [Num (1 / 2)] = Inr (PatternL, s2, [])"
    by (auto split: sum.splits)
  note k2 = decodeSymbol_keeps(1-3) [OF d2]
  have st2: "streamStatus s2 = \<lparr>bits = 9, data = 0, bytes = 0, buffer = [0, 0, 0, 0]\<rparr>"
    by (simp add: k2 exEofEmpty_def exFramer_def)
  have t2: "terminatorTests (False, False, False) s2 PatternL = (True, False, False)"
    by (simp add: terminatorTests_def st2)
  have gt: "NoPattern < PatternL" by simp
  from emit_claim [OF rtranclp.rtrancl_refl d1 gt t1, of "[]"] st1
  obtain s' f where e1: "decodePollFrame cEnv exEof [Num (1 / 2)] [] = Inr (True, s', [], [f])"
    and f: "nfData f = [0x05]" "nfFrameFlags f AND Truncated = 0"
    by auto
  have sel2: "frameType (frameStatus s2) = PollFrame"
    "bitrate (decoder s2) = Some r106k" "modulation (decoder s2) = Some r106k"
    by (simp_all add: decodeSymbol_keeps(4,6,7) [OF d2] exEofEmpty_def exFramer_def zeroFrameStatus_def)
  have z2: "bytes (streamStatus s2) = 0" by (simp add: st2)
  have le: "r106k \<le> r424k" by simp
  from emit_claim [OF rtranclp.rtrancl_refl d2 gt t2, of "[]"] z2
  have e2: "decodePollFrame cEnv exEofEmpty [Num (1 / 2)] [] = Inr (False, resetModulation cEnv s2, [], [])"
    and r2: "\<forall>r. r \<le> r424k \<longrightarrow>
                        searchStage (modulationStatus (resetModulation cEnv s2) r) = SOF_BEGIN
                      \<and> searchStartTime (modulationStatus (resetModulation cEnv s2) r) = 0
                      \<and> searchEndTime (modulationStatus (resetModulation cEnv s2) r) = 0
                      \<and> detectorPeek (modulationStatus (resetModulation cEnv s2) r) = 0"
    and f2: "bitrate (decoder (resetModulation cEnv s2)) = None"
      "modulation (decoder (resetModulation cEnv s2)) = None"
      "frameType (frameStatus (resetModulation cEnv s2)) = 0"
      "frameStart (frameStatus (resetModulation cEnv s2)) = 0"
      "frameEnd (frameStatus (resetModulation cEnv s2)) = 0"
      "bits (streamStatus (resetModulation cEnv s2)) = 0"
      "data (streamStatus (resetModulation cEnv s2)) = 0"
      "bytes (streamStatus (resetModulation cEnv s2)) = 0"
      "symbolStatus (resetModulation cEnv s2) = zeroSymbolStatus"
    by blast+
  from r2 le have m2: "searchStage (modulationStatus (resetModulation cEnv s2) r106k) = SOF_BEGIN"
    "searchStartTime (modulationStatus (resetModulation cEnv s2) r106k) = 0"
    "searchEndTime (modulationStatus (resetModulation cEnv s2) r106k) = 0"
    "detectorPeek (modulationStatus (resetModulation cEnv s2) r106k) = 0"
    by blast+
  have first: "\<exists>s1 s' f.
         decodePollFrameSymbolAsk cEnv exEof [Num (1 / 2)] = Inr (PatternL, s1, [])
       \<and> terminatorTests (False, False, False) s1 PatternL = (True, False, False)
       \<and> 0 < bytes (streamStatus s1)
       \<and> unat (bytes (streamStatus s1)) \<le> length (buffer (streamStatus s1))
       \<and> chainedFlags s1 AND Truncated = 0
       \<and> decodePollFrame cEnv exEof [Num (1 / 2)] [] = Inr (True, s', [], [f])
       \<and> nfData f = [0x05]
       \<and> nfFrameFlags f AND Truncated = 0"
    using d1 t1 st1 e1 f by auto
  have second: "\<exists>s1. decodePollFrameSymbolAsk cEnv exEofEmpty [Num (1 / 2)] = Inr (PatternL, s1, [])
       \<and> terminatorTests (False, False, False) s1 PatternL = (True, False, False)
       \<and> bytes (streamStatus s1) = 0
       \<and> frameType (frameStatus s1) = PollFrame
       \<and> bitrate (decoder s1) = Some r106k
       \<and> modulation (decoder s1) = Some r106k
       \<and> decodePollFrame cEnv exEofEmpty [Num (1 / 2)] [] = Inr (False, resetModulation cEnv s1, [], [])
       \<and> searchStage (modulationStatus (resetModulation cEnv s1) r106k) = SOF_BEGIN
       \<and> searchStartTime (modulationStatus (resetModulation cEnv s1) r106k) = 0
       \<and> searchEndTime (modulationStatus (resetModulation cEnv s1) r106k) = 0
       \<and> detectorPeek (modulationStatus (resetModulation cEnv s1) r106k) = 0
       \<and> bitrate (decoder (resetModulation cEnv s1)) = None
       \<and> modulation (decoder (resetModulation cEnv s1)) = None
       \<and> frameType (frameStatus (resetModulation cEnv s1)) = 0
       \<and> frameStart (frameStatus (resetModulation cEnv s1)) = 0
       \<and> frameEnd (frameStatus (resetModulation cEnv s1)) = 0
       \<and> bits (streamStatus (resetModulation cEnv s1)) = 0
       \<and> data (streamStatus (resetModulation cEnv s1)) = 0
       \<and> bytes (streamStatus (resetModulation cEnv s1)) = 0
       \<and> symbolStatus (resetModulation cEnv s1) = zeroSymbolStatus"
    using d2 t2 z2 sel2 e2 m2 f2 by (intro exI [of _ s2] conjI)
  have "(pass cEnv)\<^sup>*\<^sup>* (exEof, [Num (1 / 2)], []) (exEof, [Num (1 / 2)], [])" by simp
  from this first second show ?thesis by (intro conjI)
qed

text \<open>
  A run from the middle of a character: after one pass the bit position is 4, and both
  bounds hold there and in the state returned.
\<close>

theorem framer_invariant_claim_witness:
  "framerInv exMid
   \<and> (\<exists>s2. (pass cEnv)\<^sup>*\<^sup>* (exMid, [Num 1, Num 1], []) (s2, [Num 1], [])
          \<and> bits (streamStatus s2) = 4
          \<and> bits (streamStatus s2) \<le> 9
          \<and> bytes (streamStatus s2) \<le> maxFrameSize (protocolStatus s2))
   \<and> (\<exists>r s' buf' frames'. decodePollFrame cEnv exMid [Num 1, Num 1] [] = Inr (r, s', buf', frames')
          \<and> bits (streamStatus s') \<le> 9
          \<and> bytes (streamStatus s') \<le> maxFrameSize (protocolStatus s'))"
proof -
  have inv: "framerInv exMid"
    by (simp add: framerInv_def exMid_def exFramer_def)
  have "case decodePollFrameSymbolAsk cEnv exMid [Num 1, Num 1] of
          Inr (p, s1, b1) \<Rightarrow>
            (case pollBody cEnv (False, False, False) p s1 [] of
               Inr (None, fl, s2, fr) \<Rightarrow>
                 NoPattern < p \<and> b1 = [Num 1] \<and> fr = [] \<and> bits (streamStatus s2) = 4
             | _ \<Rightarrow> False)
        | Inl _ \<Rightarrow> False"
    by code_simp
  then have ev: "case decodePollFrameSymbolAsk cEnv exMid [Num 1, Num 1] of
          Inr (p, s1, b1) \<Rightarrow>
            (case pollBody cEnv (False, False, False) p s1 [] of
               Inr (None, fl, s2, fr) \<Rightarrow>
                 NoPattern < p \<and> b1 = [Num 1] \<and> fr = [] \<and> bits (streamStatus s2) = 4
             | _ \<Rightarrow> False)
        | Inl _ \<Rightarrow> False" .
  obtain x where x: "decodePollFrameSymbolAsk cEnv exMid [Num 1, Num 1] = Inr x"
    using ev by (cases "decodePollFrameSymbolAsk cEnv exMid [Num 1, Num 1]") auto
  obtain p s1 b1 where xp: "x = (p, s1, b1)" by (cases x)
  from ev x xp have ev2: "case pollBody cEnv (False, False, False) p s1 [] of
               Inr (None, fl, s2, fr) \<Rightarrow>
                 NoPattern < p \<and> b1 = [Num 1] \<and> fr = [] \<and> bits (streamStatus s2) = 4
             | _ \<Rightarrow> False" by simp
  obtain y where y: "pollBody cEnv (False, False, False) p s1 [] = Inr y"
    using ev2 by (cases "pollBody cEnv (False, False, False) p s1 []") auto
  obtain ret fl s2 fr where yp: "y = (ret, fl, s2, fr)" by (cases y)
  from ev2 y yp have res: "ret = None" "NoPattern < p" "b1 = [Num 1]" "fr = []"
    "bits (streamStatus s2) = 4"
    by (cases ret; simp)+
  note gt = res(2) and b4 = res(5)
  from x xp res have d: "decodePollFrameSymbolAsk cEnv exMid [Num 1, Num 1] = Inr (p, s1, [Num 1])"
    by simp
  from y yp res have b: "pollBody cEnv (False, False, False) p s1 [] = Inr (None, fl, s2, [])"
    by simp
  have ps: "(pass cEnv)\<^sup>*\<^sup>* (exMid, [Num 1, Num 1], []) (s2, [Num 1], [])"
    using passI [OF d gt b] by blast
  have "case decodePollFrame cEnv exMid [Num 1, Num 1] [] of Inr _ \<Rightarrow> True | Inl _ \<Rightarrow> False"
    by code_simp
  then obtain r s' buf' frames'
    where r: "decodePollFrame cEnv exMid [Num 1, Num 1] [] = Inr (r, s', buf', frames')"
    by (auto split: sum.splits)
  from framer_invariant_claim [OF inv, of cEnv "[Num 1, Num 1]" "[]"] ps r b4
  show ?thesis using inv by blast
qed

section \<open>The terminators of the framer\<close>

lemma pollBody_terminated:
  assumes "terminatorTests (False, False, False) s pat = (fe, se, te)"
  shows "pollBody env (False, False, False) pat s frames =
    (if fe \<or> se \<or> te then
       (if 0 < bytes (streamStatus s) then
          (case emitFrame env (fe, se, te) s frames of
             Inl e \<Rightarrow> Inl e
           | Inr (s1, frames1) \<Rightarrow> Inr (Some True, (fe, se, te), s1, frames1))
        else Inr (Some False, (fe, se, te), resetModulation env s, frames))
     else
       (case decodeBit s of
          Inl e \<Rightarrow> Inl e
        | Inr s1 \<Rightarrow> Inr (None, (False, False, False), s1, frames)))"
  using assms by (auto simp: pollBody_def Let_def split: sum.splits)

text \<open>
  Claim C3. For every symbol that the framer consumes, with \<open>fe\<close> standing for
  \<open>bits = 9\<close>, \<open>data = 0\<close> and the pattern \<open>PatternL\<close>; \<open>se\<close> for \<open>bits = 0\<close> with
  \<open>PatternH\<close>, or \<open>bits = 9\<close> with \<open>PatternL\<close> and \<open>data \<noteq> 0\<close>; and \<open>te\<close> for neither
  of the two and \<open>bytes\<close> equal to \<open>maxFrameSize\<close>. The three tests of the body of the
  loop, from the three flags false, raise the end of frame exactly when \<open>fe\<close>, the
  stream error exactly when \<open>se\<close> and the truncation exactly when \<open>te\<close>. Whatever the
  body returns, the flags it leaves are these three, and it reaches its end (the loop
  continues) exactly when none is raised. When one is raised the body returns: false if
  no byte is accumulated, true with one frame appended if at least one is (the stream
  buffer holding the accumulated bytes and both selections of the decoder being set).
  When none is raised and the stream buffer has room, the body reaches its end with the
  three flags false. In every pass of the loop of \<open>decodePollFrame\<close> the body runs from
  the three flags false, and what it returns is what \<open>decodePollFrame\<close> returns.
\<close>

theorem terminators_claim:
  fixes env :: "('f::{zero,plus,minus,uminus,times,inverse,abs,ord}) Env" and s :: "'f Impl"
    and pat :: u32 and frames :: "'f NfcFrame list"
  defines "fe \<equiv> bits (streamStatus s) = 9 \<and> data (streamStatus s) = 0 \<and> pat = PatternL"
    and "se \<equiv> (bits (streamStatus s) = 0 \<and> pat = PatternH)
             \<or> (bits (streamStatus s) = 9 \<and> pat = PatternL \<and> data (streamStatus s) \<noteq> 0)"
    and "te \<equiv> \<not> (bits (streamStatus s) = 9 \<and> data (streamStatus s) = 0 \<and> pat = PatternL)
             \<and> \<not> ((bits (streamStatus s) = 0 \<and> pat = PatternH)
                    \<or> (bits (streamStatus s) = 9 \<and> pat = PatternL \<and> data (streamStatus s) \<noteq> 0))
             \<and> bytes (streamStatus s) = maxFrameSize (protocolStatus s)"
  shows "terminatorTests (False, False, False) s pat = (fe, se, te)
   \<and> (\<forall>ret flags1 s1 frames1.
         pollBody env (False, False, False) pat s frames = Inr (ret, flags1, s1, frames1)
         \<longrightarrow> flags1 = (fe, se, te) \<and> (ret = None \<longleftrightarrow> \<not> (fe \<or> se \<or> te)))
   \<and> ((fe \<or> se \<or> te) \<and> bytes (streamStatus s) = 0
        \<longrightarrow> (\<exists>s1. pollBody env (False, False, False) pat s frames
                    = Inr (Some False, (fe, se, te), s1, frames)))
   \<and> ((fe \<or> se \<or> te) \<and> 0 < bytes (streamStatus s)
        \<and> unat (bytes (streamStatus s)) \<le> length (buffer (streamStatus s))
        \<and> bitrate (decoder s) \<noteq> None \<and> modulation (decoder s) \<noteq> None
        \<longrightarrow> (\<exists>s1 f. pollBody env (False, False, False) pat s frames
                    = Inr (Some True, (fe, se, te), s1, frames @ [f])))
   \<and> (\<not> (fe \<or> se \<or> te) \<and> unat (bytes (streamStatus s)) < length (buffer (streamStatus s))
        \<longrightarrow> (\<exists>s1. pollBody env (False, False, False) pat s frames
                    = Inr (None, (False, False, False), s1, frames)))
   \<and> (\<forall>s0 buf0 frames0 s' buf buf1.
         (pass env)\<^sup>*\<^sup>* (s0, buf0, frames0) (s', buf, frames)
         \<and> decodePollFrameSymbolAsk env s' buf = Inr (pat, s, buf1) \<and> NoPattern < pat
         \<longrightarrow> decodePollFrame env s0 buf0 frames0 =
              (case pollBody env (False, False, False) pat s frames of
                 Inl e \<Rightarrow> Inl e
               | Inr (Some r, flags1, s2, frames1) \<Rightarrow> Inr (r, s2, buf1, frames1)
               | Inr (None, flags1, s2, frames1) \<Rightarrow>
                   pollLoop env (False, False, False) s2 buf1 frames1))"
proof -
  have tt: "terminatorTests (False, False, False) s pat = (fe, se, te)"
    unfolding fe_def se_def te_def by (rule terminatorTests_fresh)
  note body = pollBody_terminated [OF tt, of env frames]
  have 2: "flags1 = (fe, se, te) \<and> (ret = None \<longleftrightarrow> \<not> (fe \<or> se \<or> te))"
    if "pollBody env (False, False, False) pat s frames = Inr (ret, flags1, s1, frames1)"
    for ret flags1 s1 frames1
    using that unfolding body by (auto split: if_splits sum.splits)
  have 3: "\<exists>s1. pollBody env (False, False, False) pat s frames
                    = Inr (Some False, (fe, se, te), s1, frames)"
    if "(fe \<or> se \<or> te) \<and> bytes (streamStatus s) = 0"
    using that unfolding body by simp
  have 4: "\<exists>s1 f. pollBody env (False, False, False) pat s frames
                    = Inr (Some True, (fe, se, te), s1, frames @ [f])"
    if h: "(fe \<or> se \<or> te) \<and> 0 < bytes (streamStatus s)
        \<and> unat (bytes (streamStatus s)) \<le> length (buffer (streamStatus s))
        \<and> bitrate (decoder s) \<noteq> None \<and> modulation (decoder s) \<noteq> None"
  proof -
    from h obtain b m where "bitrate (decoder s) = Some b" "modulation (decoder s) = Some m"
      by auto
    from emitFrame_ok [OF this, of env fe se te frames] h
    obtain s1 f where "emitFrame env (fe, se, te) s frames = Inr (s1, frames @ [f])" by blast
    with h show ?thesis unfolding body by simp
  qed
  have 5: "\<exists>s1. pollBody env (False, False, False) pat s frames
                    = Inr (None, (False, False, False), s1, frames)"
    if h: "\<not> (fe \<or> se \<or> te) \<and> unat (bytes (streamStatus s)) < length (buffer (streamStatus s))"
  proof -
    from h have "\<exists>s1. decodeBit s = Inr s1"
      by (simp add: decodeBit_def Let_def)
    with h show ?thesis unfolding body by auto
  qed
  have 6: "decodePollFrame env s0 buf0 frames0 =
              (case pollBody env (False, False, False) pat s frames of
                 Inl e \<Rightarrow> Inl e
               | Inr (Some r, flags1, s2, frames1) \<Rightarrow> Inr (r, s2, buf1, frames1)
               | Inr (None, flags1, s2, frames1) \<Rightarrow>
                   pollLoop env (False, False, False) s2 buf1 frames1)"
    if h: "(pass env)\<^sup>*\<^sup>* (s0, buf0, frames0) (s', buf, frames)
         \<and> decodePollFrameSymbolAsk env s' buf = Inr (pat, s, buf1) \<and> NoPattern < pat"
    for s0 buf0 frames0 s' buf buf1
  proof -
    from h have p: "(pass env)\<^sup>*\<^sup>* (s0, buf0, frames0) (s', buf, frames)"
      and sym: "decodePollFrameSymbolAsk env s' buf = Inr (pat, s, buf1)" and gt: "NoPattern < pat"
      by simp_all
    have "decodePollFrame env s0 buf0 frames0 = pollLoop env (False, False, False) s' buf frames"
      by (rule passes_decodePollFrame [OF p])
    also have "\<dots> = (case pollBody env (False, False, False) pat s frames of
                 Inl e \<Rightarrow> Inl e
               | Inr (Some r, flags1, s2, frames1) \<Rightarrow> Inr (r, s2, buf1, frames1)
               | Inr (None, flags1, s2, frames1) \<Rightarrow> pollLoop env flags1 s2 buf1 frames1)"
      by (rule pollLoop_step [OF sym gt])
    also have "\<dots> = (case pollBody env (False, False, False) pat s frames of
                 Inl e \<Rightarrow> Inl e
               | Inr (Some r, flags1, s2, frames1) \<Rightarrow> Inr (r, s2, buf1, frames1)
               | Inr (None, flags1, s2, frames1) \<Rightarrow>
                   pollLoop env (False, False, False) s2 buf1 frames1)"
      by (auto split: sum.splits option.splits dest: pollBody_continue)
    finally show ?thesis .
  qed
  from tt 2 3 4 5 6 show ?thesis by blast
qed

text \<open>
  The terminators on five examples: a tenth low symbol after nine zero bits ends the
  frame, with a byte accumulated (a frame is appended) and without (none is); a high
  symbol at the start of a character is a stream error; a symbol after 256 bytes is a
  truncation; a high symbol in the middle of a character raises nothing, and the body
  reaches its end with the flags false. The first example is also the single pass of a
  run of \<open>decodePollFrame\<close>.
\<close>

theorem terminators_claim_witness:
  "terminatorTests (False, False, False) exEof PatternL = (True, False, False)
   \<and> (\<exists>s1 f. pollBody cEnv (False, False, False) PatternL exEof []
                = Inr (Some True, (True, False, False), s1, [f]))
   \<and> terminatorTests (False, False, False) exStart PatternH = (False, True, False)
   \<and> (\<exists>s1 f. pollBody cEnv (False, False, False) PatternH exStart []
                = Inr (Some True, (False, True, False), s1, [f]))
   \<and> terminatorTests (False, False, False) exFull PatternH = (False, False, True)
   \<and> (\<exists>s1 f. pollBody cEnv (False, False, False) PatternH exFull []
                = Inr (Some True, (False, False, True), s1, [f]))
   \<and> terminatorTests (False, False, False) exEofEmpty PatternL = (True, False, False)
   \<and> (\<exists>s1. pollBody cEnv (False, False, False) PatternL exEofEmpty []
                = Inr (Some False, (True, False, False), s1, []))
   \<and> terminatorTests (False, False, False) exMid PatternH = (False, False, False)
   \<and> (\<exists>s1. pollBody cEnv (False, False, False) PatternH exMid []
                = Inr (None, (False, False, False), s1, []))
   \<and> (\<exists>s. decodePollFrameSymbolAsk cEnv exEof [Num (1 / 2)] = Inr (PatternL, s, [])
         \<and> decodePollFrame cEnv exEof [Num (1 / 2)] [] =
              (case pollBody cEnv (False, False, False) PatternL s [] of
                 Inl e \<Rightarrow> Inl e
               | Inr (Some r, flags1, s2, frames1) \<Rightarrow> Inr (r, s2, [], frames1)
               | Inr (None, flags1, s2, frames1) \<Rightarrow>
                   pollLoop cEnv (False, False, False) s2 [] frames1))"
proof -
  have eof: "bits (streamStatus exEof) = 9" "data (streamStatus exEof) = 0"
    "bytes (streamStatus exEof) = 1" "length (buffer (streamStatus exEof)) = 4"
    "bitrate (decoder exEof) = Some r106k" "modulation (decoder exEof) = Some r106k"
    by (simp_all add: exEof_def exFramer_def)
  have start: "bits (streamStatus exStart) = 0" "data (streamStatus exStart) = 0"
    "bytes (streamStatus exStart) = 1" "length (buffer (streamStatus exStart)) = 4"
    "bitrate (decoder exStart) = Some r106k" "modulation (decoder exStart) = Some r106k"
    by (simp_all add: exStart_def exFramer_def)
  have full: "bits (streamStatus exFull) = 3" "data (streamStatus exFull) = 0"
    "bytes (streamStatus exFull) = 256" "length (buffer (streamStatus exFull)) = 256"
    "maxFrameSize (protocolStatus exFull) = 256"
    "bitrate (decoder exFull) = Some r106k" "modulation (decoder exFull) = Some r106k"
    by (simp_all add: exFull_def exFramer_def)
  have empty: "bits (streamStatus exEofEmpty) = 9" "data (streamStatus exEofEmpty) = 0"
    "bytes (streamStatus exEofEmpty) = 0"
    by (simp_all add: exEofEmpty_def exFramer_def)
  have mid: "bits (streamStatus exMid) = 3" "bytes (streamStatus exMid) = 0"
    "length (buffer (streamStatus exMid)) = 4" "maxFrameSize (protocolStatus exMid) = 256"
    by (simp_all add: exMid_def exFramer_def exImpl_def)
  have "case decodePollFrameSymbolAsk cEnv exEof [Num (1 / 2)] of
          Inr (p, s, b) \<Rightarrow> p = PatternL \<and> b = [] | Inl _ \<Rightarrow> False"
    by code_simp
  then obtain s where sym: "decodePollFrameSymbolAsk cEnv exEof [Num (1 / 2)] = Inr (PatternL, s, [])"
    by (auto split: sum.splits)
  have gt: "NoPattern < PatternL" by simp
  have refl: "(pass cEnv)\<^sup>*\<^sup>* (exEof, [Num (1 / 2)], []) (exEof, [Num (1 / 2)], [])" by simp
  from terminators_claim [where env = cEnv and s = exEof and pat = PatternL and frames = "[]"] eof
  have 1: "terminatorTests (False, False, False) exEof PatternL = (True, False, False)"
    "\<exists>s1 f. pollBody cEnv (False, False, False) PatternL exEof []
                = Inr (Some True, (True, False, False), s1, [f])"
    by simp_all
  from terminators_claim [where env = cEnv and s = exStart and pat = PatternH and frames = "[]"] start
  have 2: "terminatorTests (False, False, False) exStart PatternH = (False, True, False)"
    "\<exists>s1 f. pollBody cEnv (False, False, False) PatternH exStart []
                = Inr (Some True, (False, True, False), s1, [f])"
    by simp_all
  from terminators_claim [where env = cEnv and s = exFull and pat = PatternH and frames = "[]"] full
  have 3: "terminatorTests (False, False, False) exFull PatternH = (False, False, True)"
    "\<exists>s1 f. pollBody cEnv (False, False, False) PatternH exFull []
                = Inr (Some True, (False, False, True), s1, [f])"
    by simp_all
  from terminators_claim [where env = cEnv and s = exEofEmpty and pat = PatternL and frames = "[]"] empty
  have 4: "terminatorTests (False, False, False) exEofEmpty PatternL = (True, False, False)"
    "\<exists>s1. pollBody cEnv (False, False, False) PatternL exEofEmpty []
                = Inr (Some False, (True, False, False), s1, [])"
    by simp_all
  from terminators_claim [where env = cEnv and s = exMid and pat = PatternH and frames = "[]"] mid
  have 5: "terminatorTests (False, False, False) exMid PatternH = (False, False, False)"
    "\<exists>s1. pollBody cEnv (False, False, False) PatternH exMid []
                = Inr (None, (False, False, False), s1, [])"
    by simp_all
  from terminators_claim [where env = cEnv and s = s and pat = PatternL and frames = "[]"]
  have "\<forall>s0 buf0 frames0 s' buf buf1.
         (pass cEnv)\<^sup>*\<^sup>* (s0, buf0, frames0) (s', buf, [])
         \<and> decodePollFrameSymbolAsk cEnv s' buf = Inr (PatternL, s, buf1) \<and> NoPattern < PatternL
         \<longrightarrow> decodePollFrame cEnv s0 buf0 frames0 =
              (case pollBody cEnv (False, False, False) PatternL s [] of
                 Inl e \<Rightarrow> Inl e
               | Inr (Some r, flags1, s2, frames1) \<Rightarrow> Inr (r, s2, buf1, frames1)
               | Inr (None, flags1, s2, frames1) \<Rightarrow>
                   pollLoop cEnv (False, False, False) s2 buf1 frames1)"
    by blast
  with refl sym gt
  have 6: "decodePollFrame cEnv exEof [Num (1 / 2)] [] =
              (case pollBody cEnv (False, False, False) PatternL s [] of
                 Inl e \<Rightarrow> Inl e
               | Inr (Some r, flags1, s2, frames1) \<Rightarrow> Inr (r, s2, [], frames1)
               | Inr (None, flags1, s2, frames1) \<Rightarrow>
                   pollLoop cEnv (False, False, False) s2 [] frames1)"
    by blast
  from sym 6 have 7: "\<exists>s. decodePollFrameSymbolAsk cEnv exEof [Num (1 / 2)] = Inr (PatternL, s, [])
         \<and> decodePollFrame cEnv exEof [Num (1 / 2)] [] =
              (case pollBody cEnv (False, False, False) PatternL s [] of
                 Inl e \<Rightarrow> Inl e
               | Inr (Some r, flags1, s2, frames1) \<Rightarrow> Inr (r, s2, [], frames1)
               | Inr (None, flags1, s2, frames1) \<Rightarrow>
                   pollLoop cEnv (False, False, False) s2 [] frames1)"
    by blast
  from 1 2 3 4 5 7 show ?thesis by (intro conjI)
qed

section \<open>Properties of the start-of-frame detector\<close>

lemma detectLoop_unroll:
  "detectLoop env r106k s =
     (case detectRate env r106k s of (Some r, s1) \<Rightarrow> (r, s1) | (None, s1) \<Rightarrow> (False, s1))"
  by (simp add: detectLoop.simps split: prod.splits option.splits)

lemma detectModulation_examined:
  "examined s \<Longrightarrow> detectModulation env s =
     (case detectRate env r106k s of (Some r, s1) \<Rightarrow> (r, s1) | (None, s1) \<Rightarrow> (False, s1))"
  by (simp add: detectModulation_def examined_def detectLoop_unroll)

lemma detectModulation_skipped:
  "\<not> examined s \<Longrightarrow> detectModulation env s = (False, s)"
  by (simp add: detectModulation_def examined_def)

lemma integrate_stage [simp]:
  "searchStage (integrate env b m s) = searchStage (modulationStatus s m)"
  "searchStartTime (integrate env b m s) = searchStartTime (modulationStatus s m)"
  "searchEndTime (integrate env b m s) = searchEndTime (modulationStatus s m)"
  "searchPeakTime (integrate env b m s) = searchPeakTime (modulationStatus s m)"
  "detectorPeek (integrate env b m s) = detectorPeek (modulationStatus s m)"
  "symbolStartTime (integrate env b m s) = symbolStartTime (modulationStatus s m)"
  "symbolEndTime (integrate env b m s) = symbolEndTime (modulationStatus s m)"
  "symbolSyncTime (integrate env b m s) = symbolSyncTime (modulationStatus s m)"
  by (simp_all add: integrate_def Let_def)

text \<open>What one case of the switch does to the search stage.\<close>

lemma sofBeginPeak_stage [simp]:
  "searchStage (sofBeginPeak env bp clock e d thr m) = searchStage m"
  "symbolStartTime (sofBeginPeak env bp clock e d thr m) = symbolStartTime m"
  by (simp_all add: sofBeginPeak_def)

lemma sofIdlePeak_stage [simp]:
  "searchStage (sofIdlePeak env bp clock e m) = searchStage m"
  by (simp add: sofIdlePeak_def)

lemma sofEndPeak_stage [simp]:
  "searchStage (sofEndPeak env bp clock e d thr m) = searchStage m"
  "symbolStartTime (sofEndPeak env bp clock e d thr m) = symbolStartTime m"
  by (simp_all add: sofEndPeak_def)

lemma sofBegin_stage:
  "searchStage m = SOF_BEGIN \<Longrightarrow>
     searchStage (sofBegin env bp clock e d thr m) = SOF_BEGIN
   \<or> searchStage (sofBegin env bp clock e d thr m) = SOF_IDLE"
  by (simp add: sofBegin_def Let_def)

lemma sofIdle_stage:
  "searchStage m = SOF_IDLE \<Longrightarrow>
     searchStage (snd (sofIdle env bp clock e m)) = SOF_BEGIN
   \<or> searchStage (snd (sofIdle env bp clock e m)) = SOF_IDLE
   \<or> searchStage (snd (sofIdle env bp clock e m)) = SOF_END"
  by (simp add: sofIdle_def Let_def sofAbandon_def)

lemma sofEnd_stage:
  "searchStage m = SOF_END \<Longrightarrow>
     searchStage (snd (sofEnd env bp clock e d thr m)) = SOF_BEGIN
   \<or> searchStage (snd (sofEnd env bp clock e d thr m)) = SOF_END"
  by (simp add: sofEnd_def Let_def sofAbandon_def)


text \<open>The body of the loop over the rates, case by case.\<close>

lemma detectRate_overshoot:
  assumes "overshoot env s"
  shows "detectRate env r106k s =
    (Some False,
     s\<lparr>modulationStatus := (modulationStatus s)
        (r106k := (integrate env r106k r106k s)
           \<lparr>searchStage := SOF_BEGIN, searchStartTime := 0, searchEndTime := 0,
            detectorPeek := 0\<rparr>)\<rparr>)"
  using assms by (simp add: detectRate_def overshoot_def Let_def)

lemma detectRate_begin:
  assumes "\<not> overshoot env s" and "searchStage (modulationStatus s r106k) = SOF_BEGIN"
  shows "detectRate env r106k s =
    (None,
     s\<lparr>modulationStatus := (modulationStatus s)
        (r106k := sofBegin env (bitrateParams s r106k) (signalClock (decoder s))
                    (edgeOf env r106k r106k s) (deepOf env r106k s)
                    (minimumModulationThreshold s) (integrate env r106k r106k s))\<rparr>)"
  using assms by (simp add: detectRate_def overshoot_def Let_def)

lemma detectRate_idle:
  assumes "\<not> overshoot env s" and "searchStage (modulationStatus s r106k) = SOF_IDLE"
  shows "detectRate env r106k s =
    (if fst (sofIdle env (bitrateParams s r106k) (signalClock (decoder s))
               (edgeOf env r106k r106k s) (integrate env r106k r106k s))
     then Some False else None,
     s\<lparr>modulationStatus := (modulationStatus s)
        (r106k := snd (sofIdle env (bitrateParams s r106k) (signalClock (decoder s))
                         (edgeOf env r106k r106k s) (integrate env r106k r106k s)))\<rparr>)"
  using assms by (simp add: detectRate_def overshoot_def Let_def split: prod.splits)

lemma detectRate_end:
  assumes "\<not> overshoot env s" and "searchStage (modulationStatus s r106k) = SOF_END"
  shows "detectRate env r106k s =
    (let r = sofEnd env (bitrateParams s r106k) (signalClock (decoder s))
               (edgeOf env r106k r106k s) (deepOf env r106k s)
               (minimumModulationThreshold s) (integrate env r106k r106k s)
     in if fst r then
          (Some True,
           s\<lparr>modulationStatus := (modulationStatus s)(r106k := snd r),
              frameStatus := (frameStatus s)
                \<lparr>frameType := PollFrame,
                 symbolRate := symbolsPerSecond (bitrateParams s r106k),
                 frameStart := symbolStartTime (modulationStatus s r106k)
                               - symbolDelayDetect (bitrateParams s r106k),
                 frameEnd := 0\<rparr>,
              decoder := (decoder s)\<lparr>bitrate := Some r106k, modulation := Some r106k\<rparr>\<rparr>)
        else (None, s\<lparr>modulationStatus := (modulationStatus s)(r106k := snd r)\<rparr>))"
  using assms by (simp add: detectRate_def overshoot_def Let_def split: prod.splits)

lemma detectRate_other:
  assumes "\<not> overshoot env s" and "searchStage (modulationStatus s r106k) \<noteq> SOF_BEGIN"
    and "searchStage (modulationStatus s r106k) \<noteq> SOF_IDLE"
    and "searchStage (modulationStatus s r106k) \<noteq> SOF_END"
  shows "detectRate env r106k s =
    (None, s\<lparr>modulationStatus := (modulationStatus s)(r106k := integrate env r106k r106k s)\<rparr>)"
  using assms by (simp add: detectRate_def overshoot_def Let_def)

text \<open>A detection is confirmed only in the stage \<open>SOF_END\<close>, on an examined sample without overshoot.\<close>

lemma detect_true:
  assumes "fst (detectModulation env s)"
  shows "examined s \<and> \<not> overshoot env s \<and> searchStage (modulationStatus s r106k) = SOF_END
       \<and> fst (sofEnd env (bitrateParams s r106k) (signalClock (decoder s))
               (edgeOf env r106k r106k s) (deepOf env r106k s)
               (minimumModulationThreshold s) (integrate env r106k r106k s))"
proof -
  from assms have ex: "examined s"
    by (rule contrapos_pp) (simp add: detectModulation_skipped)
  from assms have r: "fst (detectRate env r106k s) = Some True"
    by (auto simp: detectModulation_examined [OF ex] split: prod.splits option.splits)
  have no: "\<not> overshoot env s"
    using r by (auto simp: detectRate_overshoot)
  have st: "searchStage (modulationStatus s r106k) = SOF_END"
  proof (rule ccontr)
    assume n: "searchStage (modulationStatus s r106k) \<noteq> SOF_END"
    consider "searchStage (modulationStatus s r106k) = SOF_BEGIN"
      | "searchStage (modulationStatus s r106k) = SOF_IDLE"
      | "searchStage (modulationStatus s r106k) \<noteq> SOF_BEGIN"
        "searchStage (modulationStatus s r106k) \<noteq> SOF_IDLE"
      by blast
    then show False
      using r n no
      by cases (simp_all add: detectRate_begin detectRate_idle detectRate_other split: if_splits)
  qed
  from r show ?thesis
    using ex no st by (auto simp: detectRate_end [OF no st] Let_def split: if_splits)
qed

text \<open>From the stage \<open>SOF_BEGIN\<close> a call leads to \<open>SOF_BEGIN\<close> or \<open>SOF_IDLE\<close>.\<close>

lemma detect_from_begin:
  assumes "searchStage (modulationStatus s r106k) = SOF_BEGIN"
  shows "searchStage (modulationStatus (snd (detectModulation env s)) r106k) = SOF_BEGIN
       \<or> searchStage (modulationStatus (snd (detectModulation env s)) r106k) = SOF_IDLE"
proof (cases "examined s")
  case False
  with assms show ?thesis by (simp add: detectModulation_skipped)
next
  case True
  show ?thesis
  proof (cases "overshoot env s")
    case True
    with \<open>examined s\<close> show ?thesis
      by (simp add: detectModulation_examined detectRate_overshoot)
  next
    case False
    with \<open>examined s\<close> assms
      sofBegin_stage [of "integrate env r106k r106k s" env "bitrateParams s r106k"
        "signalClock (decoder s)" "edgeOf env r106k r106k s" "deepOf env r106k s"
        "minimumModulationThreshold s"]
    show ?thesis
      by (simp add: detectModulation_examined detectRate_begin)
  qed
qed

text \<open>
  Claim C10. Whenever \<open>detectModulation\<close> returns true, the frame type is \<open>PollFrame\<close>
  and the bitrate and modulation selections of the decoder are the entries of the rate
  106k, the only rate that the loop of the detector visits; whenever it returns false,
  both selections keep their previous values.
\<close>

theorem detect_selection_claim:
  "(fst (detectModulation env s) \<longrightarrow>
       frameType (frameStatus (snd (detectModulation env s))) = PollFrame
     \<and> bitrate (decoder (snd (detectModulation env s))) = Some r106k
     \<and> modulation (decoder (snd (detectModulation env s))) = Some r106k)
   \<and> (\<not> fst (detectModulation env s) \<longrightarrow>
       bitrate (decoder (snd (detectModulation env s))) = bitrate (decoder s)
     \<and> modulation (decoder (snd (detectModulation env s))) = modulation (decoder s))"
proof (cases "fst (detectModulation env s)")
  case True
  from detect_true [OF True] have ex: "examined s" and no: "\<not> overshoot env s"
    and st: "searchStage (modulationStatus s r106k) = SOF_END"
    and c: "fst (sofEnd env (bitrateParams s r106k) (signalClock (decoder s))
               (edgeOf env r106k r106k s) (deepOf env r106k s)
               (minimumModulationThreshold s) (integrate env r106k r106k s))"
    by simp_all
  from True c show ?thesis
    by (simp add: detectModulation_examined [OF ex] detectRate_end [OF no st] Let_def)
next
  case False
  show ?thesis
  proof (cases "examined s")
    case n: False
    then show ?thesis by (simp add: detectModulation_skipped)
  next
    case ex: True
    show ?thesis
    proof (cases "overshoot env s")
      case True
      with ex show ?thesis
        by (simp add: detectModulation_examined detectRate_overshoot)
    next
      case no: False
      consider "searchStage (modulationStatus s r106k) = SOF_BEGIN"
        | "searchStage (modulationStatus s r106k) = SOF_IDLE"
        | "searchStage (modulationStatus s r106k) = SOF_END"
        | "searchStage (modulationStatus s r106k) \<noteq> SOF_BEGIN"
          "searchStage (modulationStatus s r106k) \<noteq> SOF_IDLE"
          "searchStage (modulationStatus s r106k) \<noteq> SOF_END"
        by blast
      then show ?thesis
      proof cases
        case 1
        with ex no show ?thesis by (simp add: detectModulation_examined detectRate_begin)
      next
        case 2
        with ex no show ?thesis by (simp add: detectModulation_examined detectRate_idle)
      next
        case 3
        with ex no False show ?thesis
          by (simp add: detectModulation_examined detectRate_end Let_def split: if_splits)
      next
        case 4
        with ex no show ?thesis by (simp add: detectModulation_examined detectRate_other)
      qed
    qed
  qed
qed

text \<open>
  On the run of \<open>exSof\<close>: the call on the last sample returns true, with the frame type
  \<open>PollFrame\<close> and both selections at the rate 106k; the call on the sample at 1003, which
  closes the first window, returns false and leaves both selections as they were.
\<close>

theorem detect_selection_claim_witness:
  "fst (detectModulation cEnv exEndClose)
   \<and> frameType (frameStatus (snd (detectModulation cEnv exEndClose))) = PollFrame
   \<and> bitrate (decoder (snd (detectModulation cEnv exEndClose))) = Some r106k
   \<and> modulation (decoder (snd (detectModulation cEnv exEndClose))) = Some r106k
   \<and> \<not> fst (detectModulation cEnv exBeginClose)
   \<and> bitrate (decoder (snd (detectModulation cEnv exBeginClose))) = bitrate (decoder exBeginClose)
   \<and> modulation (decoder (snd (detectModulation cEnv exBeginClose))) = modulation (decoder exBeginClose)"
proof -
  have t: "fst (detectModulation cEnv exEndClose)"
    and f: "\<not> fst (detectModulation cEnv exBeginClose)"
    by code_simp+
  from detect_selection_claim [of cEnv exEndClose] t
  have 1: "frameType (frameStatus (snd (detectModulation cEnv exEndClose))) = PollFrame
   \<and> bitrate (decoder (snd (detectModulation cEnv exEndClose))) = Some r106k
   \<and> modulation (decoder (snd (detectModulation cEnv exEndClose))) = Some r106k"
    by blast
  from detect_selection_claim [of cEnv exBeginClose] f
  have 2: "bitrate (decoder (snd (detectModulation cEnv exBeginClose))) = bitrate (decoder exBeginClose)
   \<and> modulation (decoder (snd (detectModulation cEnv exBeginClose))) = modulation (decoder exBeginClose)"
    by blast
  from t f 1 2 show ?thesis by blast
qed

lemma sof_begin_closes:
  assumes ex: "examined s" and no: "\<not> overshoot env s"
  shows "searchStage (modulationStatus s r106k) = SOF_BEGIN \<longrightarrow>
       (let bp = bitrateParams s r106k;
            m1 = sofBeginPeak env bp (signalClock (decoder s)) (edgeOf env r106k r106k s)
                   (deepOf env r106k s) (minimumModulationThreshold s)
                   (integrate env r106k r106k s);
            p = searchPeakTime m1;
            m' = modulationStatus (snd (detectModulation env s)) r106k
        in signalClock (decoder s) = searchEndTime m1 \<longrightarrow>
             \<not> fst (detectModulation env s)
           \<and> (p \<noteq> 0 \<longrightarrow>
                 symbolStartTime m' = p - period8SymbolSamples bp
               \<and> searchStage m' = SOF_IDLE
               \<and> searchStartTime m' = p + 10 * period1SymbolSamples bp - period2SymbolSamples bp
               \<and> searchEndTime m' = p + 11 * period1SymbolSamples bp + period2SymbolSamples bp)
           \<and> (p = 0 \<longrightarrow> searchStage m' = SOF_BEGIN))"
  using no
  by (auto simp: Let_def detectModulation_examined [OF ex] detectRate_begin sofBegin_def)

lemma sof_end_closes:
  assumes ex: "examined s" and no: "\<not> overshoot env s"
  shows "searchStage (modulationStatus s r106k) = SOF_END \<longrightarrow>
     searchStartTime (modulationStatus s r106k) < signalClock (decoder s) \<longrightarrow>
     signalClock (decoder s) \<le> searchEndTime (modulationStatus s r106k) \<longrightarrow>
       (let bp = bitrateParams s r106k;
            m1 = sofEndPeak env bp (signalClock (decoder s)) (edgeOf env r106k r106k s)
                   (deepOf env r106k s) (minimumModulationThreshold s)
                   (integrate env r106k r106k s);
            q = searchPeakTime m1;
            s' = snd (detectModulation env s);
            m' = modulationStatus s' r106k
        in signalClock (decoder s) = searchEndTime m1 \<longrightarrow>
             (q \<noteq> 0 \<longrightarrow>
                 fst (detectModulation env s)
               \<and> symbolEndTime m' = q - period8SymbolSamples bp
               \<and> symbolSyncTime m' = 0
               \<and> frameType (frameStatus s') = PollFrame
               \<and> symbolRate (frameStatus s') = symbolsPerSecond bp
               \<and> frameStart (frameStatus s')
                   = symbolStartTime (modulationStatus s r106k) - symbolDelayDetect bp
               \<and> frameEnd (frameStatus s') = 0
               \<and> bitrate (decoder s') = Some r106k
               \<and> modulation (decoder s') = Some r106k)
           \<and> (q = 0 \<longrightarrow> \<not> fst (detectModulation env s) \<and> searchStage m' = SOF_BEGIN))"
  using no
  by (auto simp: Let_def detectModulation_examined [OF ex] detectRate_end sofEnd_def sofAbandon_def)

text \<open>
  Claim C6. On a sample that the detector examines and whose modulation depth does not
  exceed the maximum threshold, with \<open>p\<close> and \<open>q\<close> the peak times recorded once
  the edge has been tracked on this sample. In the stage \<open>SOF_BEGIN\<close>, when the signal
  clock reaches the end of the search window: no detection is reported; with a peak
  recorded (\<open>p \<noteq> 0\<close>) the symbol start time is \<open>p - period8\<close> and the machine is in
  \<open>SOF_IDLE\<close> with the search window from \<open>p + 10 * period1 - period2\<close> to
  \<open>p + 11 * period1 + period2\<close>; without one it stays in \<open>SOF_BEGIN\<close>. In the stage
  \<open>SOF_END\<close>, inside the search window, when the signal clock reaches its end: with a
  peak recorded (\<open>q \<noteq> 0\<close>) the function returns true, the symbol end time is
  \<open>q - period8\<close>, the symbol sync time 0, the frame type \<open>PollFrame\<close>, the symbol rate
  that of the bitrate, the frame start \<open>symbolStartTime - symbolDelayDetect\<close>, the frame
  end 0, and the bitrate and the modulation are the selections of the decoder; without
  one the machine is back in \<open>SOF_BEGIN\<close> and no detection is reported.
\<close>

theorem sof_claim:
  assumes ex: "examined s" and no: "\<not> overshoot env s"
  shows "(searchStage (modulationStatus s r106k) = SOF_BEGIN \<longrightarrow>
       (let bp = bitrateParams s r106k;
            m1 = sofBeginPeak env bp (signalClock (decoder s)) (edgeOf env r106k r106k s)
                   (deepOf env r106k s) (minimumModulationThreshold s)
                   (integrate env r106k r106k s);
            p = searchPeakTime m1;
            m' = modulationStatus (snd (detectModulation env s)) r106k
        in signalClock (decoder s) = searchEndTime m1 \<longrightarrow>
             \<not> fst (detectModulation env s)
           \<and> (p \<noteq> 0 \<longrightarrow>
                 symbolStartTime m' = p - period8SymbolSamples bp
               \<and> searchStage m' = SOF_IDLE
               \<and> searchStartTime m' = p + 10 * period1SymbolSamples bp - period2SymbolSamples bp
               \<and> searchEndTime m' = p + 11 * period1SymbolSamples bp + period2SymbolSamples bp)
           \<and> (p = 0 \<longrightarrow> searchStage m' = SOF_BEGIN)))
   \<and> (searchStage (modulationStatus s r106k) = SOF_END \<longrightarrow>
     searchStartTime (modulationStatus s r106k) < signalClock (decoder s) \<longrightarrow>
     signalClock (decoder s) \<le> searchEndTime (modulationStatus s r106k) \<longrightarrow>
       (let bp = bitrateParams s r106k;
            m1 = sofEndPeak env bp (signalClock (decoder s)) (edgeOf env r106k r106k s)
                   (deepOf env r106k s) (minimumModulationThreshold s)
                   (integrate env r106k r106k s);
            q = searchPeakTime m1;
            s' = snd (detectModulation env s);
            m' = modulationStatus s' r106k
        in signalClock (decoder s) = searchEndTime m1 \<longrightarrow>
             (q \<noteq> 0 \<longrightarrow>
                 fst (detectModulation env s)
               \<and> symbolEndTime m' = q - period8SymbolSamples bp
               \<and> symbolSyncTime m' = 0
               \<and> frameType (frameStatus s') = PollFrame
               \<and> symbolRate (frameStatus s') = symbolsPerSecond bp
               \<and> frameStart (frameStatus s')
                   = symbolStartTime (modulationStatus s r106k) - symbolDelayDetect bp
               \<and> frameEnd (frameStatus s') = 0
               \<and> bitrate (decoder s') = Some r106k
               \<and> modulation (decoder s') = Some r106k)
           \<and> (q = 0 \<longrightarrow> \<not> fst (detectModulation env s) \<and> searchStage m' = SOF_BEGIN)))"
  using sof_begin_closes [OF ex no] sof_end_closes [OF ex no] by (rule conjI)

text \<open>
  On four samples. The sample at 1003 of the run of \<open>exSof\<close> closes the first window with
  the peak recorded at 1001: the symbol starts at 1000 and the machine waits in
  \<open>SOF_IDLE\<close> for an edge from 1077 to 1093. A steady sample at clock 0 closes an empty
  window: the machine stays in \<open>SOF_BEGIN\<close>. The sample at 1101 closes the last window
  with the peak recorded at 1100: the start of frame is confirmed, the symbol ends at
  1099 and the frame starts at 1000. A steady sample at 1108, with no closing edge seen,
  sends the machine back to \<open>SOF_BEGIN\<close>.
\<close>

theorem sof_claim_witness:
  "examined exBeginClose
   \<and> \<not> overshoot cEnv exBeginClose
   \<and> searchStage (modulationStatus exBeginClose r106k) = SOF_BEGIN
   \<and> signalClock (decoder exBeginClose) = searchEndTime
           (sofBeginPeak cEnv (bitrateParams exBeginClose r106k) (signalClock (decoder exBeginClose)) (edgeOf cEnv r106k r106k exBeginClose)
            (deepOf cEnv r106k exBeginClose) (minimumModulationThreshold exBeginClose) (integrate cEnv r106k r106k exBeginClose))
   \<and> searchPeakTime
           (sofBeginPeak cEnv (bitrateParams exBeginClose r106k) (signalClock (decoder exBeginClose)) (edgeOf cEnv r106k r106k exBeginClose)
            (deepOf cEnv r106k exBeginClose) (minimumModulationThreshold exBeginClose) (integrate cEnv r106k r106k exBeginClose)) \<noteq> 0
   \<and> searchPeakTime
           (sofBeginPeak cEnv (bitrateParams exBeginClose r106k) (signalClock (decoder exBeginClose)) (edgeOf cEnv r106k r106k exBeginClose)
            (deepOf cEnv r106k exBeginClose) (minimumModulationThreshold exBeginClose) (integrate cEnv r106k r106k exBeginClose)) = 1001
   \<and> period1SymbolSamples (bitrateParams exBeginClose r106k) = 8
   \<and> period2SymbolSamples (bitrateParams exBeginClose r106k) = 4
   \<and> period8SymbolSamples (bitrateParams exBeginClose r106k) = 1
   \<and> \<not> fst (detectModulation cEnv exBeginClose)
   \<and> symbolStartTime (modulationStatus (snd (detectModulation cEnv exBeginClose)) r106k) = 1000
   \<and> searchStage (modulationStatus (snd (detectModulation cEnv exBeginClose)) r106k) = SOF_IDLE
   \<and> searchStartTime (modulationStatus (snd (detectModulation cEnv exBeginClose)) r106k) = 1077
   \<and> searchEndTime (modulationStatus (snd (detectModulation cEnv exBeginClose)) r106k) = 1093
   \<and> examined exBeginNoPeak
   \<and> \<not> overshoot cEnv exBeginNoPeak
   \<and> searchStage (modulationStatus exBeginNoPeak r106k) = SOF_BEGIN
   \<and> signalClock (decoder exBeginNoPeak) = searchEndTime
           (sofBeginPeak cEnv (bitrateParams exBeginNoPeak r106k) (signalClock (decoder exBeginNoPeak)) (edgeOf cEnv r106k r106k exBeginNoPeak)
            (deepOf cEnv r106k exBeginNoPeak) (minimumModulationThreshold exBeginNoPeak) (integrate cEnv r106k r106k exBeginNoPeak))
   \<and> searchPeakTime
           (sofBeginPeak cEnv (bitrateParams exBeginNoPeak r106k) (signalClock (decoder exBeginNoPeak)) (edgeOf cEnv r106k r106k exBeginNoPeak)
            (deepOf cEnv r106k exBeginNoPeak) (minimumModulationThreshold exBeginNoPeak) (integrate cEnv r106k r106k exBeginNoPeak)) = 0
   \<and> \<not> fst (detectModulation cEnv exBeginNoPeak)
   \<and> searchStage (modulationStatus (snd (detectModulation cEnv exBeginNoPeak)) r106k) = SOF_BEGIN
   \<and> examined exEndClose
   \<and> \<not> overshoot cEnv exEndClose
   \<and> searchStage (modulationStatus exEndClose r106k) = SOF_END
   \<and> searchStartTime (modulationStatus exEndClose r106k) < signalClock (decoder exEndClose)
   \<and> signalClock (decoder exEndClose) \<le> searchEndTime (modulationStatus exEndClose r106k)
   \<and> signalClock (decoder exEndClose) = searchEndTime
           (sofEndPeak cEnv (bitrateParams exEndClose r106k) (signalClock (decoder exEndClose)) (edgeOf cEnv r106k r106k exEndClose)
            (deepOf cEnv r106k exEndClose) (minimumModulationThreshold exEndClose) (integrate cEnv r106k r106k exEndClose))
   \<and> searchPeakTime
           (sofEndPeak cEnv (bitrateParams exEndClose r106k) (signalClock (decoder exEndClose)) (edgeOf cEnv r106k r106k exEndClose)
            (deepOf cEnv r106k exEndClose) (minimumModulationThreshold exEndClose) (integrate cEnv r106k r106k exEndClose)) \<noteq> 0
   \<and> searchPeakTime
           (sofEndPeak cEnv (bitrateParams exEndClose r106k) (signalClock (decoder exEndClose)) (edgeOf cEnv r106k r106k exEndClose)
            (deepOf cEnv r106k exEndClose) (minimumModulationThreshold exEndClose) (integrate cEnv r106k r106k exEndClose)) = 1100
   \<and> period8SymbolSamples (bitrateParams exEndClose r106k) = 1
   \<and> symbolsPerSecond (bitrateParams exEndClose r106k) = 105937
   \<and> symbolStartTime (modulationStatus exEndClose r106k) = 1000
   \<and> symbolDelayDetect (bitrateParams exEndClose r106k) = 0
   \<and> fst (detectModulation cEnv exEndClose)
   \<and> symbolEndTime (modulationStatus (snd (detectModulation cEnv exEndClose)) r106k) = 1099
   \<and> symbolSyncTime (modulationStatus (snd (detectModulation cEnv exEndClose)) r106k) = 0
   \<and> frameType (frameStatus (snd (detectModulation cEnv exEndClose))) = PollFrame
   \<and> symbolRate (frameStatus (snd (detectModulation cEnv exEndClose))) = 105937
   \<and> frameStart (frameStatus (snd (detectModulation cEnv exEndClose))) = 1000
   \<and> frameEnd (frameStatus (snd (detectModulation cEnv exEndClose))) = 0
   \<and> bitrate (decoder (snd (detectModulation cEnv exEndClose))) = Some r106k
   \<and> modulation (decoder (snd (detectModulation cEnv exEndClose))) = Some r106k
   \<and> examined exEndNoPeak
   \<and> \<not> overshoot cEnv exEndNoPeak
   \<and> searchStage (modulationStatus exEndNoPeak r106k) = SOF_END
   \<and> searchStartTime (modulationStatus exEndNoPeak r106k) < signalClock (decoder exEndNoPeak)
   \<and> signalClock (decoder exEndNoPeak) \<le> searchEndTime (modulationStatus exEndNoPeak r106k)
   \<and> signalClock (decoder exEndNoPeak) = searchEndTime
           (sofEndPeak cEnv (bitrateParams exEndNoPeak r106k) (signalClock (decoder exEndNoPeak)) (edgeOf cEnv r106k r106k exEndNoPeak)
            (deepOf cEnv r106k exEndNoPeak) (minimumModulationThreshold exEndNoPeak) (integrate cEnv r106k r106k exEndNoPeak))
   \<and> searchPeakTime
           (sofEndPeak cEnv (bitrateParams exEndNoPeak r106k) (signalClock (decoder exEndNoPeak)) (edgeOf cEnv r106k r106k exEndNoPeak)
            (deepOf cEnv r106k exEndNoPeak) (minimumModulationThreshold exEndNoPeak) (integrate cEnv r106k r106k exEndNoPeak)) = 0
   \<and> \<not> fst (detectModulation cEnv exEndNoPeak)
   \<and> searchStage (modulationStatus (snd (detectModulation cEnv exEndNoPeak)) r106k) = SOF_BEGIN"
proof -
  have "let s = exBeginClose in
      examined s
    \<and> \<not> overshoot cEnv s
    \<and> searchStage (modulationStatus s r106k) = SOF_BEGIN
    \<and> signalClock (decoder s) = searchEndTime
           (sofBeginPeak cEnv (bitrateParams s r106k) (signalClock (decoder s)) (edgeOf cEnv r106k r106k s)
            (deepOf cEnv r106k s) (minimumModulationThreshold s) (integrate cEnv r106k r106k s))
    \<and> searchPeakTime
           (sofBeginPeak cEnv (bitrateParams s r106k) (signalClock (decoder s)) (edgeOf cEnv r106k r106k s)
            (deepOf cEnv r106k s) (minimumModulationThreshold s) (integrate cEnv r106k r106k s)) \<noteq> 0
    \<and> searchPeakTime
           (sofBeginPeak cEnv (bitrateParams s r106k) (signalClock (decoder s)) (edgeOf cEnv r106k r106k s)
            (deepOf cEnv r106k s) (minimumModulationThreshold s) (integrate cEnv r106k r106k s)) = 1001
    \<and> period1SymbolSamples (bitrateParams s r106k) = 8
    \<and> period2SymbolSamples (bitrateParams s r106k) = 4
    \<and> period8SymbolSamples (bitrateParams s r106k) = 1"
    by code_simp
  then have h1:
    "examined exBeginClose"
    "\<not> overshoot cEnv exBeginClose"
    "searchStage (modulationStatus exBeginClose r106k) = SOF_BEGIN"
    "signalClock (decoder exBeginClose) = searchEndTime
           (sofBeginPeak cEnv (bitrateParams exBeginClose r106k) (signalClock (decoder exBeginClose)) (edgeOf cEnv r106k r106k exBeginClose)
            (deepOf cEnv r106k exBeginClose) (minimumModulationThreshold exBeginClose) (integrate cEnv r106k r106k exBeginClose))"
    "searchPeakTime
           (sofBeginPeak cEnv (bitrateParams exBeginClose r106k) (signalClock (decoder exBeginClose)) (edgeOf cEnv r106k r106k exBeginClose)
            (deepOf cEnv r106k exBeginClose) (minimumModulationThreshold exBeginClose) (integrate cEnv r106k r106k exBeginClose)) \<noteq> 0"
    "searchPeakTime
           (sofBeginPeak cEnv (bitrateParams exBeginClose r106k) (signalClock (decoder exBeginClose)) (edgeOf cEnv r106k r106k exBeginClose)
            (deepOf cEnv r106k exBeginClose) (minimumModulationThreshold exBeginClose) (integrate cEnv r106k r106k exBeginClose)) = 1001"
    "period1SymbolSamples (bitrateParams exBeginClose r106k) = 8"
    "period2SymbolSamples (bitrateParams exBeginClose r106k) = 4"
    "period8SymbolSamples (bitrateParams exBeginClose r106k) = 1"
    unfolding Let_def by blast+
  from sof_claim [OF h1(1,2), unfolded Let_def] h1(3-)
  have c1:
    "\<not> fst (detectModulation cEnv exBeginClose)"
    "symbolStartTime (modulationStatus (snd (detectModulation cEnv exBeginClose)) r106k) = 1000"
    "searchStage (modulationStatus (snd (detectModulation cEnv exBeginClose)) r106k) = SOF_IDLE"
    "searchStartTime (modulationStatus (snd (detectModulation cEnv exBeginClose)) r106k) = 1077"
    "searchEndTime (modulationStatus (snd (detectModulation cEnv exBeginClose)) r106k) = 1093"
    by simp_all
  have "let s = exBeginNoPeak in
      examined s
    \<and> \<not> overshoot cEnv s
    \<and> searchStage (modulationStatus s r106k) = SOF_BEGIN
    \<and> signalClock (decoder s) = searchEndTime
           (sofBeginPeak cEnv (bitrateParams s r106k) (signalClock (decoder s)) (edgeOf cEnv r106k r106k s)
            (deepOf cEnv r106k s) (minimumModulationThreshold s) (integrate cEnv r106k r106k s))
    \<and> searchPeakTime
           (sofBeginPeak cEnv (bitrateParams s r106k) (signalClock (decoder s)) (edgeOf cEnv r106k r106k s)
            (deepOf cEnv r106k s) (minimumModulationThreshold s) (integrate cEnv r106k r106k s)) = 0"
    by code_simp
  then have h2:
    "examined exBeginNoPeak"
    "\<not> overshoot cEnv exBeginNoPeak"
    "searchStage (modulationStatus exBeginNoPeak r106k) = SOF_BEGIN"
    "signalClock (decoder exBeginNoPeak) = searchEndTime
           (sofBeginPeak cEnv (bitrateParams exBeginNoPeak r106k) (signalClock (decoder exBeginNoPeak)) (edgeOf cEnv r106k r106k exBeginNoPeak)
            (deepOf cEnv r106k exBeginNoPeak) (minimumModulationThreshold exBeginNoPeak) (integrate cEnv r106k r106k exBeginNoPeak))"
    "searchPeakTime
           (sofBeginPeak cEnv (bitrateParams exBeginNoPeak r106k) (signalClock (decoder exBeginNoPeak)) (edgeOf cEnv r106k r106k exBeginNoPeak)
            (deepOf cEnv r106k exBeginNoPeak) (minimumModulationThreshold exBeginNoPeak) (integrate cEnv r106k r106k exBeginNoPeak)) = 0"
    unfolding Let_def by blast+
  from sof_claim [OF h2(1,2), unfolded Let_def] h2(3-)
  have c2:
    "\<not> fst (detectModulation cEnv exBeginNoPeak)"
    "searchStage (modulationStatus (snd (detectModulation cEnv exBeginNoPeak)) r106k) = SOF_BEGIN"
    by simp_all
  have "let s = exEndClose in
      examined s
    \<and> \<not> overshoot cEnv s
    \<and> searchStage (modulationStatus s r106k) = SOF_END
    \<and> searchStartTime (modulationStatus s r106k) < signalClock (decoder s)
    \<and> signalClock (decoder s) \<le> searchEndTime (modulationStatus s r106k)
    \<and> signalClock (decoder s) = searchEndTime
           (sofEndPeak cEnv (bitrateParams s r106k) (signalClock (decoder s)) (edgeOf cEnv r106k r106k s)
            (deepOf cEnv r106k s) (minimumModulationThreshold s) (integrate cEnv r106k r106k s))
    \<and> searchPeakTime
           (sofEndPeak cEnv (bitrateParams s r106k) (signalClock (decoder s)) (edgeOf cEnv r106k r106k s)
            (deepOf cEnv r106k s) (minimumModulationThreshold s) (integrate cEnv r106k r106k s)) \<noteq> 0
    \<and> searchPeakTime
           (sofEndPeak cEnv (bitrateParams s r106k) (signalClock (decoder s)) (edgeOf cEnv r106k r106k s)
            (deepOf cEnv r106k s) (minimumModulationThreshold s) (integrate cEnv r106k r106k s)) = 1100
    \<and> period8SymbolSamples (bitrateParams s r106k) = 1
    \<and> symbolsPerSecond (bitrateParams s r106k) = 105937
    \<and> symbolStartTime (modulationStatus s r106k) = 1000
    \<and> symbolDelayDetect (bitrateParams s r106k) = 0"
    by code_simp
  then have h3:
    "examined exEndClose"
    "\<not> overshoot cEnv exEndClose"
    "searchStage (modulationStatus exEndClose r106k) = SOF_END"
    "searchStartTime (modulationStatus exEndClose r106k) < signalClock (decoder exEndClose)"
    "signalClock (decoder exEndClose) \<le> searchEndTime (modulationStatus exEndClose r106k)"
    "signalClock (decoder exEndClose) = searchEndTime
           (sofEndPeak cEnv (bitrateParams exEndClose r106k) (signalClock (decoder exEndClose)) (edgeOf cEnv r106k r106k exEndClose)
            (deepOf cEnv r106k exEndClose) (minimumModulationThreshold exEndClose) (integrate cEnv r106k r106k exEndClose))"
    "searchPeakTime
           (sofEndPeak cEnv (bitrateParams exEndClose r106k) (signalClock (decoder exEndClose)) (edgeOf cEnv r106k r106k exEndClose)
            (deepOf cEnv r106k exEndClose) (minimumModulationThreshold exEndClose) (integrate cEnv r106k r106k exEndClose)) \<noteq> 0"
    "searchPeakTime
           (sofEndPeak cEnv (bitrateParams exEndClose r106k) (signalClock (decoder exEndClose)) (edgeOf cEnv r106k r106k exEndClose)
            (deepOf cEnv r106k exEndClose) (minimumModulationThreshold exEndClose) (integrate cEnv r106k r106k exEndClose)) = 1100"
    "period8SymbolSamples (bitrateParams exEndClose r106k) = 1"
    "symbolsPerSecond (bitrateParams exEndClose r106k) = 105937"
    "symbolStartTime (modulationStatus exEndClose r106k) = 1000"
    "symbolDelayDetect (bitrateParams exEndClose r106k) = 0"
    unfolding Let_def by blast+
  from sof_claim [OF h3(1,2), unfolded Let_def] h3(3-)
  have c3:
    "fst (detectModulation cEnv exEndClose)"
    "symbolEndTime (modulationStatus (snd (detectModulation cEnv exEndClose)) r106k) = 1099"
    "symbolSyncTime (modulationStatus (snd (detectModulation cEnv exEndClose)) r106k) = 0"
    "frameType (frameStatus (snd (detectModulation cEnv exEndClose))) = PollFrame"
    "symbolRate (frameStatus (snd (detectModulation cEnv exEndClose))) = 105937"
    "frameStart (frameStatus (snd (detectModulation cEnv exEndClose))) = 1000"
    "frameEnd (frameStatus (snd (detectModulation cEnv exEndClose))) = 0"
    "bitrate (decoder (snd (detectModulation cEnv exEndClose))) = Some r106k"
    "modulation (decoder (snd (detectModulation cEnv exEndClose))) = Some r106k"
    by simp_all
  have "let s = exEndNoPeak in
      examined s
    \<and> \<not> overshoot cEnv s
    \<and> searchStage (modulationStatus s r106k) = SOF_END
    \<and> searchStartTime (modulationStatus s r106k) < signalClock (decoder s)
    \<and> signalClock (decoder s) \<le> searchEndTime (modulationStatus s r106k)
    \<and> signalClock (decoder s) = searchEndTime
           (sofEndPeak cEnv (bitrateParams s r106k) (signalClock (decoder s)) (edgeOf cEnv r106k r106k s)
            (deepOf cEnv r106k s) (minimumModulationThreshold s) (integrate cEnv r106k r106k s))
    \<and> searchPeakTime
           (sofEndPeak cEnv (bitrateParams s r106k) (signalClock (decoder s)) (edgeOf cEnv r106k r106k s)
            (deepOf cEnv r106k s) (minimumModulationThreshold s) (integrate cEnv r106k r106k s)) = 0"
    by code_simp
  then have h4:
    "examined exEndNoPeak"
    "\<not> overshoot cEnv exEndNoPeak"
    "searchStage (modulationStatus exEndNoPeak r106k) = SOF_END"
    "searchStartTime (modulationStatus exEndNoPeak r106k) < signalClock (decoder exEndNoPeak)"
    "signalClock (decoder exEndNoPeak) \<le> searchEndTime (modulationStatus exEndNoPeak r106k)"
    "signalClock (decoder exEndNoPeak) = searchEndTime
           (sofEndPeak cEnv (bitrateParams exEndNoPeak r106k) (signalClock (decoder exEndNoPeak)) (edgeOf cEnv r106k r106k exEndNoPeak)
            (deepOf cEnv r106k exEndNoPeak) (minimumModulationThreshold exEndNoPeak) (integrate cEnv r106k r106k exEndNoPeak))"
    "searchPeakTime
           (sofEndPeak cEnv (bitrateParams exEndNoPeak r106k) (signalClock (decoder exEndNoPeak)) (edgeOf cEnv r106k r106k exEndNoPeak)
            (deepOf cEnv r106k exEndNoPeak) (minimumModulationThreshold exEndNoPeak) (integrate cEnv r106k r106k exEndNoPeak)) = 0"
    unfolding Let_def by blast+
  from sof_claim [OF h4(1,2), unfolded Let_def] h4(3-)
  have c4:
    "\<not> fst (detectModulation cEnv exEndNoPeak)"
    "searchStage (modulationStatus (snd (detectModulation cEnv exEndNoPeak)) r106k) = SOF_BEGIN"
    by simp_all
  from h1 c1 h2 c2 h3 c3 h4 c4 show ?thesis by (intro conjI)
qed

section \<open>The modulation depth above the maximum threshold\<close>

lemma feedSample_keeps [simp]:
  "modulationStatus (feedSample x s) = modulationStatus s"
  "bitrateParams (feedSample x s) = bitrateParams s"
  "frameStatus (feedSample x s) = frameStatus s"
  by (simp_all add: feedSample_def)

lemma detectAll_append:
  "detectAll env s (xs @ ys) = detectAll env (detectAll env s xs) ys"
  by (induction xs arbitrary: s) simp_all

lemma detectAll_snoc:
  "detectAll env s (xs @ [y]) = snd (detectModulation env (feedSample y (detectAll env s xs)))"
  by (simp add: detectAll_append)

text \<open>
  A run of the detector that starts in the stage \<open>SOF_BEGIN\<close> is still there at its
  end, or has a call that led from \<open>SOF_BEGIN\<close> to \<open>SOF_IDLE\<close>.
\<close>

lemma stage_trace:
  assumes "searchStage (modulationStatus s0 r106k) = SOF_BEGIN"
  shows "searchStage (modulationStatus (detectAll env s0 ys) r106k) = SOF_BEGIN
       \<or> (\<exists>ys1 y ys2. ys = ys1 @ y # ys2
            \<and> searchStage (modulationStatus (detectAll env s0 ys1) r106k) = SOF_BEGIN
            \<and> searchStage (modulationStatus (detectAll env s0 (ys1 @ [y])) r106k) = SOF_IDLE)"
proof (induction ys rule: rev_induct)
  case Nil
  with assms show ?case by simp
next
  case (snoc z zs)
  from snoc.IH show ?case
  proof
    assume b: "searchStage (modulationStatus (detectAll env s0 zs) r106k) = SOF_BEGIN"
    then have "searchStage (modulationStatus (feedSample z (detectAll env s0 zs)) r106k) = SOF_BEGIN"
      by simp
    from detect_from_begin [OF this, of env]
    have "searchStage (modulationStatus (detectAll env s0 (zs @ [z])) r106k) = SOF_BEGIN
        \<or> searchStage (modulationStatus (detectAll env s0 (zs @ [z])) r106k) = SOF_IDLE"
      by (simp add: detectAll_snoc)
    then show ?thesis
    proof
      assume "searchStage (modulationStatus (detectAll env s0 (zs @ [z])) r106k) = SOF_BEGIN"
      then show ?thesis by blast
    next
      assume "searchStage (modulationStatus (detectAll env s0 (zs @ [z])) r106k) = SOF_IDLE"
      with b have "zs @ [z] = zs @ z # []
            \<and> searchStage (modulationStatus (detectAll env s0 zs) r106k) = SOF_BEGIN
            \<and> searchStage (modulationStatus (detectAll env s0 (zs @ [z])) r106k) = SOF_IDLE"
        by simp
      then show ?thesis by blast
    qed
  next
    assume "\<exists>ys1 y ys2. zs = ys1 @ y # ys2
            \<and> searchStage (modulationStatus (detectAll env s0 ys1) r106k) = SOF_BEGIN
            \<and> searchStage (modulationStatus (detectAll env s0 (ys1 @ [y])) r106k) = SOF_IDLE"
    then obtain ys1 y ys2 where "zs = ys1 @ y # ys2"
      and t: "searchStage (modulationStatus (detectAll env s0 ys1) r106k) = SOF_BEGIN"
        "searchStage (modulationStatus (detectAll env s0 (ys1 @ [y])) r106k) = SOF_IDLE"
      by blast
    then have "zs @ [z] = ys1 @ y # (ys2 @ [z])" by simp
    with t show ?thesis by blast
  qed
qed

lemma overshoot_examined:
  assumes "overshoot env s" and "examined s"
  shows "detectModulation env s =
    (False,
     s\<lparr>modulationStatus := (modulationStatus s)
        (r106k := (integrate env r106k r106k s)
           \<lparr>searchStage := SOF_BEGIN, searchStartTime := 0, searchEndTime := 0,
            detectorPeek := 0\<rparr>)\<rparr>)"
  using assms by (simp add: detectModulation_examined detectRate_overshoot)

text \<open>
  After an examined sample with the depth above the maximum, a later confirmation comes
  from a search that left the stage \<open>SOF_BEGIN\<close> after that sample.
\<close>

lemma overshoot_trace:
  assumes over: "overshoot env (feedSample x s)" and ex: "examined (feedSample x s)"
    and conf: "fst (detectModulation env (feedSample z (detectAll env s (x # ys))))"
  shows "\<exists>ys1 y ys2. ys = ys1 @ y # ys2
       \<and> searchStage (modulationStatus (detectAll env s (x # ys1)) r106k) = SOF_BEGIN
       \<and> searchStage (modulationStatus (detectAll env s (x # ys1 @ [y])) r106k) = SOF_IDLE"
proof -
  let ?s0 = "snd (detectModulation env (feedSample x s))"
  have b: "searchStage (modulationStatus ?s0 r106k) = SOF_BEGIN"
    by (simp add: overshoot_examined [OF over ex])
  from detect_true [OF conf]
  have "searchStage (modulationStatus (detectAll env ?s0 ys) r106k) = SOF_END" by simp
  then have "searchStage (modulationStatus (detectAll env ?s0 ys) r106k) \<noteq> SOF_BEGIN" by simp
  with stage_trace [OF b, of env ys] show ?thesis by simp
qed

text \<open>
  Claim C7, as the code has it. \<open>detectModulation\<close> never returns true on a sample whose
  modulation depth exceeds the maximum modulation threshold. If the sample is examined
  (the power average exceeds the power level threshold), the search is aborted: the
  stage is \<open>SOF_BEGIN\<close>, the search window and the detector peak are cleared. A sample
  that is not examined leaves the whole state as it is, the search included. After an
  examined sample \<open>x\<close> with the depth above the maximum, a confirmation on a later
  sample \<open>z\<close> comes from a search that started again: among the samples \<open>ys\<close> between
  the two there is one that led the machine from \<open>SOF_BEGIN\<close> to \<open>SOF_IDLE\<close>.
\<close>

theorem overshoot_claim:
  "(overshoot env s \<longrightarrow> \<not> fst (detectModulation env s))
   \<and> (overshoot env s \<and> examined s \<longrightarrow>
        (let m' = modulationStatus (snd (detectModulation env s)) r106k
         in searchStage m' = SOF_BEGIN \<and> searchStartTime m' = 0 \<and> searchEndTime m' = 0
            \<and> detectorPeek m' = 0))
   \<and> (\<not> examined s \<longrightarrow> detectModulation env s = (False, s))
   \<and> (overshoot env (feedSample x s0) \<and> examined (feedSample x s0)
        \<and> fst (detectModulation env (feedSample z (detectAll env s0 (x # ys))))
      \<longrightarrow> (\<exists>ys1 y ys2. ys = ys1 @ y # ys2
            \<and> searchStage (modulationStatus (detectAll env s0 (x # ys1)) r106k) = SOF_BEGIN
            \<and> searchStage (modulationStatus (detectAll env s0 (x # ys1 @ [y])) r106k) = SOF_IDLE))"
proof (intro conjI impI)
  assume "overshoot env s"
  with detect_true [of env s] show "\<not> fst (detectModulation env s)" by blast
next
  assume "overshoot env s \<and> examined s"
  then show "let m' = modulationStatus (snd (detectModulation env s)) r106k
         in searchStage m' = SOF_BEGIN \<and> searchStartTime m' = 0 \<and> searchEndTime m' = 0
            \<and> detectorPeek m' = 0"
    by (simp add: overshoot_examined Let_def)
next
  assume "\<not> examined s"
  then show "detectModulation env s = (False, s)" by (rule detectModulation_skipped)
next
  assume "overshoot env (feedSample x s0) \<and> examined (feedSample x s0)
        \<and> fst (detectModulation env (feedSample z (detectAll env s0 (x # ys))))"
  then show "\<exists>ys1 y ys2. ys = ys1 @ y # ys2
            \<and> searchStage (modulationStatus (detectAll env s0 (x # ys1)) r106k) = SOF_BEGIN
            \<and> searchStage (modulationStatus (detectAll env s0 (x # ys1 @ [y])) r106k) = SOF_IDLE"
    using overshoot_trace by blast
qed

text \<open>
  On the run of \<open>exSof\<close>. The carrier-off sample \<open>exOffMid\<close>, examined while the machine
  waits in \<open>SOF_IDLE\<close>, aborts the search. The sample \<open>exLowPower\<close> is not examined and
  leaves the state as it is. The carrier-off sample \<open>exOff\<close> at the start is examined,
  and the confirmation at the end of the run comes after a sample that led from
  \<open>SOF_BEGIN\<close> to \<open>SOF_IDLE\<close>.
\<close>

theorem overshoot_claim_witness:
  "overshoot cEnv exIdleOff \<and> examined exIdleOff
   \<and> searchStage (modulationStatus exIdleOff r106k) = SOF_IDLE
   \<and> \<not> fst (detectModulation cEnv exIdleOff)
   \<and> searchStage (modulationStatus (snd (detectModulation cEnv exIdleOff)) r106k) = SOF_BEGIN
   \<and> searchStartTime (modulationStatus (snd (detectModulation cEnv exIdleOff)) r106k) = 0
   \<and> searchEndTime (modulationStatus (snd (detectModulation cEnv exIdleOff)) r106k) = 0
   \<and> detectorPeek (modulationStatus (snd (detectModulation cEnv exIdleOff)) r106k) = 0
   \<and> \<not> examined (feedSample exLowPower exEndSearch)
   \<and> detectModulation cEnv (feedSample exLowPower exEndSearch)
       = (False, feedSample exLowPower exEndSearch)
   \<and> overshoot cEnv (feedSample exOff exSearch) \<and> examined (feedSample exOff exSearch)
   \<and> fst (detectModulation cEnv (feedSample exLast (detectAll cEnv exSearch (exOff # exSof))))
   \<and> (\<exists>ys1 y ys2. exSof = ys1 @ y # ys2
        \<and> searchStage (modulationStatus (detectAll cEnv exSearch (exOff # ys1)) r106k) = SOF_BEGIN
        \<and> searchStage (modulationStatus (detectAll cEnv exSearch (exOff # ys1 @ [y])) r106k) = SOF_IDLE)"
proof -
  have "let s = exIdleOff
        in (overshoot cEnv s \<and> examined s) \<and> searchStage (modulationStatus s r106k) = SOF_IDLE"
    by code_simp
  then have a: "overshoot cEnv exIdleOff \<and> examined exIdleOff"
    and st: "searchStage (modulationStatus exIdleOff r106k) = SOF_IDLE"
    unfolding Let_def by blast+
  have n: "\<not> examined (feedSample exLowPower exEndSearch)"
    by code_simp
  have b: "overshoot cEnv (feedSample exOff exSearch) \<and> examined (feedSample exOff exSearch)"
    and c: "fst (detectModulation cEnv (feedSample exLast (detectAll cEnv exSearch (exOff # exSof))))"
    by code_simp+
  from overshoot_claim [where env = cEnv and s = exIdleOff and ?s0.0 = exSearch and x = exOff
      and z = exLast and ys = exSof] a b c
  have 1: "\<not> fst (detectModulation cEnv exIdleOff)
   \<and> searchStage (modulationStatus (snd (detectModulation cEnv exIdleOff)) r106k) = SOF_BEGIN
   \<and> searchStartTime (modulationStatus (snd (detectModulation cEnv exIdleOff)) r106k) = 0
   \<and> searchEndTime (modulationStatus (snd (detectModulation cEnv exIdleOff)) r106k) = 0
   \<and> detectorPeek (modulationStatus (snd (detectModulation cEnv exIdleOff)) r106k) = 0
   \<and> (\<exists>ys1 y ys2. exSof = ys1 @ y # ys2
        \<and> searchStage (modulationStatus (detectAll cEnv exSearch (exOff # ys1)) r106k) = SOF_BEGIN
        \<and> searchStage (modulationStatus (detectAll cEnv exSearch (exOff # ys1 @ [y])) r106k) = SOF_IDLE)"
    by (simp add: Let_def)
  from overshoot_claim [where env = cEnv and s = "feedSample exLowPower exEndSearch"] n
  have 2: "detectModulation cEnv (feedSample exLowPower exEndSearch)
       = (False, feedSample exLowPower exEndSearch)"
    by blast
  from a st n b c 1 2 show ?thesis by blast
qed

text \<open>
  The claim as the specification words it does not hold for a sample that is not
  examined. In \<open>exEndSearch\<close> the search is in the stage \<open>SOF_END\<close>. On the sample
  \<open>exLowPower\<close> the depth is 1, above the maximum threshold 1/2, and the power average
  is not above the power level threshold: the search is not aborted (the stage is not
  \<open>SOF_BEGIN\<close>, the window is not cleared), and the next sample confirms the start of
  frame.
\<close>

theorem overshoot_not_examined:
  "overshoot cEnv (feedSample exLowPower exEndSearch)
   \<and> searchStage (modulationStatus (snd (detectModulation cEnv (feedSample exLowPower exEndSearch))) r106k)
       \<noteq> SOF_BEGIN
   \<and> searchEndTime (modulationStatus (snd (detectModulation cEnv (feedSample exLowPower exEndSearch))) r106k)
       \<noteq> 0
   \<and> fst (detectModulation cEnv (feedSample exAfterLow (detectAll cEnv exEndSearch [exLowPower])))"
  by code_simp

section \<open>Properties of \<open>configure\<close>\<close>

lemma configureLoop_unroll:
  "configureLoop env r106k s
     = configureRate env r424k (configureRate env r212k (configureRate env r106k s))"
  by (simp add: configureLoop.simps eval_nat_numeral)

lemma configureRate_other [simp]:
  "decoder (configureRate env r s) = decoder s"
  "streamStatus (configureRate env r s) = streamStatus s"
  "symbolStatus (configureRate env r s) = symbolStatus s"
  "frameStatus (configureRate env r s) = frameStatus s"
  "protocolStatus (configureRate env r s) = protocolStatus s"
  "chainedFlags (configureRate env r s) = chainedFlags s"
  "lastFrameEnd (configureRate env r s) = lastFrameEnd s"
  by (simp_all add: configureRate_def Let_def)

lemma configureRate_entry:
  "period1SymbolSamples (bitrateParams (configureRate env r s) r)
     = toU32 env (roundF env (sampleTimeUnit (signalParams (decoder s)) * ofInt env (drop_bit r 128)))"
  "period2SymbolSamples (bitrateParams (configureRate env r s) r)
     = toU32 env (roundF env (sampleTimeUnit (signalParams (decoder s)) * ofInt env (drop_bit r 64)))"
  "period4SymbolSamples (bitrateParams (configureRate env r s) r)
     = toU32 env (roundF env (sampleTimeUnit (signalParams (decoder s)) * ofInt env (drop_bit r 32)))"
  "period8SymbolSamples (bitrateParams (configureRate env r s) r)
     = toU32 env (roundF env (sampleTimeUnit (signalParams (decoder s)) * ofInt env (drop_bit r 16)))"
  "modulationStatus (configureRate env r s) r = zeroModulationStatus"
  by (simp_all add: configureRate_def Let_def)

lemma configureRate_below:
  "r' \<noteq> r \<Longrightarrow> bitrateParams (configureRate env r s) r' = bitrateParams s r'"
  "r' \<noteq> r \<Longrightarrow> modulationStatus (configureRate env r s) r' = modulationStatus s r'"
  by (simp_all add: configureRate_def Let_def)

lemma configureLoop_other [simp]:
  "decoder (configureLoop env r106k s) = decoder s"
  "streamStatus (configureLoop env r106k s) = streamStatus s"
  "symbolStatus (configureLoop env r106k s) = symbolStatus s"
  "frameStatus (configureLoop env r106k s) = frameStatus s"
  "protocolStatus (configureLoop env r106k s) = protocolStatus s"
  "chainedFlags (configureLoop env r106k s) = chainedFlags s"
  "lastFrameEnd (configureLoop env r106k s) = lastFrameEnd s"
  by (simp_all add: configureLoop_unroll)

lemma configureLoop_entry:
  assumes "r \<le> r424k"
  shows "period1SymbolSamples (bitrateParams (configureLoop env r106k s) r)
     = toU32 env (roundF env (sampleTimeUnit (signalParams (decoder s)) * ofInt env (drop_bit r 128)))"
  "period2SymbolSamples (bitrateParams (configureLoop env r106k s) r)
     = toU32 env (roundF env (sampleTimeUnit (signalParams (decoder s)) * ofInt env (drop_bit r 64)))"
  "period4SymbolSamples (bitrateParams (configureLoop env r106k s) r)
     = toU32 env (roundF env (sampleTimeUnit (signalParams (decoder s)) * ofInt env (drop_bit r 32)))"
  "period8SymbolSamples (bitrateParams (configureLoop env r106k s) r)
     = toU32 env (roundF env (sampleTimeUnit (signalParams (decoder s)) * ofInt env (drop_bit r 16)))"
  "modulationStatus (configureLoop env r106k s) r = zeroModulationStatus"
proof -
  from assms have "r = 0 \<or> r = 1 \<or> r = 2" by auto
  then show "period1SymbolSamples (bitrateParams (configureLoop env r106k s) r)
     = toU32 env (roundF env (sampleTimeUnit (signalParams (decoder s)) * ofInt env (drop_bit r 128)))"
  "period2SymbolSamples (bitrateParams (configureLoop env r106k s) r)
     = toU32 env (roundF env (sampleTimeUnit (signalParams (decoder s)) * ofInt env (drop_bit r 64)))"
  "period4SymbolSamples (bitrateParams (configureLoop env r106k s) r)
     = toU32 env (roundF env (sampleTimeUnit (signalParams (decoder s)) * ofInt env (drop_bit r 32)))"
  "period8SymbolSamples (bitrateParams (configureLoop env r106k s) r)
     = toU32 env (roundF env (sampleTimeUnit (signalParams (decoder s)) * ofInt env (drop_bit r 16)))"
  "modulationStatus (configureLoop env r106k s) r = zeroModulationStatus"
    by (auto simp: configureLoop_unroll configureRate_entry configureRate_below)
qed

lemma configure_result:
  "\<exists>s'. configure env sampleRateArg s = Inr s'
     \<and> bitrateParams s' = bitrateParams (configureLoop env r106k s)
     \<and> modulationStatus s' = modulationStatus (configureLoop env r106k s)
     \<and> maxFrameSize (protocolStatus s') = 256
     \<and> streamStatus s' = zeroStreamStatus (length (buffer (streamStatus s)))
     \<and> symbolStatus s' = zeroSymbolStatus
     \<and> lastFrameEnd s' = 0 \<and> chainedFlags s' = 0"
proof -
  have b: "bitrateParams (configureLoop env r106k (s\<lparr>symbolStatus := a, streamStatus := b,
       frameStatus := c, lastFrameEnd := d, chainedFlags := e\<rparr>))
       = bitrateParams (configureLoop env r106k s)" for a b c d e
    by (simp add: configureLoop_unroll configureRate_def Let_def)
  have m: "modulationStatus (configureLoop env r106k (s\<lparr>symbolStatus := a, streamStatus := b,
       frameStatus := c, lastFrameEnd := d, chainedFlags := e\<rparr>))
       = modulationStatus (configureLoop env r106k s)" for a b c d e
    by (simp add: configureLoop_unroll configureRate_def Let_def)
  show ?thesis
    by (simp add: configure_def Let_def b m)
qed

text \<open>
  Claim C2, as the code has it. \<open>configure\<close> has no failure: for every sample rate given
  as argument and every state it returns, and what it returns does not depend on the
  argument. In the state returned the maximum frame size is 256; for each of the rates
  106k, 212k and 424k the four periods are the sample time unit of the decoder status
  times 128, 64, 32 and 16 shifted right by the rate, rounded, and the modulation entry
  is zeroed; the stream status and the symbol status are zeroed, the last frame end and
  the chained flags are zero, and the invariant of the framer holds.
\<close>

theorem configure_claim:
  "\<exists>s'. configure env sampleRateArg s = Inr s'
     \<and> configure env otherRate s = Inr s'
     \<and> maxFrameSize (protocolStatus s') = 256
     \<and> (\<forall>r. r \<le> r424k \<longrightarrow>
           period1SymbolSamples (bitrateParams s' r)
             = toU32 env (roundF env (sampleTimeUnit (signalParams (decoder s)) * ofInt env (drop_bit r 128)))
         \<and> period2SymbolSamples (bitrateParams s' r)
             = toU32 env (roundF env (sampleTimeUnit (signalParams (decoder s)) * ofInt env (drop_bit r 64)))
         \<and> period4SymbolSamples (bitrateParams s' r)
             = toU32 env (roundF env (sampleTimeUnit (signalParams (decoder s)) * ofInt env (drop_bit r 32)))
         \<and> period8SymbolSamples (bitrateParams s' r)
             = toU32 env (roundF env (sampleTimeUnit (signalParams (decoder s)) * ofInt env (drop_bit r 16)))
         \<and> modulationStatus s' r = zeroModulationStatus)
     \<and> streamStatus s' = zeroStreamStatus (length (buffer (streamStatus s)))
     \<and> symbolStatus s' = zeroSymbolStatus
     \<and> lastFrameEnd s' = 0 \<and> chainedFlags s' = 0
     \<and> framerInv s'"
proof -
  from configure_result [of env sampleRateArg s] obtain s'
    where c: "configure env sampleRateArg s = Inr s'"
      and b: "bitrateParams s' = bitrateParams (configureLoop env r106k s)"
      and m: "modulationStatus s' = modulationStatus (configureLoop env r106k s)"
      and r: "maxFrameSize (protocolStatus s') = 256"
        "streamStatus s' = zeroStreamStatus (length (buffer (streamStatus s)))"
        "symbolStatus s' = zeroSymbolStatus" "lastFrameEnd s' = 0" "chainedFlags s' = 0"
    by blast
  have o: "configure env otherRate s = configure env sampleRateArg s"
    by (simp add: configure_def)
  have inv: "framerInv s'"
    by (simp add: framerInv_def r zeroStreamStatus_def)
  from c o b m r inv configureLoop_entry [of _ env s] show ?thesis
    by auto
qed

text \<open>
  At the sample rate of 10 MHz the periods of the rate 106k are 94, 47, 24 and 12
  samples, and the argument makes no difference.
\<close>

theorem configure_claim_witness:
  "r106k \<le> r424k
   \<and> (\<exists>s'. configure cEnv 10000000 exImpl = Inr s'
        \<and> configure cEnv 54240000 exImpl = Inr s'
        \<and> maxFrameSize (protocolStatus s') = 256
        \<and> period1SymbolSamples (bitrateParams s' r106k) = 94
        \<and> period2SymbolSamples (bitrateParams s' r106k) = 47
        \<and> period4SymbolSamples (bitrateParams s' r106k) = 24
        \<and> period8SymbolSamples (bitrateParams s' r106k) = 12
        \<and> modulationStatus s' r106k = zeroModulationStatus
        \<and> bits (streamStatus s') = 0 \<and> bytes (streamStatus s') = 0
        \<and> framerInv s')"
proof -
  have le: "r106k \<le> r424k" by simp
  have v: "toU32 cEnv (roundF cEnv (sampleTimeUnit (signalParams (decoder exImpl)) * ofInt cEnv (drop_bit r106k 128))) = 94"
    "toU32 cEnv (roundF cEnv (sampleTimeUnit (signalParams (decoder exImpl)) * ofInt cEnv (drop_bit r106k 64))) = 47"
    "toU32 cEnv (roundF cEnv (sampleTimeUnit (signalParams (decoder exImpl)) * ofInt cEnv (drop_bit r106k 32))) = 24"
    "toU32 cEnv (roundF cEnv (sampleTimeUnit (signalParams (decoder exImpl)) * ofInt cEnv (drop_bit r106k 16))) = 12"
    by code_simp+
  from configure_claim [of cEnv 10000000 exImpl 54240000] obtain s'
    where c: "configure cEnv 10000000 exImpl = Inr s'" "configure cEnv 54240000 exImpl = Inr s'"
      "maxFrameSize (protocolStatus s') = 256"
      and p: "\<forall>r. r \<le> r424k \<longrightarrow>
           period1SymbolSamples (bitrateParams s' r)
             = toU32 cEnv (roundF cEnv (sampleTimeUnit (signalParams (decoder exImpl)) * ofInt cEnv (drop_bit r 128)))
         \<and> period2SymbolSamples (bitrateParams s' r)
             = toU32 cEnv (roundF cEnv (sampleTimeUnit (signalParams (decoder exImpl)) * ofInt cEnv (drop_bit r 64)))
         \<and> period4SymbolSamples (bitrateParams s' r)
             = toU32 cEnv (roundF cEnv (sampleTimeUnit (signalParams (decoder exImpl)) * ofInt cEnv (drop_bit r 32)))
         \<and> period8SymbolSamples (bitrateParams s' r)
             = toU32 cEnv (roundF cEnv (sampleTimeUnit (signalParams (decoder exImpl)) * ofInt cEnv (drop_bit r 16)))
         \<and> modulationStatus s' r = zeroModulationStatus"
      and z: "streamStatus s' = zeroStreamStatus (length (buffer (streamStatus exImpl)))"
      and inv: "framerInv s'"
    by blast
  from p le have q: "period1SymbolSamples (bitrateParams s' r106k)
             = toU32 cEnv (roundF cEnv (sampleTimeUnit (signalParams (decoder exImpl)) * ofInt cEnv (drop_bit r106k 128)))"
    "period2SymbolSamples (bitrateParams s' r106k)
             = toU32 cEnv (roundF cEnv (sampleTimeUnit (signalParams (decoder exImpl)) * ofInt cEnv (drop_bit r106k 64)))"
    "period4SymbolSamples (bitrateParams s' r106k)
             = toU32 cEnv (roundF cEnv (sampleTimeUnit (signalParams (decoder exImpl)) * ofInt cEnv (drop_bit r106k 32)))"
    "period8SymbolSamples (bitrateParams s' r106k)
             = toU32 cEnv (roundF cEnv (sampleTimeUnit (signalParams (decoder exImpl)) * ofInt cEnv (drop_bit r106k 16)))"
    "modulationStatus s' r106k = zeroModulationStatus"
    by blast+
  from z have zz: "bits (streamStatus s') = 0" "bytes (streamStatus s') = 0"
    by (simp_all add: zeroStreamStatus_def)
  from le c q [unfolded v] zz inv show ?thesis by blast
qed

text \<open>
  The claim as the specification words it does not hold: no sample rate makes
  \<open>configure\<close> fail. At 10 MHz, below four times 13.56 MHz, it returns with a symbol of
  94 samples. At 500 kHz it returns with a symbol of 5 samples, below 8, and with an
  eighth of a symbol of 0 samples at the rate 424k.
\<close>

theorem configure_accepts_low_rates:
  "(10000000 :: int) < 4 * 13560000
   \<and> sampleRate (decoder exImpl) = 10000000
   \<and> sampleTimeUnit (signalParams (decoder exImpl)) = Num (10000000 / 13560000)
   \<and> (case configure cEnv 10000000 exImpl of
         Inl e \<Rightarrow> False
       | Inr s' \<Rightarrow> period1SymbolSamples (bitrateParams s' r106k) = 94)
   \<and> sampleRate (decoder exLowRate) = 500000
   \<and> sampleTimeUnit (signalParams (decoder exLowRate)) = Num (500000 / 13560000)
   \<and> (case configure cEnv 500000 exLowRate of
         Inl e \<Rightarrow> False
       | Inr s' \<Rightarrow> period1SymbolSamples (bitrateParams s' r106k) = 5
                 \<and> period1SymbolSamples (bitrateParams s' r106k) < 8
                 \<and> period8SymbolSamples (bitrateParams s' r424k) = 0)"
  by code_simp

end
